(* ===== verification/ZT_Prelude.thy ===== *)
theory ZT_Prelude
  imports Main "HOL-Library.Word" "HOL-Library.Sublist"
begin

text \<open>
  Shared vocabulary of the development: the representation of Python text and
  bytes, the exceptions of the modelled code as a datatype, results as sums,
  sequencing of fallible computations, and the generic list lemmas the
  component theories rely on.

  \<^item> A Python \<open>str\<close> is a sequence of Unicode code points, so \<open>pystr\<close> is a list
    of naturals (not a \<open>char list\<close>, whose elements are bytes).  \<open>lit\<close> embeds
    an ASCII literal of the source.
  \<^item> A Python \<open>bytes\<close> value is a list of 8-bit words.
  \<^item> A raised exception is \<open>Inl e\<close> of a \<open>'a result\<close>.
\<close>

unbundle bit_operations_syntax

section \<open>Collections of facts\<close>

named_theorems zt_defs "unfoldings of the non-recursive operations of the model"
named_theorems zt_eval "equations used to evaluate the model on ground inputs"

section \<open>Text, bytes, exceptions\<close>

type_synonym codepoint = nat
type_synonym pystr = "codepoint list"
type_synonym byte = "8 word"
type_synonym pybytes = "byte list"

definition lit :: "string \<Rightarrow> pystr" where
  "lit s = map of_char s"

definition valid_cp :: "codepoint \<Rightarrow> bool" where
  "valid_cp c \<longleftrightarrow> c < 0x110000"

definition valid_str :: "pystr \<Rightarrow> bool" where
  "valid_str s \<longleftrightarrow> list_all valid_cp s"

datatype py_error =
    UnicodeEncodeError nat
  | InvalidOperationError
  | ColumnNotFoundError string
  | SchemaError
  | ShapeError
  | NotFoundLookupError
  | TypeError
  | ImportError

type_synonym 'a result = "py_error + 'a"

section \<open>Sequencing of results\<close>

definition bind_res :: "'e + 'a \<Rightarrow> ('a \<Rightarrow> 'e + 'b) \<Rightarrow> 'e + 'b" where
  "bind_res r f = (case r of Inl e \<Rightarrow> Inl e | Inr x \<Rightarrow> f x)"

fun traverse :: "('a \<Rightarrow> 'e + 'b) \<Rightarrow> 'a list \<Rightarrow> 'e + 'b list" where
  "traverse f [] = Inr []"
| "traverse f (x # xs) =
     bind_res (f x) (\<lambda>y. bind_res (traverse f xs) (\<lambda>ys. Inr (y # ys)))"

text \<open>The first position of a list at which a predicate holds, as exceptions report it.\<close>

definition first_at :: "('a \<Rightarrow> bool) \<Rightarrow> 'a list \<Rightarrow> nat \<Rightarrow> bool" where
  "first_at P xs k \<longleftrightarrow> k < length xs \<and> P (xs ! k) \<and> (\<forall>j < k. \<not> P (xs ! j))"

lemma bind_res_Inl [simp]: "bind_res (Inl e) f = Inl e"
  by (simp add: bind_res_def)

lemma bind_res_Inr [simp]: "bind_res (Inr x) f = f x"
  by (simp add: bind_res_def)

lemma bind_res_eq_Inr_iff:
  "bind_res r f = Inr y \<longleftrightarrow> (\<exists>x. r = Inr x \<and> f x = Inr y)"
  by (cases r) simp_all

lemma bind_res_eq_Inl_iff:
  "bind_res r f = Inl e \<longleftrightarrow> r = Inl e \<or> (\<exists>x. r = Inr x \<and> f x = Inl e)"
  by (cases r) simp_all

lemma bind_res_assoc:
  "bind_res (bind_res r f) g = bind_res r (\<lambda>x. bind_res (f x) g)"
  by (cases r) simp_all

lemma bind_res_Inr_right [simp]: "bind_res r Inr = r"
  by (cases r) simp_all

lemma traverse_eq_Inr_iff:
  "traverse f xs = Inr ys \<longleftrightarrow> list_all2 (\<lambda>x y. f x = Inr y) xs ys"
proof (induction xs arbitrary: ys)
  case Nil
  show ?case by auto
next
  case (Cons x xs)
  show ?case
    by (cases ys) (auto simp: bind_res_eq_Inr_iff Cons.IH)
qed

lemma traverse_length: "traverse f xs = Inr ys \<Longrightarrow> length ys = length xs"
  by (simp add: traverse_eq_Inr_iff list_all2_lengthD)

lemma traverse_nth:
  "traverse f xs = Inr ys \<Longrightarrow> i < length xs \<Longrightarrow> f (xs ! i) = Inr (ys ! i)"
  by (auto simp: traverse_eq_Inr_iff dest: list_all2_nthD)

lemma traverse_returns:
  "(\<And>x. x \<in> set xs \<Longrightarrow> \<exists>y. f x = Inr y) \<Longrightarrow> \<exists>ys. traverse f xs = Inr ys"
  by (induction xs) fastforce+

lemma traverse_total:
  "(\<And>x. x \<in> set xs \<Longrightarrow> f x = Inr (g x)) \<Longrightarrow> traverse f xs = Inr (map g xs)"
  by (induction xs) simp_all

lemma traverse_Inr [simp]: "traverse (\<lambda>x. Inr (g x)) xs = Inr (map g xs)"
  by (rule traverse_total) simp

lemma traverse_map_inverse:
  "(\<And>x. x \<in> set xs \<Longrightarrow> f (g x) = Inr x) \<Longrightarrow> traverse f (map g xs) = Inr xs"
  by (induction xs) simp_all

lemma traverse_fails_iff:
  "isl (traverse f xs) \<longleftrightarrow> (\<exists>x \<in> set xs. isl (f x))"
proof (induction xs)
  case Nil
  show ?case by simp
next
  case (Cons x xs)
  show ?case
  proof (cases "f x")
    case (Inl e)
    then show ?thesis by simp
  next
    case (Inr y)
    with Cons.IH show ?thesis
      by (cases "traverse f xs") auto
  qed
qed

lemma traverse_first_error:
  "list_all (\<lambda>x. \<not> isl (f x)) xs \<Longrightarrow> f x = Inl e \<Longrightarrow> traverse f (xs @ x # zs) = Inl e"
proof (induction xs)
  case Nil
  then show ?case by simp
next
  case (Cons a xs)
  then show ?case by (cases "f a") simp_all
qed

lemma traverse_cong:
  "(\<And>x. x \<in> set xs \<Longrightarrow> f x = g x) \<Longrightarrow> traverse f xs = traverse g xs"
  by (induction xs) auto

section \<open>Literals\<close>

lemma lit_Nil [simp]: "lit [] = []"
  by (simp add: lit_def)

lemma lit_Cons [simp]: "lit (c # s) = of_char c # lit s"
  by (simp add: lit_def)

lemma lit_append [simp]: "lit (s @ t) = lit s @ lit t"
  by (simp add: lit_def)

lemma length_lit [simp]: "length (lit s) = length s"
  by (simp add: lit_def)

lemma lit_ascii: "c \<in> set (lit s) \<Longrightarrow> c < 256"
proof -
  have "of_char x < (256 :: nat)" for x :: char
    by (metis of_char_mod_256 mod_less_divisor zero_less_numeral)
  then show "c \<in> set (lit s) \<Longrightarrow> c < 256"
    by (auto simp: lit_def)
qed

lemma valid_str_lit [simp]: "valid_str (lit s)"
  using lit_ascii by (fastforce simp: valid_str_def valid_cp_def list_all_iff)

lemma valid_str_Nil [simp]: "valid_str []"
  by (simp add: valid_str_def)

lemma valid_str_Cons [simp]: "valid_str (c # s) \<longleftrightarrow> valid_cp c \<and> valid_str s"
  by (simp add: valid_str_def)

lemma valid_str_append [simp]: "valid_str (s @ t) \<longleftrightarrow> valid_str s \<and> valid_str t"
  by (simp add: valid_str_def)

section \<open>Lists\<close>

lemma length_concat_const:
  "(\<And>x. x \<in> set xs \<Longrightarrow> length (f x) = k) \<Longrightarrow> length (concat (map f xs)) = k * length xs"
  by (induction xs) simp_all

lemma list_all_concat_map:
  "list_all P (concat (map f xs)) \<longleftrightarrow> list_all (\<lambda>x. list_all P (f x)) xs"
  by (induction xs) simp_all

lemma first_at_Nil [simp]: "\<not> first_at P [] k"
  by (simp add: first_at_def)

lemma first_at_Cons:
  "first_at P (x # xs) k \<longleftrightarrow> (if P x then k = 0 else \<exists>k'. k = Suc k' \<and> first_at P xs k')"
proof (cases k)
  case 0
  then show ?thesis by (simp add: first_at_def)
next
  case (Suc k')
  then show ?thesis
    by (auto simp: first_at_def All_less_Suc2)
qed

lemma first_at_cong:
  "(\<And>x. x \<in> set xs \<Longrightarrow> P x \<longleftrightarrow> Q x) \<Longrightarrow> first_at P xs k \<longleftrightarrow> first_at Q xs k"
  by (auto simp: first_at_def)

section \<open>The literals of the sources, as code points\<close>

lemma lit_underscore [simp]: "lit ''_'' = [95]"
  by simp

lemma lit_hyphen [simp]: "lit ''-'' = [45]"
  by simp

lemma lit_NEG [simp]: "lit ''NEG'' = [78, 69, 71]"
  by simp

section \<open>Zipped lists\<close>

lemma map2_map2_left:
  "map2 g (map2 f xs ys) zs = map (\<lambda>(x, y, z). g (f x y) z) (zip xs (zip ys zs))"
proof (induction xs arbitrary: ys zs)
  case (Cons x xs)
  then show ?case by (cases ys; cases zs) simp_all
qed simp

lemma map2_map_left: "map2 g (map f xs) ys = map (\<lambda>(x, y). g (f x) y) (zip xs ys)"
  by (simp add: zip_map1 case_prod_unfold)

lemma map2_map_right: "map2 g xs (map f ys) = map (\<lambda>(x, y). g x (f y)) (zip xs ys)"
  by (simp add: zip_map2 case_prod_unfold)

lemma map_zip3_map:
  "map (\<lambda>(x, y, z). f x y z) (zip (map g xs) (zip (map h ys) (map k zs))) =
     map (\<lambda>(x, y, z). f (g x) (h y) (k z)) (zip xs (zip ys zs))"
  by (simp add: zip_map_map case_prod_unfold comp_def)

lemma nth_map_zip3:
  "i < length xs \<Longrightarrow> length ys = length xs \<Longrightarrow> length zs = length xs \<Longrightarrow>
     map (\<lambda>(x, y, z). f x y z) (zip xs (zip ys zs)) ! i = f (xs ! i) (ys ! i) (zs ! i)"
  by simp

section \<open>Arithmetic\<close>

text \<open>Congruent numbers that are closer than the modulus are equal.\<close>

lemma mod_close_eq:
  fixes a b d :: nat
  assumes "a \<le> b" "b - a < d" "a mod d = b mod d"
  shows "a = b"
proof -
  from assms(1) assms(3) [symmetric] have "d dvd b - a" by (simp add: mod_eq_dvd_iff_nat)
  with assms(2) have "b - a = 0" by (auto dest: nat_dvd_not_less)
  with assms(1) show ?thesis by simp
qed

end
