(* ===== verification/Py_Text.thy ===== *)
theory Py_Text
  imports ZT_Prelude
begin

text \<open>
  Text operations the package calls on Python and library strings: the decimal
  text of an integer (\<open>str(int)\<close>, used by the f-string of \<open>make_id_str\<close> and by
  the cast of an integer column to text), the parser behind a strict cast of
  text to a 64-bit integer, substring replacement (all occurrences for
  \<open>np.char.replace\<close>, the first one for the \<open>str.replace\<close> of a polars
  expression) and the loss of trailing NUL characters of numpy's fixed-width
  unicode arrays.  A reference definition of replacement by split and join is
  given and proved equal to the recursive one.
\<close>

section \<open>Decimal digits\<close>

definition digit_cp :: "nat \<Rightarrow> codepoint" where
  "digit_cp d = 48 + d"

definition is_digit :: "codepoint \<Rightarrow> bool" where
  "is_digit c \<longleftrightarrow> 48 \<le> c \<and> c \<le> 57"

definition digit_val :: "codepoint \<Rightarrow> nat" where
  "digit_val c = c - 48"

fun str_of_nat :: "nat \<Rightarrow> pystr" where
  "str_of_nat n =
     (if n < 10 then [digit_cp n] else str_of_nat (n div 10) @ [digit_cp (n mod 10)])"

declare str_of_nat.simps [simp del]

definition str_of_int :: "int \<Rightarrow> pystr" where
  "str_of_int i = (if i < 0 then 45 # str_of_nat (nat (- i)) else str_of_nat (nat i))"

definition nat_of_digits :: "pystr \<Rightarrow> nat" where
  "nat_of_digits s = foldl (\<lambda>a c. 10 * a + digit_val c) 0 s"

definition parse_nat :: "pystr \<Rightarrow> nat option" where
  "parse_nat s = (if s \<noteq> [] \<and> list_all is_digit s then Some (nat_of_digits s) else None)"

definition parse_int :: "pystr \<Rightarrow> int option" where
  "parse_int s =
     (case s of
        [] \<Rightarrow> None
      | c # r \<Rightarrow>
          if c = 45 then map_option (\<lambda>n. - int n) (parse_nat r)
          else if c = 43 then map_option int (parse_nat r)
          else map_option int (parse_nat s))"

lemmas digit_defs = digit_cp_def is_digit_def digit_val_def

declare str_of_nat.simps [zt_eval] str_of_int_def [zt_eval] digit_defs [zt_eval]
  parse_int_def [zt_eval] parse_nat_def [zt_eval] nat_of_digits_def [zt_eval]

lemma is_digit_digit_cp [simp]: "d < 10 \<Longrightarrow> is_digit (digit_cp d)"
  by (simp add: digit_defs)

lemma digit_val_digit_cp [simp]: "digit_val (digit_cp d) = d"
  by (simp add: digit_defs)

lemma digit_cp_digit_val: "is_digit c \<Longrightarrow> digit_cp (digit_val c) = c"
  by (simp add: digit_defs)

lemma nat_of_digits_Nil [simp]: "nat_of_digits [] = 0"
  by (simp add: nat_of_digits_def)

lemma nat_of_digits_single [simp]: "nat_of_digits [c] = digit_val c"
  by (simp add: nat_of_digits_def)

lemma nat_of_digits_snoc [simp]:
  "nat_of_digits (s @ [c]) = 10 * nat_of_digits s + digit_val c"
  by (simp add: nat_of_digits_def)

lemma str_of_nat_nonempty [simp]: "str_of_nat n \<noteq> []"
  by (subst str_of_nat.simps) simp

lemma str_of_nat_digits: "list_all is_digit (str_of_nat n)"
proof (induction n rule: str_of_nat.induct)
  case (1 n)
  then show ?case
    by (subst str_of_nat.simps) simp
qed

lemma nat_of_digits_str_of_nat [simp]: "nat_of_digits (str_of_nat n) = n"
proof (induction n rule: str_of_nat.induct)
  case (1 n)
  then show ?case
    by (subst str_of_nat.simps) simp
qed

lemma parse_nat_str_of_nat [simp]: "parse_nat (str_of_nat n) = Some n"
  by (simp add: parse_nat_def str_of_nat_digits)

lemma hd_str_of_nat_digit: "is_digit (hd (str_of_nat n))"
  using str_of_nat_digits [of n] str_of_nat_nonempty [of n]
  by (cases "str_of_nat n") simp_all

lemma not_digit_signs [simp]: "\<not> is_digit 45" "\<not> is_digit 43" "\<not> is_digit 95"
  by (simp_all add: is_digit_def)

lemma parse_int_str_of_nat: "parse_int (str_of_nat n) = Some (int n)"
proof (cases "str_of_nat n")
  case Nil
  then show ?thesis by simp
next
  case (Cons c r)
  with hd_str_of_nat_digit [of n] have "is_digit c" by simp
  then have "c \<noteq> 45" "c \<noteq> 43" by auto
  with Cons parse_nat_str_of_nat [of n] show ?thesis
    by (simp add: parse_int_def)
qed

lemma parse_int_str_of_int: "parse_int (str_of_int i) = Some i"
proof (cases "i < 0")
  case True
  then show ?thesis by (simp add: str_of_int_def parse_int_def)
next
  case False
  then show ?thesis by (simp add: str_of_int_def parse_int_str_of_nat)
qed

lemma str_of_int_inj: "str_of_int i = str_of_int j \<Longrightarrow> i = j"
  by (metis parse_int_str_of_int option.inject)

lemma str_of_nat_no_cp: "\<not> is_digit c \<Longrightarrow> c \<notin> set (str_of_nat n)"
  using str_of_nat_digits [of n] by (auto simp: list_all_iff)

lemma str_of_int_chars: "c \<in> set (str_of_int i) \<Longrightarrow> is_digit c \<or> c = 45"
  using str_of_nat_digits by (auto simp: str_of_int_def list_all_iff split: if_splits)

lemma str_of_int_nonempty [simp]: "str_of_int i \<noteq> []"
  by (simp add: str_of_int_def)

lemma count_hyphen_str_of_int: "count_list (str_of_int i) 45 \<le> 1"
proof -
  have "count_list (str_of_nat n) 45 = 0" for n
    by (simp add: count_list_0_iff str_of_nat_no_cp is_digit_def)
  then show ?thesis by (simp add: str_of_int_def)
qed

lemma last_str_of_int: "last (str_of_int i) \<noteq> 0"
proof -
  have "last (str_of_int i) \<in> set (str_of_int i)" by simp
  then have "is_digit (last (str_of_int i)) \<or> last (str_of_int i) = 45"
    by (rule str_of_int_chars)
  then show ?thesis by (auto simp: is_digit_def)
qed

lemma parse_nat_Some_iff:
  "parse_nat s = Some n \<longleftrightarrow> s \<noteq> [] \<and> list_all is_digit s \<and> n = nat_of_digits s"
  by (auto simp: parse_nat_def)

lemma parse_int_None_if_bad_char:
  assumes "c \<in> set s" and "\<not> is_digit c" and "c \<noteq> 45" and "c \<noteq> 43"
  shows "parse_int s = None"
proof (cases s)
  case Nil
  then show ?thesis by (simp add: parse_int_def)
next
  case (Cons a r)
  from assms have bad: "\<not> list_all is_digit s"
    by (auto simp: list_all_iff)
  have "a \<in> {45, 43} \<Longrightarrow> \<not> list_all is_digit r"
    using assms Cons by (auto simp: list_all_iff)
  with bad Cons show ?thesis
    by (auto simp: parse_int_def parse_nat_def)
qed

section \<open>Substring replacement\<close>

function replace_all :: "pystr \<Rightarrow> pystr \<Rightarrow> pystr \<Rightarrow> pystr" where
  "replace_all old new [] = (if old = [] then new else [])"
| "replace_all old new (c # s) =
     (if old = [] then new @ c # replace_all old new s
      else if prefix old (c # s) then new @ replace_all old new (drop (length old) (c # s))
      else c # replace_all old new s)"
  by pat_completeness auto
termination
  by (relation "measure (\<lambda>(old, new, s). length s)") auto

fun replace_first :: "pystr \<Rightarrow> pystr \<Rightarrow> pystr \<Rightarrow> pystr" where
  "replace_first old new [] = (if old = [] then new else [])"
| "replace_first old new (c # s) =
     (if prefix old (c # s) then new @ drop (length old) (c # s)
      else c # replace_first old new s)"

definition rstrip_nul :: "pystr \<Rightarrow> pystr" where
  "rstrip_nul s = rev (dropWhile (\<lambda>c. c = 0) (rev s))"

declare rstrip_nul_def [zt_eval]

text \<open>The reference definition: split at the separator, join with the replacement.\<close>

fun split_on :: "codepoint \<Rightarrow> pystr \<Rightarrow> pystr list" where
  "split_on sep [] = [[]]"
| "split_on sep (c # s) =
     (case split_on sep s of
        [] \<Rightarrow> [[c]]
      | p # ps \<Rightarrow> if c = sep then [] # p # ps else (c # p) # ps)"

fun join :: "pystr \<Rightarrow> pystr list \<Rightarrow> pystr" where
  "join sep [] = []"
| "join sep [p] = p"
| "join sep (p # q # ps) = p @ sep @ join sep (q # ps)"

lemma replace_all_char:
  "replace_all [a] new s = concat (map (\<lambda>c. if c = a then new else [c]) s)"
  by (induction s) auto

lemma replace_first_char_Cons:
  "replace_first [a] new (c # s) = (if c = a then new @ s else c # replace_first [a] new s)"
  by simp

lemma replace_first_char:
  "replace_first [a] new s =
     takeWhile (\<lambda>c. c \<noteq> a) s @ (if a \<in> set s then new @ tl (dropWhile (\<lambda>c. c \<noteq> a) s) else [])"
  by (induction s) auto

lemma replace_all_absent: "a \<notin> set s \<Longrightarrow> replace_all [a] new s = s"
  by (induction s) auto

lemma replace_first_absent: "a \<notin> set s \<Longrightarrow> replace_first [a] new s = s"
  by (induction s) auto

lemma replace_first_eq_all:
  "count_list s a \<le> 1 \<Longrightarrow> replace_first [a] new s = replace_all [a] new s"
proof (induction s)
  case Nil
  show ?case by simp
next
  case (Cons c s)
  show ?case
  proof (cases "c = a")
    case True
    with Cons.prems have "a \<notin> set s"
      by (simp add: count_list_0_iff [symmetric])
    with True show ?thesis
      by (simp add: replace_all_absent)
  next
    case False
    with Cons show ?thesis by simp
  qed
qed

lemma replace_all_not_mem: "a \<notin> set new \<Longrightarrow> a \<notin> set (replace_all [a] new s)"
  by (auto simp: replace_all_char)

lemma replace_first_mem:
  assumes "a \<notin> set new" and "1 \<le> count_list s a"
  shows "a \<in> set (replace_first [a] new s) \<longleftrightarrow> 2 \<le> count_list s a"
  using assms(2)
proof (induction s)
  case Nil
  then show ?case by simp
next
  case (Cons c s)
  show ?case
  proof (cases "c = a")
    case True
    then show ?thesis
      using assms(1) count_list_0_iff [of s a] by auto
  next
    case False
    with Cons show ?thesis by auto
  qed
qed

lemma replace_first_neq_all:
  assumes "2 \<le> count_list s a" and "a \<notin> set new"
  shows "replace_first [a] new s \<noteq> replace_all [a] new s"
proof -
  from assms replace_first_mem [of a new s] have "a \<in> set (replace_first [a] new s)" by simp
  with replace_all_not_mem [OF assms(2), of s] show ?thesis by metis
qed

lemma length_replace_all_char:
  "length (replace_all [a] new s) + count_list s a = length s + count_list s a * length new"
  by (induction s) (simp_all add: replace_all_char)

lemma replace_all_char_append:
  "replace_all [a] new (s @ t) = replace_all [a] new s @ replace_all [a] new t"
  by (simp add: replace_all_char)

lemma split_on_nonempty [simp]: "split_on sep s \<noteq> []"
  by (induction s) (simp_all split: list.splits)

lemma join_Cons_head: "join sep ((c # p) # ps) = c # join sep (p # ps)"
  by (cases ps) simp_all

lemma join_Nil_head: "join sep ([] # p # ps) = sep @ join sep (p # ps)"
  by simp

lemma replace_all_split_join: "replace_all [a] new s = join new (split_on a s)"
proof (induction s)
  case Nil
  show ?case by simp
next
  case (Cons c s)
  obtain p ps where sp: "split_on a s = p # ps"
    using split_on_nonempty [of a s] by (cases "split_on a s") auto
  with Cons show ?case
    by (auto simp: join_Cons_head join_Nil_head simp del: join.simps)
qed

lemma length_split_on: "length (split_on sep s) = Suc (count_list s sep)"
  by (induction s) (auto split: list.splits)

lemma rstrip_nul_Nil [simp]: "rstrip_nul [] = []"
  by (simp add: rstrip_nul_def)

lemma rstrip_nul_idem [simp]: "rstrip_nul (rstrip_nul s) = rstrip_nul s"
  by (simp add: rstrip_nul_def dropWhile_idem)

lemma rstrip_nul_id: "s = [] \<or> last s \<noteq> 0 \<Longrightarrow> rstrip_nul s = s"
  by (cases s rule: rev_cases) (simp_all add: rstrip_nul_def)

lemma rstrip_nul_no_nul: "0 \<notin> set s \<Longrightarrow> rstrip_nul s = s"
  by (rule rstrip_nul_id) (cases s rule: rev_cases, auto)

lemma rstrip_nul_snoc:
  "rstrip_nul (s @ [c]) = (if c = 0 then rstrip_nul s else s @ [c])"
  by (simp add: rstrip_nul_def)

lemma rstrip_nul_prefix: "prefix (rstrip_nul s) s"
proof (induction s rule: rev_induct)
  case Nil
  show ?case by simp
next
  case (snoc c s)
  then show ?case
    by (auto simp: rstrip_nul_snoc intro: prefix_order.trans)
qed

lemma rstrip_nul_append_lit:
  "t \<noteq> [] \<Longrightarrow> last t \<noteq> 0 \<Longrightarrow> rstrip_nul (s @ t) = s @ t"
  by (rule rstrip_nul_id) simp

end
