(* ===== verification/Id_Str.thy ===== *)
theory Id_Str
  imports Py_Text
begin

text \<open>
  The scalar method of \<open>make_id_str\<close> (\<open>src/zootasks_utils/_src/upload_utils.py\<close>,
  lines 41 to 68): the identifier \<open>[release_name_]tile_index_object_id\<close> with
  every hyphen of the object id replaced by \<open>NEG\<close>.

  \<open>tile_index\<close> is the union \<open>int | str\<close> of the signature, with the
  booleans that Python counts among the integers and formats as \<open>True\<close> and
  \<open>False\<close>; \<open>release_name\<close> is the optional text (\<open>None\<close> is \<open>None\<close>).  \<open>np_char_replace\<close> is \<open>np.char.replace\<close> on
  a single string: numpy stores each argument in a fixed-width unicode array,
  which drops trailing NUL characters, replaces every occurrence, and hands
  back a zero-dimensional array whose formatting is its one element.

  The lemmas give the closed form of the identifier, when two calls agree, the
  alphabet and length of the result, and when the identifier determines its
  three arguments.
\<close>

section \<open>Definitions\<close>

datatype tile_index = TInt int | TBool bool | TStr pystr

fun format_tile :: "tile_index \<Rightarrow> pystr" where
  "format_tile (TInt n) = str_of_int n"
| "format_tile (TBool b) = (if b then lit ''True'' else lit ''False'')"
| "format_tile (TStr s) = s"

definition np_char_replace :: "pystr \<Rightarrow> pystr \<Rightarrow> pystr \<Rightarrow> pystr" where
  "np_char_replace a old new =
     rstrip_nul (replace_all (rstrip_nul old) (rstrip_nul new) (rstrip_nul a))"

definition release_prefix :: "pystr option \<Rightarrow> pystr" where
  "release_prefix release_name =
     (case release_name of Some r \<Rightarrow> r @ lit ''_'' | None \<Rightarrow> [])"

definition make_id_str :: "tile_index \<Rightarrow> pystr \<Rightarrow> pystr option \<Rightarrow> pystr" where
  "make_id_str tile_index object_id release_name =
     (let prefix = release_prefix release_name;
          obj_id = np_char_replace object_id (lit ''-'') (lit ''NEG'')
      in prefix @ format_tile tile_index @ lit ''_'' @ obj_id)"

text \<open>Object ids for which the identifier can be read back: no NUL, no \<open>N\<close>, no underscore.\<close>

definition id_safe :: "pystr \<Rightarrow> bool" where
  "id_safe s \<longleftrightarrow> list_all (\<lambda>c. c \<noteq> 0 \<and> c \<noteq> 78 \<and> c \<noteq> 95) s"

definition neg_text :: "pystr \<Rightarrow> pystr" where
  "neg_text s = replace_all [45] [78, 69, 71] s"

section \<open>Literals of the source\<close>

lemma rstrip_nul_lits [simp]:
  "rstrip_nul [45] = [45]" "rstrip_nul [78, 69, 71] = [78, 69, 71]"
  by (simp_all add: rstrip_nul_def)

section \<open>The replacement\<close>

lemma last_rstrip_nul: "rstrip_nul s = [] \<or> last (rstrip_nul s) \<noteq> 0"
  by (induction s rule: rev_induct) (simp_all add: rstrip_nul_snoc)

lemma neg_text_char: "neg_text s = concat (map (\<lambda>c. if c = 45 then [78, 69, 71] else [c]) s)"
  by (simp add: neg_text_def replace_all_char)

lemma neg_text_Nil [simp]: "neg_text [] = []"
  by (simp add: neg_text_char)

lemma neg_text_Cons [simp]:
  "neg_text (c # s) = (if c = 45 then 78 # 69 # 71 # neg_text s else c # neg_text s)"
  by (simp add: neg_text_char)

lemma neg_text_append [simp]: "neg_text (s @ t) = neg_text s @ neg_text t"
  by (simp add: neg_text_char)

lemma neg_text_last: "s = [] \<or> last s \<noteq> 0 \<Longrightarrow> neg_text s = [] \<or> last (neg_text s) \<noteq> 0"
  by (cases s rule: rev_cases) auto

lemma np_char_replace_neg: "np_char_replace a [45] [78, 69, 71] = neg_text (rstrip_nul a)"
  using neg_text_last [OF last_rstrip_nul, of a]
  by (simp add: np_char_replace_def neg_text_def [symmetric] rstrip_nul_id)

lemma set_neg_text: "set (neg_text s) = (set s - {45}) \<union> (if 45 \<in> set s then {78, 69, 71} else {})"
  by (induction s) auto

lemma no_hyphen_neg_text [simp]: "45 \<notin> set (neg_text s)"
  by (simp add: set_neg_text)

lemma length_neg_text: "length (neg_text s) = length s + 2 * count_list s 45"
  by (induction s) simp_all

lemma neg_text_inj:
  "78 \<notin> set s \<Longrightarrow> 78 \<notin> set t \<Longrightarrow> neg_text s = neg_text t \<Longrightarrow> s = t"
proof (induction s arbitrary: t)
  case Nil
  then show ?case by (cases t) (auto split: if_splits)
next
  case (Cons c s)
  then show ?case by (cases t) (auto split: if_splits)
qed

section \<open>The identifier\<close>

lemma release_prefix_simps [simp]:
  "release_prefix None = []" "release_prefix (Some r) = r @ [95]"
  by (simp_all add: release_prefix_def)

lemma make_id_str_eq:
  "make_id_str t obj r = release_prefix r @ format_tile t @ 95 # neg_text (rstrip_nul obj)"
  by (simp add: make_id_str_def np_char_replace_neg)

lemma list_all_neg_text:
  "list_all P s \<Longrightarrow> P 78 \<Longrightarrow> P 69 \<Longrightarrow> P 71 \<Longrightarrow> list_all P (neg_text s)"
  by (induction s) auto

lemma list_all_rstrip_nul: "list_all P s \<Longrightarrow> list_all P (rstrip_nul s)"
  using rstrip_nul_prefix [of s] by (auto simp: list_all_iff dest: set_mono_prefix)

lemma neg_text_fixed: "neg_text s = s \<longleftrightarrow> 45 \<notin> set s"
proof
  assume "neg_text s = s"
  then have "set (neg_text s) = set s" by simp
  then show "45 \<notin> set s" using no_hyphen_neg_text [of s] by simp
qed (simp add: neg_text_def replace_all_absent)

lemma neg_text_rstrip_fixed:
  "neg_text (rstrip_nul obj) = obj \<longleftrightarrow> 45 \<notin> set obj \<and> rstrip_nul obj = obj"
proof
  assume eq: "neg_text (rstrip_nul obj) = obj"
  then have "45 \<notin> set obj" using no_hyphen_neg_text [of "rstrip_nul obj"] by simp
  then have "list_all (\<lambda>c. c \<noteq> 45) (rstrip_nul obj)"
    by (intro list_all_rstrip_nul) (auto simp: list_all_iff)
  then have "neg_text (rstrip_nul obj) = rstrip_nul obj"
    by (auto simp: neg_text_fixed list_all_iff)
  with eq \<open>45 \<notin> set obj\<close> show "45 \<notin> set obj \<and> rstrip_nul obj = obj" by simp
qed (simp add: neg_text_fixed)

text \<open>The text of a boolean is not the decimal text of any integer.\<close>

lemma format_tile_bool_neq_int: "format_tile (TBool b) @ s \<noteq> str_of_int n @ t"
proof
  assume eq: "format_tile (TBool b) @ s = str_of_int n @ t"
  have "hd (str_of_int n) \<in> set (str_of_int n)" by simp
  then have "is_digit (hd (str_of_int n)) \<or> hd (str_of_int n) = 45" by (rule str_of_int_chars)
  moreover from eq have "hd (format_tile (TBool b) @ s) = hd (str_of_int n @ t)" by simp
  then have "hd (str_of_int n) = (if b then 84 else 70)" by (simp add: hd_append split: if_splits)
  ultimately show False by (simp add: is_digit_def split: if_splits)
qed

lemma make_id_str_bool_neq_int: "make_id_str (TBool b) obj r \<noteq> make_id_str (TInt n) obj' r"
  using format_tile_bool_neq_int by (simp add: make_id_str_eq)

lemma list_all_make_id_str:
  assumes "list_all P obj" and "list_all P (format_tile t)"
    and "case r of None \<Rightarrow> True | Some x \<Rightarrow> list_all P x"
    and "P 95" and "P 78" and "P 69" and "P 71"
  shows "list_all P (make_id_str t obj r)"
  using assms by (cases r) (simp_all add: make_id_str_eq list_all_neg_text list_all_rstrip_nul)

lemma takeWhile_until: "a \<notin> set xs \<Longrightarrow> takeWhile (\<lambda>c. c \<noteq> a) (xs @ a # ys) = xs"
  by (induction xs) auto

lemma split_at_last:
  assumes "a \<notin> set ys" and "a \<notin> set ys'" and "xs @ a # ys = xs' @ a # ys'"
  shows "xs = xs' \<and> ys = ys'"
proof -
  have tw: "takeWhile (\<lambda>c. c \<noteq> a) (rev (us @ a # vs)) = rev vs" if "a \<notin> set vs" for us vs
    using that by (simp add: takeWhile_until)
  from assms(3) have "rev (xs @ a # ys) = rev (xs' @ a # ys')" by simp
  then have "rev ys = rev ys'"
    using tw [OF assms(1), of xs] tw [OF assms(2), of xs'] by simp
  then have "ys = ys'" by simp
  with assms(3) show ?thesis by simp
qed

lemma id_safe_neg_text: "id_safe s \<Longrightarrow> 95 \<notin> set (neg_text s)"
  by (auto simp: id_safe_def set_neg_text list_all_iff split: if_splits)

lemma id_safe_rstrip [simp]: "id_safe s \<Longrightarrow> rstrip_nul s = s"
  by (rule rstrip_nul_no_nul) (auto simp: id_safe_def list_all_iff)

lemma id_safe_str_of_int [simp]: "id_safe (str_of_int n)"
  by (auto simp: id_safe_def list_all_iff is_digit_def dest!: str_of_int_chars)

lemma str_of_int_no_underscore [simp]: "95 \<notin> set (str_of_int n)"
  using str_of_int_chars [of 95 n] by auto

lemma underscore_in_int:
  assumes "a @ 95 # s = str_of_int n"
  shows False
proof -
  have "95 \<in> set (a @ 95 # s)" by simp
  with assms show False by simp
qed

lemma release_prefix_int_eq:
  assumes "release_prefix r @ str_of_int n = release_prefix r' @ str_of_int n'"
  shows "r = r' \<and> n = n'"
proof (cases r)
  case None
  show ?thesis
  proof (cases r')
    case None
    with \<open>r = None\<close> assms show ?thesis
      by (auto dest: str_of_int_inj)
  next
    case (Some b)
    with \<open>r = None\<close> assms have "b @ 95 # str_of_int n' = str_of_int n" by simp
    then show ?thesis by (rule underscore_in_int [THEN FalseE])
  qed
next
  case (Some a)
  show ?thesis
  proof (cases r')
    case None
    with \<open>r = Some a\<close> assms have "a @ 95 # str_of_int n = str_of_int n'" by simp
    then show ?thesis by (rule underscore_in_int [THEN FalseE])
  next
    case (Some b)
    with \<open>r = Some a\<close> assms have eq: "a @ 95 # str_of_int n = b @ 95 # str_of_int n'"
      by simp
    have "a = b \<and> str_of_int n = str_of_int n'"
      by (rule split_at_last [OF _ _ eq]) simp_all
    with Some \<open>r = Some a\<close> show ?thesis
      by (auto dest: str_of_int_inj)
  qed
qed

lemma make_id_str_eq_iff:
  assumes "id_safe obj" and "id_safe obj'"
  shows "make_id_str (TInt n) obj r = make_id_str (TInt n') obj' r' \<longleftrightarrow>
    n = n' \<and> obj = obj' \<and> r = r'"
proof
  assume eq: "make_id_str (TInt n) obj r = make_id_str (TInt n') obj' r'"
  from assms have us: "95 \<notin> set (neg_text obj)" "95 \<notin> set (neg_text obj')"
    by (simp_all add: id_safe_neg_text)
  from eq assms have "(release_prefix r @ str_of_int n) @ 95 # neg_text obj =
      (release_prefix r' @ str_of_int n') @ 95 # neg_text obj'"
    by (simp add: make_id_str_eq)
  from split_at_last [OF us this]
  have pre: "release_prefix r @ str_of_int n = release_prefix r' @ str_of_int n'"
    and neg: "neg_text obj = neg_text obj'" by simp_all
  from assms have "78 \<notin> set obj" "78 \<notin> set obj'"
    by (auto simp: id_safe_def list_all_iff)
  with neg have "obj = obj'" by (rule neg_text_inj [rotated 2])
  with release_prefix_int_eq [OF pre] show "n = n' \<and> obj = obj' \<and> r = r'" by simp
qed simp

section \<open>Properties\<close>

text \<open>
  C1 (functional).  For an object id that does not end in a NUL character,
  \<open>make_id_str\<close> returns the text the specification gives: the release name and
  an underscore when a release name is passed, the tile index as text, an
  underscore, and the object id with \<open>NEG\<close> in place of each hyphen, that is
  the pieces between hyphens joined by \<open>NEG\<close> (Python's \<open>"NEG".join(o.split("-"))\<close>).
\<close>

theorem make_id_str_spec:
  assumes "obj = [] \<or> last obj \<noteq> 0"
  shows "make_id_str t obj r =
    release_prefix r @ format_tile t @ lit ''_'' @ join (lit ''NEG'') (split_on 45 obj)"
  using assms
  by (simp add: make_id_str_eq rstrip_nul_id neg_text_def replace_all_split_join)

theorem make_id_str_spec_witness:
  "(lit ''a-b-c'' = [] \<or> last (lit ''a-b-c'') \<noteq> 0) \<and>
   make_id_str (TInt 7) (lit ''a-b-c'') (Some (lit ''Q1_R1'')) = lit ''Q1_R1_7_aNEGbNEGc''"
  using make_id_str_spec [of "lit ''a-b-c''" "TInt 7" "Some (lit ''Q1_R1'')"]
  by (simp add: zt_eval)

text \<open>
  C24 (equivalence).  A tile index passed as text gives the same identifier as
  the integer \<open>n\<close> exactly when the text is the decimal text of \<open>n\<close>: \<open>12345\<close>
  and \<open>"12345"\<close> agree, while text such as \<open>"007"\<close> is passed through unchanged
  and differs from the integer 7.
\<close>

theorem make_id_str_tile_text:
  "make_id_str (TStr s) obj r = make_id_str (TInt n) obj r \<longleftrightarrow> s = str_of_int n"
  by (simp add: make_id_str_eq)

theorem make_id_str_tile_text_witness:
  "make_id_str (TStr (lit ''12345'')) (lit ''abc-123'') None =
     make_id_str (TInt 12345) (lit ''abc-123'') None \<and>
   make_id_str (TStr (lit ''007'')) (lit ''abc-123'') None \<noteq>
     make_id_str (TInt 7) (lit ''abc-123'') None"
  using make_id_str_tile_text [of "lit ''12345''" "lit ''abc-123''" None 12345]
    make_id_str_tile_text [of "lit ''007''" "lit ''abc-123''" None 7]
  by (simp add: zt_eval)

text \<open>
  C6 (safety).  Identifiers are unique on object ids that contain no NUL, no
  \<open>N\<close> and no underscore (in particular on signed decimal object ids): with an
  integer tile index, two calls return the same identifier only for the same
  tile index, object id and release name.
\<close>

theorem make_id_str_injective:
  assumes "id_safe obj" and "id_safe obj'"
  shows "make_id_str (TInt n) obj r = make_id_str (TInt n') obj' r' \<longleftrightarrow>
    n = n' \<and> obj = obj' \<and> r = r'"
  using assms by (rule make_id_str_eq_iff)

theorem make_id_str_injective_witness:
  "id_safe (lit ''-12'') \<and> id_safe (lit ''12'') \<and>
   make_id_str (TInt 5) (lit ''-12'') None \<noteq> make_id_str (TInt 5) (lit ''12'') None"
  using make_id_str_injective [of "lit ''-12''" "lit ''12''" 5 None 5 None]
  by (simp add: id_safe_def)

text \<open>
  C26 (safety).  Without that restriction identifiers collide, for every tile
  index and release name: an object id ending in a hyphen and the one ending
  in the letters \<open>NEG\<close> instead get the same identifier, and so do an object
  id and the same followed by a NUL character, which numpy's fixed-width
  string array drops although the specification promises that nothing is
  trimmed.
\<close>

theorem make_id_str_collision:
  "a @ lit ''-'' \<noteq> a @ lit ''NEG'' \<and>
   make_id_str t (a @ lit ''-'') r = make_id_str t (a @ lit ''NEG'') r \<and>
   make_id_str t (obj @ [0]) r = make_id_str t obj r"
  by (simp add: make_id_str_eq rstrip_nul_append_lit rstrip_nul_snoc)

text \<open>
  C25 (invariant).  No hyphen of the object id survives: the text
  \<open>np.char.replace(object_id, "-", "NEG")\<close> contains no hyphen, whatever the
  object id.
\<close>

theorem np_char_replace_no_hyphen:
  "45 \<notin> set (np_char_replace obj (lit ''-'') (lit ''NEG''))"
  by (simp add: np_char_replace_neg)

text \<open>
  The identifier is as long as its parts: the prefix, the tile
  index text, one underscore, and the object id without its trailing NULs,
  plus two characters for each hyphen replaced.
\<close>

theorem make_id_str_length:
  "length (make_id_str t obj r) =
     length (release_prefix r) + length (format_tile t) + 1 +
     length (rstrip_nul obj) + 2 * count_list (rstrip_nul obj) 45"
  by (simp add: make_id_str_eq length_neg_text)

text \<open>
  C36 (equivalence).  The docstring shows the identifier as the prefix, the tile
  index, an underscore and the object id itself.  The code returns that text
  exactly when the object id has no hyphen and no trailing NUL: the call of
  the docstring, \<open>make_id_str(12345, "abc-123", "Q1_R1")\<close>, returns
  \<open>Q1_R1_12345_abcNEG123\<close> and not the \<open>Q1_R1_12345_abc-123\<close> that the docstring
  and section 8 of the specification show.
\<close>

theorem make_id_str_docstring_form:
  "make_id_str t obj r = release_prefix r @ format_tile t @ lit ''_'' @ obj \<longleftrightarrow>
     45 \<notin> set obj \<and> rstrip_nul obj = obj"
  by (simp add: make_id_str_eq neg_text_rstrip_fixed)

theorem make_id_str_docstring_form_witness:
  "make_id_str (TInt 12345) (lit ''abc-123'') (Some (lit ''Q1_R1'')) \<noteq> lit ''Q1_R1_12345_abc-123'' \<and>
   make_id_str (TInt 12345) (lit ''abc-123'') (Some (lit ''Q1_R1'')) = lit ''Q1_R1_12345_abcNEG123'' \<and>
   make_id_str (TInt 12345) (lit ''abc123'') None = lit ''12345_abc123''"
  using make_id_str_docstring_form [of "TInt 12345" "lit ''abc-123''" "Some (lit ''Q1_R1'')"]
    make_id_str_docstring_form [of "TInt 12345" "lit ''abc123''" None]
  by (simp add: make_id_str_eq zt_eval)

end
