(* ===== verification/Utf8.thy ===== *)
theory Utf8
  imports ZT_Prelude
begin

text \<open>
  \<open>str.encode()\<close> as \<open>get_hash_id\<close> calls it: UTF-8, error handler \<open>strict\<close>.
  A code point below \<open>0x80\<close> is one byte, below \<open>0x800\<close> two, below
  \<open>0x10000\<close> three, otherwise four; a surrogate (\<open>0xD800\<close> to \<open>0xDFFF\<close>), which
  a Python string may hold, raises \<open>UnicodeEncodeError\<close> with its position.

  \<open>utf8_decode\<close> is the strict decoder, used as the reference: encoding is
  shown to be inverted by it, hence injective, and its length is bounded.
\<close>

section \<open>Encoder\<close>

definition is_surrogate :: "codepoint \<Rightarrow> bool" where
  "is_surrogate c \<longleftrightarrow> 0xD800 \<le> c \<and> c \<le> 0xDFFF"

definition byte_of :: "nat \<Rightarrow> byte" where
  "byte_of n = of_nat n"

definition utf8_cp :: "codepoint \<Rightarrow> pybytes option" where
  "utf8_cp c =
     (if c < 0x80 then Some [byte_of c]
      else if c < 0x800 then Some [byte_of (0xC0 + c div 64), byte_of (0x80 + c mod 64)]
      else if is_surrogate c then None
      else if c < 0x10000 then
        Some [byte_of (0xE0 + c div 4096), byte_of (0x80 + c div 64 mod 64), byte_of (0x80 + c mod 64)]
      else if c < 0x110000 then
        Some [byte_of (0xF0 + c div 262144), byte_of (0x80 + c div 4096 mod 64),
              byte_of (0x80 + c div 64 mod 64), byte_of (0x80 + c mod 64)]
      else None)"

fun encode_from :: "nat \<Rightarrow> pystr \<Rightarrow> pybytes result" where
  "encode_from i [] = Inr []"
| "encode_from i (c # s) =
     (case utf8_cp c of
        None \<Rightarrow> Inl (UnicodeEncodeError i)
      | Some bs \<Rightarrow> bind_res (encode_from (Suc i) s) (\<lambda>r. Inr (bs @ r)))"

definition str_encode :: "pystr \<Rightarrow> pybytes result" where
  "str_encode s = encode_from 0 s"

declare byte_of_def [zt_eval] utf8_cp_def [zt_eval] is_surrogate_def [zt_eval] str_encode_def [zt_eval]

section \<open>Reference decoder\<close>

definition cont :: "byte \<Rightarrow> bool" where
  "cont b \<longleftrightarrow> 0x80 \<le> unat b \<and> unat b < 0xC0"

definition payload :: "byte \<Rightarrow> nat" where
  "payload b = unat b - 0x80"

definition join6 :: "nat \<Rightarrow> nat \<Rightarrow> nat" where
  "join6 hi lo = hi * 64 + lo"

fun utf8_decode :: "pybytes \<Rightarrow> pystr option" where
  "utf8_decode [] = Some []"
| "utf8_decode (b # bs) =
     (let n = unat b in
      if n < 0x80 then map_option ((#) n) (utf8_decode bs)
      else if n < 0xC0 then None
      else if n < 0xE0 then
        (case bs of
           b1 # r \<Rightarrow>
             let c = join6 (n - 0xC0) (payload b1) in
             if cont b1 \<and> 0x80 \<le> c then map_option ((#) c) (utf8_decode r) else None
         | _ \<Rightarrow> None)
      else if n < 0xF0 then
        (case bs of
           b1 # b2 # r \<Rightarrow>
             let c = join6 (join6 (n - 0xE0) (payload b1)) (payload b2) in
             if cont b1 \<and> cont b2 \<and> 0x800 \<le> c \<and> \<not> is_surrogate c
             then map_option ((#) c) (utf8_decode r) else None
         | _ \<Rightarrow> None)
      else if n < 0xF8 then
        (case bs of
           b1 # b2 # b3 # r \<Rightarrow>
             let c = join6 (join6 (join6 (n - 0xF0) (payload b1)) (payload b2)) (payload b3) in
             if cont b1 \<and> cont b2 \<and> cont b3 \<and> 0x10000 \<le> c \<and> c < 0x110000
             then map_option ((#) c) (utf8_decode r) else None
         | _ \<Rightarrow> None)
      else None)"

declare utf8_decode.simps(2) [simp del]

section \<open>Bytes of one code point\<close>

lemma unat_byte [simp]: "n < 256 \<Longrightarrow> unat (byte_of n) = n"
  by (simp add: byte_of_def unat_of_nat)

lemma cont_byte [simp]: "k < 64 \<Longrightarrow> cont (byte_of (128 + k))"
  by (simp add: cont_def)

lemma payload_byte [simp]: "k < 64 \<Longrightarrow> payload (byte_of (128 + k)) = k"
  by (simp add: payload_def)

lemma utf8_cp_cases:
  assumes "utf8_cp c = Some bs"
  obtains
    (one) "c < 0x80" "bs = [byte_of c]"
  | (two) "0x80 \<le> c" "c < 0x800" "bs = [byte_of (0xC0 + c div 64), byte_of (0x80 + c mod 64)]"
  | (three) "0x800 \<le> c" "c < 0x10000" "\<not> is_surrogate c"
      "bs = [byte_of (0xE0 + c div 4096), byte_of (0x80 + c div 64 mod 64), byte_of (0x80 + c mod 64)]"
  | (four) "0x10000 \<le> c" "c < 0x110000"
      "bs = [byte_of (0xF0 + c div 262144), byte_of (0x80 + c div 4096 mod 64),
             byte_of (0x80 + c div 64 mod 64), byte_of (0x80 + c mod 64)]"
  using assms by (auto simp: utf8_cp_def split: if_splits)

lemma utf8_cp_None_iff: "utf8_cp c = None \<longleftrightarrow> is_surrogate c \<or> \<not> valid_cp c"
  by (auto simp: utf8_cp_def is_surrogate_def valid_cp_def)

lemma utf8_cp_length: "utf8_cp c = Some bs \<Longrightarrow> 1 \<le> length bs \<and> length bs \<le> 4"
  by (erule utf8_cp_cases) simp_all

lemma join6_div_mod [simp]:
  "join6 (c div 64) (c mod 64) = c"
  "join6 (c div 4096) (c div 64 mod 64) = c div 64"
  "join6 (c div 262144) (c div 4096 mod 64) = c div 4096"
proof -
  have d1: "c div 4096 = c div 64 div 64" by (simp add: div_mult2_eq [symmetric])
  have d2: "c div 262144 = c div 4096 div 64" by (simp add: div_mult2_eq [symmetric])
  show "join6 (c div 64) (c mod 64) = c" by (simp add: join6_def)
  show "join6 (c div 4096) (c div 64 mod 64) = c div 64" by (simp add: join6_def d1)
  show "join6 (c div 262144) (c div 4096 mod 64) = c div 4096" by (simp add: join6_def d2)
qed

lemma decode_one:
  assumes "c < 0x80"
  shows "utf8_decode (byte_of c # rest) = map_option ((#) c) (utf8_decode rest)"
  using assms by (simp add: utf8_decode.simps(2))

lemma decode_two:
  assumes "0x80 \<le> c" "c < 0x800"
  shows "utf8_decode (byte_of (0xC0 + c div 64) # byte_of (0x80 + c mod 64) # rest) =
    map_option ((#) c) (utf8_decode rest)"
proof -
  from assms have hi: "c div 64 < 32" by simp
  then have n: "unat (byte_of (0xC0 + c div 64)) = 0xC0 + c div 64" by simp
  show ?thesis
    using hi assms(1) by (simp add: utf8_decode.simps(2) n)
qed

lemma decode_three:
  assumes "0x800 \<le> c" "c < 0x10000" "\<not> is_surrogate c"
  shows "utf8_decode (byte_of (0xE0 + c div 4096) # byte_of (0x80 + c div 64 mod 64)
      # byte_of (0x80 + c mod 64) # rest) = map_option ((#) c) (utf8_decode rest)"
proof -
  from assms have hi: "c div 4096 < 16" by simp
  then have n: "unat (byte_of (0xE0 + c div 4096)) = 0xE0 + c div 4096" by simp
  show ?thesis
    using hi assms by (simp add: utf8_decode.simps(2) n)
qed

lemma decode_four:
  assumes "0x10000 \<le> c" "c < 0x110000"
  shows "utf8_decode (byte_of (0xF0 + c div 262144) # byte_of (0x80 + c div 4096 mod 64)
      # byte_of (0x80 + c div 64 mod 64) # byte_of (0x80 + c mod 64) # rest) =
    map_option ((#) c) (utf8_decode rest)"
proof -
  from assms have hi: "c div 262144 < 5" by simp
  then have n: "unat (byte_of (0xF0 + c div 262144)) = 0xF0 + c div 262144" by simp
  show ?thesis
    using hi assms by (simp add: utf8_decode.simps(2) n)
qed

lemma decode_cp:
  assumes "utf8_cp c = Some bs"
  shows "utf8_decode (bs @ rest) = map_option ((#) c) (utf8_decode rest)"
  using assms
  by (rule utf8_cp_cases) (simp_all add: decode_one decode_two decode_three decode_four)

section \<open>Strings\<close>

lemma encode_from_Inr_iff:
  "encode_from i s = Inr bs \<longleftrightarrow>
     (\<exists>css. list_all2 (\<lambda>c cs. utf8_cp c = Some cs) s css \<and> bs = concat css)"
proof (induction s arbitrary: i bs)
  case Nil
  show ?case by auto
next
  case (Cons c s)
  show ?case
    by (cases "utf8_cp c")
      (auto simp: bind_res_eq_Inr_iff Cons.IH list_all2_Cons1)
qed

lemma encode_from_index: "encode_from i s = Inr bs \<Longrightarrow> encode_from j s = Inr bs"
  by (simp add: encode_from_Inr_iff)

lemma encode_from_decode: "encode_from i s = Inr bs \<Longrightarrow> utf8_decode bs = Some s"
proof (induction s arbitrary: i bs)
  case Nil
  then show ?case by simp
next
  case (Cons c s)
  then obtain cs r where "utf8_cp c = Some cs" "encode_from (Suc i) s = Inr r" "bs = cs @ r"
    by (auto simp: bind_res_eq_Inr_iff split: option.splits)
  with Cons.IH show ?case by (simp add: decode_cp)
qed

lemma encode_from_append:
  "encode_from i (s @ t) =
     bind_res (encode_from i s) (\<lambda>a. bind_res (encode_from (i + length s) t) (\<lambda>b. Inr (a @ b)))"
proof (induction s arbitrary: i)
  case Nil
  show ?case by simp
next
  case (Cons c s)
  show ?case
    by (cases "utf8_cp c") (simp_all add: Cons.IH bind_res_assoc)
qed

lemma encode_from_first:
  "encode_from i s = Inl e \<longleftrightarrow>
     (\<exists>k. first_at (\<lambda>c. utf8_cp c = None) s k \<and> e = UnicodeEncodeError (i + k))"
proof (induction s arbitrary: i)
  case (Cons c s)
  show ?case
    by (cases "utf8_cp c") (auto simp: first_at_Cons bind_res_eq_Inl_iff Cons.IH)
qed simp

lemma length_concat_bounds:
  assumes "list_all2 (\<lambda>c cs. 1 \<le> length cs \<and> length cs \<le> 4) s css"
  shows "length s \<le> length (concat css) \<and> length (concat css) \<le> 4 * length s"
  using assms by (induction rule: list_all2_induct) auto

lemma str_encode_ascii:
  "list_all (\<lambda>c. c < 0x80) s \<Longrightarrow> encode_from i s = Inr (map byte_of s)"
  by (induction s arbitrary: i) (simp_all add: utf8_cp_def)

lemma str_encode_inj: "str_encode s = Inr bs \<Longrightarrow> str_encode t = Inr bs \<Longrightarrow> s = t"
  unfolding str_encode_def by (metis encode_from_decode option.inject)

lemma str_encode_error_iff:
  assumes "valid_str s"
  shows "str_encode s = Inl e \<longleftrightarrow>
    (\<exists>i < length s. is_surrogate (s ! i) \<and> (\<forall>j < i. \<not> is_surrogate (s ! j))
       \<and> e = UnicodeEncodeError i)"
proof -
  have "first_at (\<lambda>c. utf8_cp c = None) s k \<longleftrightarrow> first_at is_surrogate s k" for k
    using assms by (intro first_at_cong) (auto simp: utf8_cp_None_iff valid_str_def list_all_iff)
  then show ?thesis
    by (auto simp: str_encode_def encode_from_first first_at_def)
qed

lemma str_encode_Inl: "str_encode s = Inl e \<Longrightarrow> \<exists>i < length s. e = UnicodeEncodeError i"
  by (auto simp: str_encode_def encode_from_first first_at_def)

lemma str_encode_total:
  assumes "valid_str s" and "list_all (\<lambda>c. \<not> is_surrogate c) s"
  shows "\<exists>bs. str_encode s = Inr bs"
proof (cases "str_encode s")
  case (Inl e)
  with assms show ?thesis
    by (auto simp: str_encode_error_iff list_all_length)
next
  case (Inr bs)
  then show ?thesis by blast
qed

section \<open>Properties\<close>

text \<open>
  C30 (roundtrip).  The strict UTF-8 decoder inverts the encoder: when
  \<open>str.encode()\<close> returns bytes, decoding them gives back the string.
\<close>

theorem str_encode_roundtrip:
  "str_encode s = Inr bs \<Longrightarrow> utf8_decode bs = Some s"
  unfolding str_encode_def by (rule encode_from_decode)

theorem str_encode_roundtrip_witness:
  "str_encode [0x41, 0xE9, 0x20AC, 0x1F600] =
     Inr [0x41, 0xC3, 0xA9, 0xE2, 0x82, 0xAC, 0xF0, 0x9F, 0x98, 0x80] \<and>
   utf8_decode [0x41, 0xC3, 0xA9, 0xE2, 0x82, 0xAC, 0xF0, 0x9F, 0x98, 0x80] =
     Some [0x41, 0xE9, 0x20AC, 0x1F600]"
proof -
  have enc: "str_encode [0x41, 0xE9, 0x20AC, 0x1F600] =
      Inr [0x41, 0xC3, 0xA9, 0xE2, 0x82, 0xAC, 0xF0, 0x9F, 0x98, 0x80]"
    by (simp add: zt_eval)
  from enc str_encode_roundtrip [OF enc] show ?thesis by simp
qed

text \<open>
  The encoded text has at least as many bytes as the string has
  code points, and at most four times as many.
\<close>

theorem str_encode_length:
  assumes "str_encode s = Inr bs"
  shows "length s \<le> length bs \<and> length bs \<le> 4 * length s"
proof -
  from assms obtain css where css: "list_all2 (\<lambda>c cs. utf8_cp c = Some cs) s css"
    and bs: "bs = concat css"
    by (auto simp: str_encode_def encode_from_Inr_iff)
  from css have "list_all2 (\<lambda>c cs. 1 \<le> length cs \<and> length cs \<le> 4) s css"
    by (rule list_all2_mono) (rule utf8_cp_length)
  with bs show ?thesis by (simp add: length_concat_bounds)
qed

theorem str_encode_length_witness:
  "str_encode [0x41, 0x1F600] = Inr [0x41, 0xF0, 0x9F, 0x98, 0x80] \<and>
   length [0x41, 0x1F600 :: nat] \<le> length [0x41, 0xF0, 0x9F, 0x98, 0x80 :: byte] \<and>
   length [0x41, 0xF0, 0x9F, 0x98, 0x80 :: byte] \<le> 4 * length [0x41, 0x1F600 :: nat]"
proof -
  have enc: "str_encode [0x41, 0x1F600] = Inr [0x41, 0xF0, 0x9F, 0x98, 0x80]"
    by (simp add: zt_eval)
  from enc str_encode_length [OF enc] show ?thesis by simp
qed

end
