(* ===== verification/Sha256.thy ===== *)
theory Sha256
  imports ZT_Prelude
begin

text \<open>
  SHA-256 as \<open>hashlib.sha256\<close> computes it (FIPS 180-4), on 32-bit words:
  the message is padded to a multiple of 64 bytes, cut into blocks of sixteen
  big-endian words, and each block is compressed into the chaining value by 64
  rounds over its message schedule.  Additions wrap around, as \<open>+\<close> on
  \<open>32 word\<close> does.

  The schedule is computed with a sliding window of sixteen words; it is shown
  to have 64 words and to satisfy the recurrence of the standard.  The padded
  message is shown to consist of whole blocks, so that every index used by the
  schedule is in range, and the digest to have 32 bytes.  Padding and parsing
  are shown to be injective: the words give the bytes back, the length field
  and the padded length give the length of the message back, so two messages
  with the same blocks are equal.  Theory \<open>Sha256_Vectors\<close> checks the model
  against test vectors of the standard.
\<close>

section \<open>Functions and constants\<close>

type_synonym word32 = "32 word"
type_synonym hstate =
  "word32 \<times> word32 \<times> word32 \<times> word32 \<times> word32 \<times> word32 \<times> word32 \<times> word32"

definition rotr :: "nat \<Rightarrow> word32 \<Rightarrow> word32" where
  "rotr n x = drop_bit n x OR push_bit (32 - n) x"

definition Ch :: "word32 \<Rightarrow> word32 \<Rightarrow> word32 \<Rightarrow> word32" where
  "Ch x y z = (x AND y) XOR (NOT x AND z)"

definition Maj :: "word32 \<Rightarrow> word32 \<Rightarrow> word32 \<Rightarrow> word32" where
  "Maj x y z = (x AND y) XOR (x AND z) XOR (y AND z)"

definition Sigma0 :: "word32 \<Rightarrow> word32" where
  "Sigma0 x = rotr 2 x XOR rotr 13 x XOR rotr 22 x"

definition Sigma1 :: "word32 \<Rightarrow> word32" where
  "Sigma1 x = rotr 6 x XOR rotr 11 x XOR rotr 25 x"

definition sigma0 :: "word32 \<Rightarrow> word32" where
  "sigma0 x = rotr 7 x XOR rotr 18 x XOR drop_bit 3 x"

definition sigma1 :: "word32 \<Rightarrow> word32" where
  "sigma1 x = rotr 17 x XOR rotr 19 x XOR drop_bit 10 x"

definition K256 :: "word32 list" where
  "K256 = concat [
   [0x428a2f98, 0x71374491, 0xb5c0fbcf, 0xe9b5dba5, 0x3956c25b, 0x59f111f1, 0x923f82a4, 0xab1c5ed5],
   [0xd807aa98, 0x12835b01, 0x243185be, 0x550c7dc3, 0x72be5d74, 0x80deb1fe, 0x9bdc06a7, 0xc19bf174],
   [0xe49b69c1, 0xefbe4786, 0x0fc19dc6, 0x240ca1cc, 0x2de92c6f, 0x4a7484aa, 0x5cb0a9dc, 0x76f988da],
   [0x983e5152, 0xa831c66d, 0xb00327c8, 0xbf597fc7, 0xc6e00bf3, 0xd5a79147, 0x06ca6351, 0x14292967],
   [0x27b70a85, 0x2e1b2138, 0x4d2c6dfc, 0x53380d13, 0x650a7354, 0x766a0abb, 0x81c2c92e, 0x92722c85],
   [0xa2bfe8a1, 0xa81a664b, 0xc24b8b70, 0xc76c51a3, 0xd192e819, 0xd6990624, 0xf40e3585, 0x106aa070],
   [0x19a4c116, 0x1e376c08, 0x2748774c, 0x34b0bcb5, 0x391c0cb3, 0x4ed8aa4a, 0x5b9cca4f, 0x682e6ff3],
   [0x748f82ee, 0x78a5636f, 0x84c87814, 0x8cc70208, 0x90befffa, 0xa4506ceb, 0xbef9a3f7, 0xc67178f2]]"

definition H256 :: hstate where
  "H256 = (0x6a09e667, 0xbb67ae85, 0x3c6ef372, 0xa54ff53a,
           0x510e527f, 0x9b05688c, 0x1f83d9ab, 0x5be0cd19)"

section \<open>Padding and parsing\<close>

definition pad_zeros :: "nat \<Rightarrow> nat" where
  "pad_zeros len = (64 - (len + 9) mod 64) mod 64"

definition length_field :: "nat \<Rightarrow> pybytes" where
  "length_field len =
     map (\<lambda>i. ucast (drop_bit (8 * i) (of_nat (8 * len) :: 64 word))) [7, 6, 5, 4, 3, 2, 1, 0]"

definition pad :: "pybytes \<Rightarrow> pybytes" where
  "pad m = m @ [0x80] @ replicate (pad_zeros (length m)) 0 @ length_field (length m)"

definition be32 :: "byte \<Rightarrow> byte \<Rightarrow> byte \<Rightarrow> byte \<Rightarrow> word32" where
  "be32 a b c d =
     push_bit 24 (ucast a) OR push_bit 16 (ucast b) OR push_bit 8 (ucast c) OR ucast d"

fun words_of :: "pybytes \<Rightarrow> word32 list" where
  "words_of (a # b # c # d # r) = be32 a b c d # words_of r"
| "words_of _ = []"

fun blocks :: "word32 list \<Rightarrow> word32 list list" where
  "blocks [] = []"
| "blocks (w # ws) = take 16 (w # ws) # blocks (drop 16 (w # ws))"

section \<open>Message schedule and compression\<close>

definition next_w :: "word32 list \<Rightarrow> word32" where
  "next_w w = sigma1 (w ! 14) + w ! 9 + sigma0 (w ! 1) + w ! 0"

fun extend :: "nat \<Rightarrow> word32 list \<Rightarrow> word32 list" where
  "extend 0 w = []"
| "extend (Suc n) w =
     (case w of [] \<Rightarrow> [] | x # r \<Rightarrow> x # extend n (r @ [next_w w]))"

definition schedule :: "word32 list \<Rightarrow> word32 list" where
  "schedule blk = extend 64 blk"

fun round_step :: "word32 \<times> word32 \<Rightarrow> hstate \<Rightarrow> hstate" where
  "round_step (k, w) (a, b, c, d, e, f, g, h) =
     (let t1 = h + Sigma1 e + Ch e f g + k + w;
          t2 = Sigma0 a + Maj a b c
      in (t1 + t2, a, b, c, d + t1, e, f, g))"

fun add_state :: "hstate \<Rightarrow> hstate \<Rightarrow> hstate" where
  "add_state (a, b, c, d, e, f, g, h) (a', b', c', d', e', f', g', h') =
     (a + a', b + b', c + c', d + d', e + e', f + f', g + g', h + h')"

definition compress :: "hstate \<Rightarrow> word32 list \<Rightarrow> hstate" where
  "compress s blk = add_state s (fold round_step (zip K256 (schedule blk)) s)"

section \<open>Digest\<close>

definition word_bytes :: "word32 \<Rightarrow> pybytes" where
  "word_bytes w = [ucast (drop_bit 24 w), ucast (drop_bit 16 w), ucast (drop_bit 8 w), ucast w]"

fun state_words :: "hstate \<Rightarrow> word32 list" where
  "state_words (a, b, c, d, e, f, g, h) = [a, b, c, d, e, f, g, h]"

definition sha256 :: "pybytes \<Rightarrow> pybytes" where
  "sha256 m =
     concat (map word_bytes (state_words (foldl compress H256 (blocks (words_of (pad m))))))"

lemmas sha256_defs = rotr_def Ch_def Maj_def Sigma0_def Sigma1_def sigma0_def sigma1_def
  K256_def H256_def pad_zeros_def length_field_def pad_def be32_def next_w_def schedule_def
  compress_def word_bytes_def sha256_def

section \<open>Padding yields whole blocks\<close>

lemma length_length_field [simp]: "length (length_field n) = 8"
  by (simp add: length_field_def)

lemma length_pad: "length (pad m) = length m + 9 + pad_zeros (length m)"
  by (simp add: pad_def)

lemma pad_zeros_less: "pad_zeros n < 64"
  by (simp add: pad_zeros_def)

lemma pad_block_aligned: "(n + 9 + pad_zeros n) mod 64 = 0"
proof -
  define r where "r = (n + 9) mod 64"
  define q where "q = (n + 9) div 64"
  have r: "r < 64" and nq: "n + 9 = 64 * q + r"
    by (simp_all add: r_def q_def)
  show ?thesis
  proof (cases "r = 0")
    case True
    then show ?thesis by (simp add: pad_zeros_def r_def [symmetric])
  next
    case False
    with r have "pad_zeros n = 64 - r"
      by (simp add: pad_zeros_def r_def [symmetric])
    with r nq have "n + 9 + pad_zeros n = 64 * (q + 1)" by simp
    then show ?thesis by (simp only: mod_mult_self1_is_0)
  qed
qed

lemma pad_total: "n + 9 + pad_zeros n = 64 * ((n + 8) div 64 + 1)"
proof -
  define r where "r = (n + 8) mod 64"
  define q where "q = (n + 8) div 64"
  have r: "r < 64" and nq: "n + 8 = 64 * q + r"
    by (simp_all add: r_def q_def)
  from nq have "n + 9 = 64 * q + (r + 1)" by simp
  then have "(n + 9) mod 64 = (r + 1) mod 64" by (simp only: mod_mult_self4)
  with r have "pad_zeros n = 63 - r"
    by (cases "r = 63") (simp_all add: pad_zeros_def)
  with r nq show ?thesis
    by (simp add: q_def [symmetric])
qed

lemma length_pad_mod: "length (pad m) mod 64 = 0"
  by (simp add: length_pad pad_block_aligned)

lemma length_words_of: "length (words_of bs) = length bs div 4"
  by (induction bs rule: words_of.induct) simp_all

lemma mod16_step: "(n::nat) mod 16 = 0 \<Longrightarrow> 0 < n \<Longrightarrow> 16 \<le> n \<and> (n - 16) mod 16 = 0"
  by presburger

lemma blocks_whole:
  "length ws mod 16 = 0 \<Longrightarrow> list_all (\<lambda>b. length b = 16) (blocks ws)"
proof (induction ws rule: blocks.induct)
  case 1
  show ?case by simp
next
  case (2 w ws)
  from "2.prems" have ge: "16 \<le> length (w # ws)"
    and "length (drop 16 (w # ws)) mod 16 = 0"
    using mod16_step [of "length (w # ws)"] by simp_all
  with "2.IH" show ?case
    by (simp del: drop_Suc_Cons take_Suc_Cons)
qed

lemma length_blocks: "length ws mod 16 = 0 \<Longrightarrow> length (blocks ws) = length ws div 16"
proof (induction ws rule: blocks.induct)
  case 1
  show ?case by simp
next
  case (2 w ws)
  from "2.prems" have ge: "16 \<le> length (w # ws)"
    and "length (drop 16 (w # ws)) mod 16 = 0"
    using mod16_step [of "length (w # ws)"] by simp_all
  with "2.IH" have "length (blocks (w # ws)) = Suc ((length (w # ws) - 16) div 16)"
    by (simp del: drop_Suc_Cons take_Suc_Cons)
  with ge show ?case
    by (simp add: le_div_geq del: blocks.simps)
qed

lemma concat_blocks: "concat (blocks ws) = ws"
  by (induction ws rule: blocks.induct) (simp_all del: drop_Suc_Cons take_Suc_Cons)

lemma div4_mod16:
  assumes "(n::nat) mod 64 = 0"
  shows "n div 4 mod 16 = 0"
proof -
  from assms obtain k where "n = 64 * k"
    by (auto simp: mod_eq_0_iff_dvd)
  then have "n div 4 = 16 * k" by simp
  then show ?thesis by simp
qed

lemma padded_words_mod: "length (words_of (pad m)) mod 16 = 0"
  by (simp add: length_words_of length_pad_mod div4_mod16)

lemma block_count: "length (blocks (words_of (pad m))) = (length m + 8) div 64 + 1"
  by (simp add: length_blocks padded_words_mod length_words_of div_mult2_eq length_pad pad_total)

section \<open>The schedule\<close>

lemma length_extend: "length w = 16 \<Longrightarrow> length (extend n w) = n"
proof (induction n arbitrary: w)
  case 0
  show ?case by simp
next
  case (Suc n)
  then obtain x r where w: "w = x # r" by (cases w) auto
  with Suc.prems have "length (r @ [next_w w]) = 16" by simp
  with Suc.IH w show ?case by simp
qed

lemma extend_nth_low:
  "length w = 16 \<Longrightarrow> i < n \<Longrightarrow> i < 16 \<Longrightarrow> extend n w ! i = w ! i"
proof (induction n arbitrary: w i)
  case 0
  then show ?case by simp
next
  case (Suc n)
  then obtain x r where w: "w = x # r" by (cases w) auto
  with Suc.prems have len: "length (r @ [next_w w]) = 16" by simp
  show ?case
  proof (cases i)
    case 0
    with w show ?thesis by simp
  next
    case (Suc j)
    with Suc.prems w have "j < n" "j < 15" "j < length r" by simp_all
    with Suc.IH [OF len, of j] w Suc show ?thesis
      by (simp add: nth_append)
  qed
qed

lemma take_extend: "length w = 16 \<Longrightarrow> 16 \<le> n \<Longrightarrow> take 16 (extend n w) = w"
  by (rule nth_equalityI) (simp_all add: length_extend extend_nth_low)

lemma extend_nth_high:
  "length w = 16 \<Longrightarrow> 16 + i < n \<Longrightarrow>
     extend n w ! (16 + i) = next_w (take 16 (drop i (extend n w)))"
proof (induction i arbitrary: n w)
  case 0
  then obtain m where n: "n = Suc m" by (cases n) auto
  from 0 obtain x r where w: "w = x # r" by (cases w) auto
  with 0 have len: "length (r @ [next_w w]) = 16" by simp
  from 0 n have "extend m (r @ [next_w w]) ! 15 = (r @ [next_w w]) ! 15"
    by (intro extend_nth_low [OF len]) simp_all
  moreover from 0 w have "length r = 15" by simp
  ultimately have "extend n w ! 16 = next_w w"
    using n w by (simp add: nth_append)
  with 0 show ?case by (simp add: take_extend)
next
  case (Suc i)
  then obtain m where n: "n = Suc m" by (cases n) auto
  from Suc.prems obtain x r where w: "w = x # r" by (cases w) auto
  with Suc.prems have len: "length (r @ [next_w w]) = 16" by simp
  from Suc.prems n have "16 + i < m" by simp
  from Suc.IH [OF len this] n w show ?case by simp
qed

lemma length_schedule: "length blk = 16 \<Longrightarrow> length (schedule blk) = 64"
  by (simp add: schedule_def length_extend)

section \<open>The digest\<close>

lemma length_state_words [simp]: "length (state_words s) = 8"
  by (cases s rule: state_words.cases) simp

lemma length_word_bytes [simp]: "length (word_bytes w) = 4"
  by (simp add: word_bytes_def)

lemma length_sha256: "length (sha256 m) = 32"
  by (simp add: sha256_def length_concat_const [where k = 4])

lemma schedule_low: "length blk = 16 \<Longrightarrow> t < 16 \<Longrightarrow> schedule blk ! t = blk ! t"
  by (simp add: schedule_def extend_nth_low)

lemma schedule_high:
  assumes "length blk = 16" and "16 \<le> t" and "t < 64"
  shows "schedule blk ! t =
    sigma1 (schedule blk ! (t - 2)) + schedule blk ! (t - 7) +
    sigma0 (schedule blk ! (t - 15)) + schedule blk ! (t - 16)"
proof -
  from assms(2,3) obtain i where t: "t = 16 + i" "16 + i < 64"
    by (metis le_Suc_ex)
  with assms(1) have "extend 64 blk ! (16 + i) = next_w (take 16 (drop i (extend 64 blk)))"
    by (intro extend_nth_high)
  with t assms(1) show ?thesis
    by (simp add: schedule_def next_w_def length_extend add.commute)
qed

section \<open>Parsing and padding can be undone\<close>

lemma word_bytes_be32: "word_bytes (be32 a b c d) = [a, b, c, d]"
  unfolding word_bytes_def be32_def
  by (simp, intro conjI; rule bit_word_eqI; simp add: bit_simps; auto dest: bit_imp_le_length)

lemma words_of_inverse:
  "length bs mod 4 = 0 \<Longrightarrow> concat (map word_bytes (words_of bs)) = bs"
proof (induction bs rule: words_of.induct)
  case (1 a b c d r)
  then show ?case by (simp add: word_bytes_be32)
qed simp_all

lemma length_pad_mod4: "length (pad m) mod 4 = 0"
proof -
  have "length (pad m) mod 64 mod 4 = length (pad m) mod 4"
    by (rule mod_mod_cancel) simp
  then show ?thesis by (simp add: length_pad_mod)
qed

lemma bit_byte_at:
  "bit (ucast (drop_bit (8 * i) (w :: 64 word)) :: byte) j \<longleftrightarrow> j < 8 \<and> bit w (8 * i + j)"
  by (auto simp: bit_simps dest: bit_imp_le_length)

lemma length_field_bytes:
  assumes "length_field n = length_field n'" and "i < 8"
  shows "(ucast (drop_bit (8 * i) (of_nat (8 * n) :: 64 word)) :: byte) =
         ucast (drop_bit (8 * i) (of_nat (8 * n') :: 64 word))"
proof -
  from \<open>i < 8\<close> have "i \<in> {0, 1, 2, 3, 4, 5, 6, 7}" by auto
  with assms(1) show ?thesis unfolding length_field_def by auto
qed

lemma length_field_inj:
  assumes "length_field n = length_field n'"
  shows "(of_nat (8 * n) :: 64 word) = of_nat (8 * n')"
proof (rule bit_word_eqI)
  fix k assume "k < LENGTH(64)"
  then have i: "k div 8 < 8" and k: "8 * (k div 8) + k mod 8 = k" by simp_all
  have "bit (of_nat (8 * n) :: 64 word) k \<longleftrightarrow>
        bit (ucast (drop_bit (8 * (k div 8)) (of_nat (8 * n) :: 64 word)) :: byte) (k mod 8)"
    by (simp only: bit_byte_at k) simp
  also have "\<dots> \<longleftrightarrow>
        bit (ucast (drop_bit (8 * (k div 8)) (of_nat (8 * n') :: 64 word)) :: byte) (k mod 8)"
    by (simp only: length_field_bytes [OF assms i])
  also have "\<dots> \<longleftrightarrow> bit (of_nat (8 * n') :: 64 word) k"
    by (simp only: bit_byte_at k) simp
  finally show "bit (of_nat (8 * n) :: 64 word) k \<longleftrightarrow> bit (of_nat (8 * n') :: 64 word) k" .
qed

lemma field_mod:
  assumes "(of_nat (8 * n) :: 64 word) = of_nat (8 * n')"
  shows "(8 * n) mod 2 ^ 64 = (8 * n') mod 2 ^ 64"
proof -
  from assms have "take_bit 64 (8 * n) = take_bit 64 (8 * n')"
    unfolding word_of_nat_eq_iff by simp
  then show ?thesis by (simp only: take_bit_eq_mod)
qed

text \<open>
  Two lengths with the same length field and the same padded length are equal:
  they differ by less than a block, and by a multiple of \<open>2\<^sup>6\<^sup>1\<close>.
\<close>

lemma length_from_field:
  assumes w: "(of_nat (8 * n) :: 64 word) = of_nat (8 * n')"
    and l: "n + pad_zeros n = n' + pad_zeros n'"
  shows "n = n'"
proof -
  note m = field_mod [OF w]
  have z: "pad_zeros n < 64" "pad_zeros n' < 64" by (rule pad_zeros_less)+
  have big: "(512 :: nat) \<le> 2 ^ 64" by simp
  show ?thesis
  proof (cases "n \<le> n'")
    case True
    then have le: "8 * n \<le> 8 * n'" by simp
    from True l z have "8 * n' - 8 * n < 512" by linarith
    then have "8 * n' - 8 * n < 2 ^ 64" using big by (rule less_le_trans)
    with le have "8 * n = 8 * n'" using m by (rule mod_close_eq)
    then show ?thesis by simp
  next
    case False
    then have le: "8 * n' \<le> 8 * n" by simp
    from False l z have "8 * n - 8 * n' < 512" by linarith
    then have "8 * n - 8 * n' < 2 ^ 64" using big by (rule less_le_trans)
    with le have "8 * n' = 8 * n" using m [symmetric] by (rule mod_close_eq)
    then show ?thesis by simp
  qed
qed

lemma pad_inj:
  assumes "pad m = pad m'"
  shows "m = m'"
proof -
  let ?n = "length m" and ?n' = "length m'"
  from assms have "length (pad m) = length (pad m')" by simp
  then have l: "?n + pad_zeros ?n = ?n' + pad_zeros ?n'" by (simp add: length_pad)
  from assms have "(m @ 0x80 # replicate (pad_zeros ?n) 0) @ length_field ?n =
      (m' @ 0x80 # replicate (pad_zeros ?n') 0) @ length_field ?n'"
    by (simp add: pad_def)
  then have "length_field ?n = length_field ?n'"
    by (simp only: append_eq_append_conv length_length_field simp_thms)
  then have "(of_nat (8 * ?n) :: 64 word) = of_nat (8 * ?n')" by (rule length_field_inj)
  then have n: "?n = ?n'" using l by (rule length_from_field)
  from assms have "take ?n (pad m) = take ?n (pad m')" by simp
  then show ?thesis by (simp add: pad_def n)
qed

lemma preprocess_inj:
  assumes "blocks (words_of (pad m)) = blocks (words_of (pad m'))"
  shows "m = m'"
proof -
  from assms have "concat (blocks (words_of (pad m))) = concat (blocks (words_of (pad m')))"
    by simp
  then have "words_of (pad m) = words_of (pad m')" by (simp only: concat_blocks)
  then have "concat (map word_bytes (words_of (pad m))) =
      concat (map word_bytes (words_of (pad m')))"
    by simp
  then have "pad m = pad m'" by (simp only: words_of_inverse [OF length_pad_mod4])
  then show ?thesis by (rule pad_inj)
qed

section \<open>Properties\<close>

text \<open>
  The sliding-window schedule is the message schedule of
  the standard: for a block of sixteen words it has 64 words, the first
  sixteen are the block, and each later word \<open>W\<^sub>t\<close> is
  \<open>\<sigma>\<^sub>1(W\<^sub>t\<^sub>-\<^sub>2) + W\<^sub>t\<^sub>-\<^sub>7 + \<sigma>\<^sub>0(W\<^sub>t\<^sub>-\<^sub>1\<^sub>5) + W\<^sub>t\<^sub>-\<^sub>1\<^sub>6\<close> modulo \<open>2\<^sup>3\<^sup>2\<close>.
\<close>

theorem schedule_recurrence:
  assumes "length blk = 16"
  shows "length (schedule blk) = 64 \<and>
    (\<forall>t < 16. schedule blk ! t = blk ! t) \<and>
    (\<forall>t. 16 \<le> t \<and> t < 64 \<longrightarrow>
      schedule blk ! t =
        sigma1 (schedule blk ! (t - 2)) + schedule blk ! (t - 7) +
        sigma0 (schedule blk ! (t - 15)) + schedule blk ! (t - 16))"
  using assms by (simp add: length_schedule schedule_low schedule_high)

theorem schedule_recurrence_witness:
  "length (0x61626380 # replicate 14 0 @ [0x18 :: word32]) = 16 \<and>
   schedule (0x61626380 # replicate 14 0 @ [0x18]) ! 16 = 0x61626380"
proof -
  let ?blk = "0x61626380 # replicate 14 0 @ [0x18 :: word32]"
  have len: "length ?blk = 16" by simp
  from schedule_recurrence [OF len]
  have low: "\<And>t. t < 16 \<Longrightarrow> schedule ?blk ! t = ?blk ! t"
    and high: "schedule ?blk ! 16 =
      sigma1 (schedule ?blk ! 14) + schedule ?blk ! 9 + sigma0 (schedule ?blk ! 1) + schedule ?blk ! 0"
    by simp_all
  from high show ?thesis
    by (simp add: low sigma0_def sigma1_def rotr_def nth_append nth_Cons')
qed

text \<open>
  C29 (bounds).  The padded message consists of whole blocks: parsing it gives
  \<open>(length m + 8) div 64 + 1\<close> blocks of exactly sixteen words each, so no
  index of the message schedule is out of range.  A message has one block
  exactly when it has at most 55 bytes, since the padding adds the byte
  \<open>0x80\<close> and the eight bytes of the length.
\<close>

theorem padded_blocks_whole:
  "list_all (\<lambda>b. length b = 16) (blocks (words_of (pad m))) \<and>
   length (blocks (words_of (pad m))) = (length m + 8) div 64 + 1 \<and>
   (length (blocks (words_of (pad m))) = 1 \<longleftrightarrow> length m \<le> 55)"
proof -
  have "list_all (\<lambda>b. length b = 16) (blocks (words_of (pad m)))"
    by (rule blocks_whole) (rule padded_words_mod)
  moreover have "(length m + 8) div 64 = 0 \<longleftrightarrow> length m \<le> 55"
    by (simp add: div_eq_0_iff) arith
  ultimately show ?thesis by (simp add: block_count)
qed

text \<open>
  C28 (safety).  Padding and parsing lose nothing: two messages with the same
  blocks are the same message, whatever their lengths.  A collision of the
  digest of two different messages is therefore a collision of the
  compression of different blocks, never of the preprocessing.
\<close>

theorem preprocess_injective:
  "blocks (words_of (pad m)) = blocks (words_of (pad m')) \<longleftrightarrow> m = m'"
  by (auto dest: preprocess_inj)

end
