(* ===== verification/Sha256_Vectors.thy ===== *)
theory Sha256_Vectors
  imports Sha256
begin

text \<open>
  The model of SHA-256 evaluated on the messages of the standard's examples
  (FIPS 180-4: \<open>abc\<close>, one block, and a message of 56 bytes, two blocks) and
  on a subject id with its extra key, and on the boundary inputs of the
  padding: the empty message, whose one block is padding alone, and a message
  of 55 bytes, the longest that fits one block.  A message of bytes above
  \<open>0x7F\<close>, the encoding of text outside ASCII, completes them.  The expected
  digests are those of the standard and of \<open>hashlib\<close>.  The evaluation runs in
  the kernel, through the code equations of the definitions.
\<close>

lemma sha256_abc:
  "sha256 [0x61, 0x62, 0x63] =
    [0xba, 0x78, 0x16, 0xbf, 0x8f, 0x01, 0xcf, 0xea, 0x41, 0x41, 0x40, 0xde, 0x5d, 0xae, 0x22, 0x23,
     0xb0, 0x03, 0x61, 0xa3, 0x96, 0x17, 0x7a, 0x9c, 0xb4, 0x10, 0xff, 0x61, 0xf2, 0x00, 0x15, 0xad]"
  by code_simp

text \<open>
  The 56 bytes \<open>abcdbcdecdefdefgefghfghighijhijkijkljklmklmnlmnomnopnopq\<close> of the
  standard: the padded message has two blocks.
\<close>

lemma sha256_two_blocks:
  "sha256
     [0x61, 0x62, 0x63, 0x64, 0x62, 0x63, 0x64, 0x65, 0x63, 0x64, 0x65, 0x66,
     0x64, 0x65, 0x66, 0x67, 0x65, 0x66, 0x67, 0x68, 0x66, 0x67, 0x68, 0x69,
     0x67, 0x68, 0x69, 0x6a, 0x68, 0x69, 0x6a, 0x6b, 0x69, 0x6a, 0x6b, 0x6c,
     0x6a, 0x6b, 0x6c, 0x6d, 0x6b, 0x6c, 0x6d, 0x6e, 0x6c, 0x6d, 0x6e, 0x6f,
     0x6d, 0x6e, 0x6f, 0x70, 0x6e, 0x6f, 0x70, 0x71] =
     [0x24, 0x8d, 0x6a, 0x61, 0xd2, 0x06, 0x38, 0xb8, 0xe5, 0xc0, 0x26, 0x93,
     0x0c, 0x3e, 0x60, 0x39, 0xa3, 0x3c, 0xe4, 0x59, 0x64, 0xff, 0x21, 0x67,
     0xf6, 0xec, 0xed, 0xd4, 0x19, 0xdb, 0x06, 0xc1]"
  by code_simp

text \<open>The bytes of \<open>Q1_R1_5_obj1release-42\<close>, a subject id followed by an extra key.\<close>

lemma sha256_subject:
  "sha256
     [0x51, 0x31, 0x5f, 0x52, 0x31, 0x5f, 0x35, 0x5f, 0x6f, 0x62, 0x6a, 0x31,
     0x72, 0x65, 0x6c, 0x65, 0x61, 0x73, 0x65, 0x2d, 0x34, 0x32] =
     [0xb0, 0x32, 0xa3, 0xd8, 0x34, 0x28, 0x36, 0xbf, 0x84, 0xa3, 0x6b, 0xdf,
     0xa0, 0xed, 0x39, 0x90, 0xc1, 0x25, 0x6a, 0xd7, 0x80, 0xd9, 0x99, 0x78,
     0xf9, 0x29, 0xd6, 0x44, 0x5b, 0xe3, 0xaf, 0x8f]"
  by code_simp

text \<open>The empty message: the padded message is the mark, zeros and a length of zero.\<close>

lemma sha256_empty:
  "sha256 [] =
     [0xe3, 0xb0, 0xc4, 0x42, 0x98, 0xfc, 0x1c, 0x14] @ [0x9a, 0xfb, 0xf4, 0xc8, 0x99, 0x6f] @
     [0xb9, 0x24, 0x27, 0xae, 0x41, 0xe4, 0x64, 0x9b] @ [0x93, 0x4c, 0xa4, 0x95, 0x99, 0x1b] @
     [0x78, 0x52, 0xb8, 0x55]"
  by code_simp

text \<open>Fifty-five times the letter \<open>a\<close>: with the mark and the length, exactly one block.\<close>

lemma sha256_one_block_full:
  "sha256 (replicate 55 0x61) =
     [0x9f, 0x43, 0x90, 0xf8, 0xd3, 0x0c, 0x2d, 0xd9, 0x2e, 0xc9, 0xf0, 0x95,
     0xb6, 0x5e, 0x2b, 0x9a, 0xe9, 0xb0, 0xa9, 0x25, 0xa5, 0x25, 0x8e, 0x24,
     0x1c, 0x9f, 0x1e, 0x91, 0x0f, 0x73, 0x43, 0x18]"
  by code_simp

text \<open>
  The UTF-8 bytes of the code points \<open>U+00E9\<close>, \<open>U+20AC\<close> and \<open>U+1F600\<close>: two, three
  and four bytes.
\<close>

lemma sha256_non_ascii:
  "sha256 [0xc3, 0xa9, 0xe2, 0x82, 0xac, 0xf0, 0x9f, 0x98, 0x80] =
     [0xdf, 0x92, 0x26, 0x92, 0x7f, 0xd5, 0x72, 0xc1, 0xee, 0x66, 0xee, 0xc8,
     0x5d, 0xe1, 0xbb, 0x13, 0x94, 0x97, 0x61, 0x48, 0x99, 0xf3, 0x6e, 0x4e,
     0x90, 0x47, 0x4c, 0xb7, 0x1f, 0x6e, 0xf9, 0xd0]"
  by code_simp

end
