(* ===== verification/Hash_Id.thy ===== *)
theory Hash_Id
  imports Utf8 Sha256_Vectors
begin

text \<open>
  \<open>get_hash_id\<close> (\<open>src/zootasks_utils/_src/upload_utils.py\<close>, lines 12 to 34):
  the subject id and the extra key are concatenated, encoded as UTF-8, hashed
  with SHA-256, and the digest is returned as lowercase hexadecimal text.

  \<open>get_hash_id_call\<close> is the call with its positional and keyword arguments,
  bound as the signature prescribes.

  The function raises \<open>UnicodeEncodeError\<close> when the concatenation holds a
  surrogate code point; otherwise it returns 64 hexadecimal digits.  The
  result depends on the concatenation only, so the boundary between subject id
  and extra key is not part of the hash.  The values are checked against the
  test vectors of the standard, against the example of the specification,
  and at the boundaries: empty text, the longest text whose padded encoding
  is one block, and text outside ASCII.
\<close>

section \<open>Definitions\<close>

definition hex_digit :: "nat \<Rightarrow> codepoint" where
  "hex_digit d = (if d < 10 then 48 + d else 87 + d)"

definition hex_byte :: "byte \<Rightarrow> pystr" where
  "hex_byte b = [hex_digit (unat b div 16), hex_digit (unat b mod 16)]"

definition hexdigest :: "pybytes \<Rightarrow> pystr" where
  "hexdigest bs = concat (map hex_byte bs)"

definition get_hash_id :: "pystr \<Rightarrow> pystr \<Rightarrow> pystr result" where
  "get_hash_id subject_id extra_key =
     (let str_to_hash = subject_id @ extra_key
      in bind_res (str_encode str_to_hash) (\<lambda>bs.
           let hash_str = sha256 bs in Inr (hexdigest hash_str)))"

text \<open>
  The call as a caller writes it.  The signature makes \<open>subject_id\<close>
  positional-only (\<open>/\<close>) and \<open>extra_key\<close> keyword-only (\<open>*\<close>), without defaults, so
  Python binds the parameters of exactly one positional argument and the one
  keyword \<open>extra_key\<close>, and raises \<open>TypeError\<close> on every other call.
\<close>

fun get_hash_id_call :: "pystr list \<Rightarrow> (string \<times> pystr) list \<Rightarrow> pystr result" where
  "get_hash_id_call [subject_id] [(k, extra_key)] =
     (if k = ''extra_key'' then get_hash_id subject_id extra_key else Inl TypeError)"
| "get_hash_id_call args kwargs = Inl TypeError"

declare hex_digit_def [zt_eval] hex_byte_def [zt_eval] hexdigest_def [zt_eval]
  get_hash_id_def [zt_eval]

text \<open>Lowercase hexadecimal digits, and the reference inverse of \<open>hexdigest\<close>.\<close>

definition is_lower_hex :: "codepoint \<Rightarrow> bool" where
  "is_lower_hex c \<longleftrightarrow> (48 \<le> c \<and> c \<le> 57) \<or> (97 \<le> c \<and> c \<le> 102)"

definition hex_val :: "codepoint \<Rightarrow> nat" where
  "hex_val c = (if c \<le> 57 then c - 48 else c - 87)"


section \<open>Hexadecimal text\<close>

lemma hex_digit_lower: "d < 16 \<Longrightarrow> is_lower_hex (hex_digit d)"
  by (simp add: hex_digit_def is_lower_hex_def)

lemma hex_val_hex_digit [simp]: "d < 16 \<Longrightarrow> hex_val (hex_digit d) = d"
  by (simp add: hex_digit_def hex_val_def)

lemma length_hex_byte [simp]: "length (hex_byte b) = 2"
  by (simp add: hex_byte_def)

lemma unat_byte_div16: "unat (b :: byte) div 16 < 16"
proof -
  have "unat b < 256" using unsigned_less [of b] by simp
  then show ?thesis by simp
qed

lemma hex_byte_lower: "list_all is_lower_hex (hex_byte b)"
  by (simp add: hex_byte_def hex_digit_lower unat_byte_div16)

lemma length_hexdigest: "length (hexdigest bs) = 2 * length bs"
  by (simp add: hexdigest_def length_concat_const [where k = 2])

lemma hexdigest_lower: "list_all is_lower_hex (hexdigest bs)"
  by (induction bs) (simp_all add: hexdigest_def hex_byte_lower)

lemma hexdigest_Nil [simp]: "hexdigest [] = []"
  by (simp add: hexdigest_def)


lemma byte_of_unat [simp]: "byte_of (unat b) = b"
  by (simp add: byte_of_def)



section \<open>The hash id\<close>

lemma get_hash_id_eq:
  "get_hash_id s k = bind_res (str_encode (s @ k)) (\<lambda>bs. Inr (hexdigest (sha256 bs)))"
  by (simp add: get_hash_id_def)


lemma get_hash_id_Inl: "get_hash_id s k = Inl e \<Longrightarrow> \<exists>i < length (s @ k). e = UnicodeEncodeError i"
  by (auto simp: get_hash_id_eq bind_res_eq_Inl_iff dest: str_encode_Inl)

lemma get_hash_id_call_bound [simp]:
  "get_hash_id_call [s] [(''extra_key'', k)] = get_hash_id s k"
  by simp

lemma get_hash_id_call_TypeError_iff:
  "get_hash_id_call args kwargs = Inl TypeError \<longleftrightarrow>
     \<not> (\<exists>s k. args = [s] \<and> kwargs = [(''extra_key'', k)])"
  by (cases "(args, kwargs)" rule: get_hash_id_call.cases) (auto dest: get_hash_id_Inl)

section \<open>Properties\<close>

text \<open>
  C7 (functional).  For text without surrogate code points \<open>get_hash_id\<close>
  returns, and what it returns is 64 lowercase hexadecimal digits.
\<close>

theorem get_hash_id_hex64:
  assumes "valid_str (s @ k)" and "list_all (\<lambda>c. \<not> is_surrogate c) (s @ k)"
  shows "\<exists>h. get_hash_id s k = Inr h \<and> length h = 64 \<and> list_all is_lower_hex h"
proof -
  from assms obtain bs where "str_encode (s @ k) = Inr bs"
    using str_encode_total by blast
  then show ?thesis
    by (simp add: get_hash_id_eq length_hexdigest length_sha256 hexdigest_lower)
qed

theorem get_hash_id_hex64_witness:
  "valid_str (lit ''Q1_R1_5_obj1'' @ lit ''release-42'') \<and>
   list_all (\<lambda>c. \<not> is_surrogate c) (lit ''Q1_R1_5_obj1'' @ lit ''release-42'') \<and>
   (\<exists>h. get_hash_id (lit ''Q1_R1_5_obj1'') (lit ''release-42'') = Inr h \<and> length h = 64 \<and>
      list_all is_lower_hex h)"
  using get_hash_id_hex64 [of "lit ''Q1_R1_5_obj1''" "lit ''release-42''"]
  by (simp add: is_surrogate_def valid_cp_def)

text \<open>
  C8 (error).  \<open>get_hash_id\<close> raises exactly when the concatenation of subject
  id and extra key holds a surrogate code point, and the exception is
  \<open>UnicodeEncodeError\<close> at the position of the first one; the specification
  lists no error condition.
\<close>

theorem get_hash_id_error:
  assumes "valid_str (s @ k)"
  shows "get_hash_id s k = Inl e \<longleftrightarrow>
    (\<exists>i < length (s @ k). is_surrogate ((s @ k) ! i) \<and>
       (\<forall>j < i. \<not> is_surrogate ((s @ k) ! j)) \<and> e = UnicodeEncodeError i)"
  using str_encode_error_iff [OF assms, of e]
  by (simp add: get_hash_id_eq bind_res_eq_Inl_iff)

theorem get_hash_id_error_witness:
  "valid_str (lit ''ab'' @ [0xD800, 0x63]) \<and>
   get_hash_id (lit ''ab'') [0xD800, 0x63] = Inl (UnicodeEncodeError 2)"
proof -
  have v: "valid_str (lit ''ab'' @ [0xD800, 0x63])"
    by (simp add: valid_cp_def)
  have "\<exists>i<4. is_surrogate ([97, 98, 0xD800, 0x63] ! i) \<and>
      (\<forall>j<i. \<not> is_surrogate ([97, 98, 0xD800, 0x63] ! j)) \<and> (2::nat) = i"
    by (rule exI [of _ 2]) (simp add: is_surrogate_def nth_Cons' less_Suc_eq numeral_2_eq_2)
  with get_hash_id_error [OF v, of "UnicodeEncodeError 2"] v show ?thesis by simp
qed



text \<open>
  C3 (functional).  The hash id of subject id \<open>a\<close> and extra key \<open>bc\<close> is the
  SHA-256 digest of \<open>abc\<close> of the standard, in lowercase hexadecimal.
\<close>

theorem get_hash_id_abc:
  "get_hash_id (lit ''a'') (lit ''bc'') =
     Inr (lit ''ba7816bf8f01cfea414140de5dae2223b00361a396177a9cb410ff61f20015ad'')"
proof -
  have "str_encode (lit ''a'' @ lit ''bc'') = Inr [0x61, 0x62, 0x63]"
    by (simp add: zt_eval)
  then show ?thesis
    by (simp add: get_hash_id_eq sha256_abc hexdigest_def hex_byte_def hex_digit_def)
qed

text \<open>
  C13 (functional).  The call of the specification,
  \<open>get_hash_id("Q1_R1_5_obj1", extra_key="release-42")\<close>, returns the digest
  that \<open>hashlib\<close> computes for the 22 bytes of \<open>Q1_R1_5_obj1release-42\<close>.
\<close>

theorem get_hash_id_subject:
  "get_hash_id (lit ''Q1_R1_5_obj1'') (lit ''release-42'') =
     Inr (lit ''b032a3d8342836bf84a36bdfa0ed3990c1256ad780d99978f929d6445be3af8f'')"
proof -
  have "str_encode (lit ''Q1_R1_5_obj1'' @ lit ''release-42'') =
      Inr [0x51, 0x31, 0x5f, 0x52, 0x31, 0x5f, 0x35, 0x5f, 0x6f, 0x62, 0x6a, 0x31,
           0x72, 0x65, 0x6c, 0x65, 0x61, 0x73, 0x65, 0x2d, 0x34, 0x32]"
    by (simp add: zt_eval)
  then show ?thesis
    by (simp add: get_hash_id_eq sha256_subject hexdigest_def hex_byte_def hex_digit_def)
qed

text \<open>
  C37 (error).  A call of \<open>get_hash_id\<close> raises \<open>TypeError\<close> exactly when it does
  not consist of one positional argument and the one keyword \<open>extra_key\<close>:
  the extra key cannot be passed by position, nor the subject id by keyword.
  A call of that form is the function applied to the two texts, whose only
  exception is \<open>UnicodeEncodeError\<close>.
\<close>

theorem get_hash_id_call_errors:
  "(get_hash_id_call args kwargs = Inl TypeError \<longleftrightarrow>
      \<not> (\<exists>s k. args = [s] \<and> kwargs = [(''extra_key'', k)])) \<and>
   get_hash_id_call [s] [(''extra_key'', k)] = get_hash_id s k \<and>
   get_hash_id s k \<noteq> Inl TypeError"
  by (auto simp: get_hash_id_call_TypeError_iff dest: get_hash_id_Inl)

theorem get_hash_id_call_errors_witness:
  "get_hash_id_call [lit ''id'', lit ''key''] [] = Inl TypeError \<and>
   get_hash_id_call [] [(''subject_id'', lit ''id''), (''extra_key'', lit ''key'')] = Inl TypeError \<and>
   get_hash_id_call [lit ''id''] [] = Inl TypeError \<and>
   get_hash_id_call [lit ''id''] [(''extra_key'', lit ''key'')] = get_hash_id (lit ''id'') (lit ''key'')"
  using get_hash_id_call_errors [of "[lit ''id'', lit ''key'']" "[]"]
    get_hash_id_call_errors [of "[]" "[(''subject_id'', lit ''id''), (''extra_key'', lit ''key'')]"]
    get_hash_id_call_errors [of "[lit ''id'']" "[]"]
  by simp

text \<open>
  On text of 56 characters, whose padded encoding takes two blocks,
  \<open>get_hash_id\<close> returns the digest of the standard's second example.
\<close>

theorem get_hash_id_two_blocks:
  "get_hash_id (lit ''abcdbcdecdefdefgefghfghighijhijk'') (lit ''ijkljklmklmnlmnomnopnopq'') =
     Inr (lit ''248d6a61d20638b8e5c026930c3e6039a33ce45964ff2167f6ecedd419db06c1'')"
proof -
  have "str_encode (lit ''abcdbcdecdefdefgefghfghighijhijk'' @ lit ''ijkljklmklmnlmnomnopnopq'') =
      Inr [0x61, 0x62, 0x63, 0x64, 0x62, 0x63, 0x64, 0x65, 0x63, 0x64, 0x65, 0x66,
           0x64, 0x65, 0x66, 0x67, 0x65, 0x66, 0x67, 0x68, 0x66, 0x67, 0x68, 0x69,
           0x67, 0x68, 0x69, 0x6a, 0x68, 0x69, 0x6a, 0x6b, 0x69, 0x6a, 0x6b, 0x6c,
           0x6a, 0x6b, 0x6c, 0x6d, 0x6b, 0x6c, 0x6d, 0x6e, 0x6c, 0x6d, 0x6e, 0x6f,
           0x6d, 0x6e, 0x6f, 0x70, 0x6e, 0x6f, 0x70, 0x71]"
    by (simp add: zt_eval)
  then show ?thesis
    by (simp add: get_hash_id_eq sha256_two_blocks hexdigest_def hex_byte_def hex_digit_def)
qed

text \<open>
  C14 (functional).  At the boundaries of its input \<open>get_hash_id\<close> returns what
  \<open>hashlib\<close> returns.  On two empty texts it is the digest of the empty
  message, whose block is padding alone.  On 55 characters of ASCII, the
  longest text whose padded encoding is one block, it is the digest of these
  55 bytes.  On text outside ASCII, here \<open>U+00E9\<close> and \<open>U+20AC\<close> with the extra key
  \<open>U+1F600\<close>, it is the digest of the nine bytes of the encoding, which takes
  two, three and four bytes for the three characters.
\<close>

theorem get_hash_id_boundary:
  "get_hash_id [] [] =
     Inr (lit ''e3b0c44298fc1c149afbf4c8996fb92427ae41e4649b934ca495991b7852b855'') \<and>
   get_hash_id (replicate 50 97) (replicate 5 97) =
     Inr (lit ''9f4390f8d30c2dd92ec9f095b65e2b9ae9b0a925a5258e241c9f1e910f734318'') \<and>
   get_hash_id [0xE9, 0x20AC] [0x1F600] =
     Inr (lit ''df9226927fd572c1ee66eec85de1bb139497614899f36e4e90474cb71f6ef9d0'')"
proof -
  have "replicate 50 97 @ replicate 5 97 = replicate 55 (97::nat)"
    by (simp add: replicate_add [symmetric])
  then have one: "str_encode (replicate 50 97 @ replicate 5 97) = Inr (replicate 55 0x61)"
    by (simp add: str_encode_def str_encode_ascii list_all_iff byte_of_def)
  have "str_encode ([] @ []) = Inr []"
    and "str_encode ([0xE9, 0x20AC] @ [0x1F600]) =
      Inr [0xc3, 0xa9, 0xe2, 0x82, 0xac, 0xf0, 0x9f, 0x98, 0x80]"
    by (simp_all add: zt_eval)
  with one show ?thesis
    by (simp add: get_hash_id_eq sha256_empty sha256_one_block_full sha256_non_ascii
        hexdigest_def hex_byte_def hex_digit_def)
qed

end
