(* ===== verification/Polars.thy ===== *)
theory Polars
  imports Py_Text
begin

text \<open>
  The part of polars that the batch method of \<open>make_id_str\<close> calls, modelled
  from the library's documented behaviour: columns of 64-bit integers or of
  text with nulls, data frames as named columns of one height, and the
  expressions the method builds (\<open>pl.col\<close>, \<open>pl.lit\<close>, \<open>cast\<close>, \<open>+\<close> on text,
  \<open>str.replace\<close>, \<open>alias\<close>) with \<open>select\<close> and \<open>get_column\<close>.

  \<open>select\<close> first resolves the expression against the schema (\<open>infer\<close>: a
  missing column or an operand of the wrong type is reported before any value
  is computed) and then evaluates it (\<open>eval\<close>).  A null propagates through
  every operation.  A strict cast of text to \<open>Int64\<close> fails with
  \<open>InvalidOperationError\<close> on a value that is not an optional sign followed by
  decimal digits, or that is out of the range of 64 bits.  A literal is a
  scalar and is broadcast against a column.  \<open>str.replace\<close> replaces the first
  match only; the pattern is taken literally, which is what the regular
  expression \<open>-\<close> means.  \<open>+\<close> is modelled on text operands, which is all the
  package builds.

  The typing judgement \<open>typed\<close> states which expressions have which type
  over a frame, one rule for each constructor, and \<open>infer\<close> is shown to decide
  it.  By induction on the judgement a typed expression evaluates to a
  column of its type and of the frame's height (\<open>eval_ok\<close>) unless a cast
  fails.  Casting integers to text and back is the identity.
\<close>

section \<open>Columns and frames\<close>

datatype dtype = Int64 | Utf8

datatype series = IntS "64 word option list" | StrS "pystr option list"

type_synonym dataframe = "(string \<times> series) list"

fun dtype_of :: "series \<Rightarrow> dtype" where
  "dtype_of (IntS xs) = Int64"
| "dtype_of (StrS xs) = Utf8"

fun series_len :: "series \<Rightarrow> nat" where
  "series_len (IntS xs) = length xs"
| "series_len (StrS xs) = length xs"

definition df_height :: "dataframe \<Rightarrow> nat" where
  "df_height df = (case df of [] \<Rightarrow> 0 | (n, s) # r \<Rightarrow> series_len s)"

definition df_wf :: "dataframe \<Rightarrow> bool" where
  "df_wf df \<longleftrightarrow> distinct (map fst df) \<and> list_all (\<lambda>(n, s). series_len s = df_height df) df"

definition get_column :: "dataframe \<Rightarrow> string \<Rightarrow> series result" where
  "get_column df name =
     (case map_of df name of None \<Rightarrow> Inl (ColumnNotFoundError name) | Some s \<Rightarrow> Inr s)"

section \<open>Casts\<close>

definition in_int64 :: "int \<Rightarrow> bool" where
  "in_int64 i \<longleftrightarrow> - (2 ^ 63) \<le> i \<and> i < 2 ^ 63"

definition parse_int64 :: "pystr \<Rightarrow> 64 word result" where
  "parse_int64 s =
     (case parse_int s of
        None \<Rightarrow> Inl InvalidOperationError
      | Some i \<Rightarrow> if in_int64 i then Inr (word_of_int i) else Inl InvalidOperationError)"

definition parse_cell :: "pystr option \<Rightarrow> 64 word option result" where
  "parse_cell c = (case c of None \<Rightarrow> Inr None | Some s \<Rightarrow> bind_res (parse_int64 s) (\<lambda>w. Inr (Some w)))"

definition int64_text :: "64 word \<Rightarrow> pystr" where
  "int64_text w = str_of_int (sint w)"

fun cast_series :: "dtype \<Rightarrow> series \<Rightarrow> series result" where
  "cast_series Utf8 (StrS xs) = Inr (StrS xs)"
| "cast_series Utf8 (IntS xs) = Inr (StrS (map (map_option int64_text) xs))"
| "cast_series Int64 (IntS xs) = Inr (IntS xs)"
| "cast_series Int64 (StrS xs) = bind_res (traverse parse_cell xs) (\<lambda>ws. Inr (IntS ws))"

section \<open>Expressions\<close>

datatype expr =
    Col string
  | Lit pystr
  | Cast expr dtype
  | Add expr expr
  | StrReplace expr pystr pystr
  | Alias expr string

type_synonym evalue = "bool \<times> series"

fun out_name :: "expr \<Rightarrow> string" where
  "out_name (Col n) = n"
| "out_name (Lit s) = ''literal''"
| "out_name (Cast e t) = out_name e"
| "out_name (Add a b) = out_name a"
| "out_name (StrReplace e p v) = out_name e"
| "out_name (Alias e n) = n"

fun infer :: "dataframe \<Rightarrow> expr \<Rightarrow> dtype result" where
  "infer df (Col n) = bind_res (get_column df n) (\<lambda>s. Inr (dtype_of s))"
| "infer df (Lit s) = Inr Utf8"
| "infer df (Cast e t) = bind_res (infer df e) (\<lambda>u. Inr t)"
| "infer df (Add a b) =
     bind_res (infer df a) (\<lambda>ta. bind_res (infer df b) (\<lambda>tb.
       if ta = Utf8 \<and> tb = Utf8 then Inr Utf8 else Inl SchemaError))"
| "infer df (StrReplace e p v) =
     bind_res (infer df e) (\<lambda>t. if t = Utf8 then Inr Utf8 else Inl SchemaError)"
| "infer df (Alias e n) = infer df e"

text \<open>The typing judgement that \<open>infer\<close> decides: one rule for each constructor.\<close>

inductive typed :: "dataframe \<Rightarrow> expr \<Rightarrow> dtype \<Rightarrow> bool" for df where
  typed_Col: "map_of df n = Some s \<Longrightarrow> typed df (Col n) (dtype_of s)"
| typed_Lit: "typed df (Lit s) Utf8"
| typed_Cast: "typed df e u \<Longrightarrow> typed df (Cast e t) t"
| typed_Add: "typed df a Utf8 \<Longrightarrow> typed df b Utf8 \<Longrightarrow> typed df (Add a b) Utf8"
| typed_StrReplace: "typed df e Utf8 \<Longrightarrow> typed df (StrReplace e p v) Utf8"
| typed_Alias: "typed df e t \<Longrightarrow> typed df (Alias e n) t"

code_pred typed .

definition add_cell :: "pystr option \<Rightarrow> pystr option \<Rightarrow> pystr option" where
  "add_cell x y = (case (x, y) of (Some a, Some b) \<Rightarrow> Some (a @ b) | _ \<Rightarrow> None)"

fun broadcast :: "nat \<Rightarrow> evalue \<Rightarrow> series" where
  "broadcast n (False, s) = s"
| "broadcast n (True, StrS xs) = StrS (case xs of [] \<Rightarrow> [] | x # r \<Rightarrow> replicate n x)"
| "broadcast n (True, IntS xs) = IntS (case xs of [] \<Rightarrow> [] | x # r \<Rightarrow> replicate n x)"

definition out_len :: "evalue \<Rightarrow> evalue \<Rightarrow> nat result" where
  "out_len a b =
     (if fst a then Inr (if fst b then 1 else series_len (snd b))
      else if fst b then Inr (series_len (snd a))
      else if series_len (snd a) = series_len (snd b) then Inr (series_len (snd a))
      else Inl ShapeError)"

fun add_series :: "series \<Rightarrow> series \<Rightarrow> series result" where
  "add_series (StrS xs) (StrS ys) = Inr (StrS (map2 add_cell xs ys))"
| "add_series a b = Inl SchemaError"

definition add_values :: "evalue \<Rightarrow> evalue \<Rightarrow> evalue result" where
  "add_values a b =
     bind_res (out_len a b) (\<lambda>n.
       bind_res (add_series (broadcast n a) (broadcast n b)) (\<lambda>s. Inr (fst a \<and> fst b, s)))"

fun str_replace :: "pystr \<Rightarrow> pystr \<Rightarrow> series \<Rightarrow> series result" where
  "str_replace p v (StrS xs) = Inr (StrS (map (map_option (replace_first p v)) xs))"
| "str_replace p v (IntS xs) = Inl SchemaError"

fun eval :: "dataframe \<Rightarrow> expr \<Rightarrow> evalue result" where
  "eval df (Col n) = bind_res (get_column df n) (\<lambda>s. Inr (False, s))"
| "eval df (Lit s) = Inr (True, StrS [Some s])"
| "eval df (Cast e t) =
     bind_res (eval df e) (\<lambda>(sc, s). bind_res (cast_series t s) (\<lambda>r. Inr (sc, r)))"
| "eval df (Add a b) =
     bind_res (eval df a) (\<lambda>x. bind_res (eval df b) (\<lambda>y. add_values x y))"
| "eval df (StrReplace e p v) =
     bind_res (eval df e) (\<lambda>(sc, s). bind_res (str_replace p v s) (\<lambda>r. Inr (sc, r)))"
| "eval df (Alias e n) = eval df e"

fun as_text :: "series \<Rightarrow> pystr option list" where
  "as_text (StrS xs) = xs"
| "as_text (IntS xs) = map (map_option int64_text) xs"

fun as_int64 :: "series \<Rightarrow> 64 word option list result" where
  "as_int64 (IntS xs) = Inr xs"
| "as_int64 (StrS xs) = traverse parse_cell xs"

fun polars_error :: "py_error \<Rightarrow> bool" where
  "polars_error InvalidOperationError = True"
| "polars_error (ColumnNotFoundError n) = True"
| "polars_error SchemaError = True"
| "polars_error ShapeError = True"
| "polars_error e = False"

text \<open>
  What evaluation promises of an expression of type \<open>t\<close>: a column of type \<open>t\<close>,
  of height one for a scalar and of the height of the frame otherwise, or the
  failure of a strict cast.
\<close>

definition shaped :: "dataframe \<Rightarrow> dtype \<Rightarrow> evalue \<Rightarrow> bool" where
  "shaped df t v \<longleftrightarrow>
     dtype_of (snd v) = t \<and> series_len (snd v) = (if fst v then 1 else df_height df)"

definition eval_ok :: "dataframe \<Rightarrow> dtype \<Rightarrow> evalue result \<Rightarrow> bool" where
  "eval_ok df t r \<longleftrightarrow>
     (case r of Inl err \<Rightarrow> err = InvalidOperationError | Inr v \<Rightarrow> shaped df t v)"

definition select :: "dataframe \<Rightarrow> expr \<Rightarrow> dataframe result" where
  "select df e =
     bind_res (infer df e) (\<lambda>t. bind_res (eval df e) (\<lambda>(sc, s). Inr [(out_name e, s)]))"

declare df_height_def [zt_eval] df_wf_def [zt_eval] get_column_def [zt_eval]
  in_int64_def [zt_eval] parse_int64_def [zt_eval] parse_cell_def [zt_eval]
  int64_text_def [zt_eval] add_cell_def [zt_eval] out_len_def [zt_eval]
  add_values_def [zt_eval] select_def [zt_eval]

section \<open>Cells\<close>

lemma add_cell_simps [simp]:
  "add_cell (Some a) (Some b) = Some (a @ b)"
  "add_cell None y = None"
  "add_cell x None = None"
  by (simp_all add: add_cell_def split: option.splits)

lemma add_cell_eq_Some_iff:
  "add_cell x y = Some c \<longleftrightarrow> (\<exists>a b. x = Some a \<and> y = Some b \<and> c = a @ b)"
  by (cases x; cases y) auto

lemma parse_cell_simps [simp]:
  "parse_cell None = Inr None"
  "parse_cell (Some s) = bind_res (parse_int64 s) (\<lambda>w. Inr (Some w))"
  by (simp_all add: parse_cell_def)

lemma sint_in_int64: "in_int64 (sint (w :: 64 word))"
  using sint_ge [of w] sint_lt [of w] by (simp add: in_int64_def)

lemma parse_int64_text [simp]: "parse_int64 (int64_text w) = Inr w"
  by (simp add: parse_int64_def int64_text_def parse_int_str_of_int sint_in_int64)

lemma int64_text_inj [simp]: "int64_text x = int64_text y \<longleftrightarrow> x = y"
  by (auto simp: int64_text_def dest: str_of_int_inj signed_word_eqI)

lemma parse_cell_text [simp]: "parse_cell (map_option int64_text c) = Inr c"
  by (cases c) simp_all

lemma parse_int64_Inl: "parse_int64 s = Inl e \<Longrightarrow> e = InvalidOperationError"
  by (auto simp: parse_int64_def split: option.splits if_splits)

lemma parse_cell_Inl: "parse_cell c = Inl e \<Longrightarrow> e = InvalidOperationError"
  by (cases c) (auto simp: bind_res_eq_Inl_iff dest: parse_int64_Inl)

lemma traverse_parse_cell_Inl:
  "traverse parse_cell xs = Inl e \<Longrightarrow> e = InvalidOperationError"
  by (induction xs) (auto simp: bind_res_eq_Inl_iff dest: parse_cell_Inl)

lemma parse_int64_of_int:
  "in_int64 i \<Longrightarrow> parse_int64 (str_of_int i) = Inr (word_of_int i)"
  by (simp add: parse_int64_def parse_int_str_of_int)

lemma sint_word_of_int64: "in_int64 i \<Longrightarrow> sint (word_of_int i :: 64 word) = i"
  by (simp add: in_int64_def sint_sbintrunc' signed_take_bit_int_eq_self)

section \<open>Columns\<close>

lemma series_len_cast:
  "cast_series t s = Inr r \<Longrightarrow> series_len r = series_len s \<and> dtype_of r = t"
  by (cases "(t, s)" rule: cast_series.cases)
    (auto simp: bind_res_eq_Inr_iff dest: traverse_length)

lemma cast_series_Inl: "cast_series t s = Inl e \<Longrightarrow> e = InvalidOperationError"
  by (cases "(t, s)" rule: cast_series.cases)
    (auto simp: bind_res_eq_Inl_iff dest: traverse_parse_cell_Inl)

lemma cast_same [simp]: "cast_series (dtype_of s) s = Inr s"
  by (cases s) simp_all

lemma cast_Utf8: "cast_series Utf8 s = Inr (StrS (as_text s))"
  by (cases s) simp_all

lemma cast_Int64: "cast_series Int64 s = bind_res (as_int64 s) (\<lambda>ws. Inr (IntS ws))"
  by (cases s) simp_all

lemma length_as_text [simp]: "length (as_text s) = series_len s"
  by (cases s) simp_all

lemma length_as_int64: "as_int64 s = Inr ws \<Longrightarrow> length ws = series_len s"
  by (cases s) (auto dest: traverse_length)

lemma as_int64_Inl: "as_int64 s = Inl e \<Longrightarrow> e = InvalidOperationError"
  by (cases s) (auto dest: traverse_parse_cell_Inl)

lemma isl_parse_cell:
  "isl (parse_cell c) \<longleftrightarrow>
     (\<exists>t. c = Some t \<and> (case parse_int t of None \<Rightarrow> True | Some i \<Rightarrow> \<not> in_int64 i))"
  by (cases c) (auto simp: parse_int64_def split: option.splits)

lemma as_int64_fails_iff:
  "isl (as_int64 s) \<longleftrightarrow> (\<exists>xs. s = StrS xs \<and> (\<exists>c \<in> set xs. isl (parse_cell c)))"
  by (cases s) (simp_all add: traverse_fails_iff)

lemma broadcast_len:
  "(if fst a then series_len (snd a) = 1 else series_len (snd a) = n) \<Longrightarrow>
     series_len (broadcast n a) = n \<and> dtype_of (broadcast n a) = dtype_of (snd a)"
  by (cases "(n, a)" rule: broadcast.cases) (auto split: list.splits)

lemma add_series_Utf8:
  "dtype_of a = Utf8 \<Longrightarrow> dtype_of b = Utf8 \<Longrightarrow>
     \<exists>xs ys. a = StrS xs \<and> b = StrS ys \<and> add_series a b = Inr (StrS (map2 add_cell xs ys))"
  by (cases a; cases b) simp_all

section \<open>Frames\<close>

lemma get_column_Inr_iff: "get_column df n = Inr s \<longleftrightarrow> map_of df n = Some s"
  by (simp add: get_column_def split: option.splits)

lemma get_column_Inl_iff:
  "get_column df n = Inl e \<longleftrightarrow> n \<notin> fst ` set df \<and> e = ColumnNotFoundError n"
  unfolding map_of_eq_None_iff [symmetric]
  by (auto simp: get_column_def split: option.splits)

lemma df_wf_column_len:
  "df_wf df \<Longrightarrow> get_column df n = Inr s \<Longrightarrow> series_len s = df_height df"
  by (auto simp: df_wf_def get_column_Inr_iff list_all_iff dest!: map_of_SomeD)

lemma df_wf_single [simp]: "df_wf [(n, s)]"
  by (simp add: df_wf_def df_height_def)

section \<open>Addition with broadcasting\<close>

lemma add_col_col:
  "add_values (False, StrS xs) (False, StrS ys) =
     (if length xs = length ys then Inr (False, StrS (map2 add_cell xs ys)) else Inl ShapeError)"
  by (simp add: add_values_def out_len_def)

lemma map2_replicate_right: "map2 f xs (replicate (length xs) c) = map (\<lambda>x. f x c) xs"
  by (induction xs) simp_all

lemma map2_replicate_left: "map2 f (replicate (length ys) c) ys = map (f c) ys"
  by (induction ys) simp_all

lemma add_col_lit:
  "add_values (False, StrS xs) (True, StrS [c]) = Inr (False, StrS (map (\<lambda>x. add_cell x c) xs))"
  by (simp add: add_values_def out_len_def map2_replicate_right)

lemma add_lit_col:
  "add_values (True, StrS [c]) (False, StrS ys) = Inr (False, StrS (map (add_cell c) ys))"
  by (simp add: add_values_def out_len_def map2_replicate_left)

lemma add_lit_lit:
  "add_values (True, StrS [c]) (True, StrS [d]) = Inr (True, StrS [add_cell c d])"
  by (simp add: add_values_def out_len_def)

lemma single_len: "length xs = Suc 0 \<longleftrightarrow> (\<exists>x. xs = [x])"
  by (cases xs) auto

lemma add_values_sound:
  assumes "dtype_of a = Utf8" and "dtype_of b = Utf8"
    and "series_len a = (if sa then 1 else h)" and "series_len b = (if sb then 1 else h)"
  shows "\<exists>s. add_values (sa, a) (sb, b) = Inr (sa \<and> sb, s) \<and> dtype_of s = Utf8 \<and>
    series_len s = (if sa \<and> sb then 1 else h)"
proof -
  from assms(1,2) obtain xs ys where ab: "a = StrS xs" "b = StrS ys"
    by (cases a; cases b) auto
  show ?thesis
  proof (cases sa; cases sb)
    assume "sa" "sb"
    with assms(3,4) ab show ?thesis
      by (auto simp: single_len add_lit_lit)
  next
    assume "sa" "\<not> sb"
    with assms(3,4) ab show ?thesis
      by (auto simp: single_len add_lit_col)
  next
    assume "\<not> sa" "sb"
    with assms(3,4) ab show ?thesis
      by (auto simp: single_len add_col_lit)
  next
    assume "\<not> sa" "\<not> sb"
    with assms(3,4) ab show ?thesis
      by (auto simp: add_col_col)
  qed
qed

section \<open>Typing\<close>

inductive_cases typed_ColE [elim!]: "typed df (Col n) t"
  and typed_LitE [elim!]: "typed df (Lit s) t"
  and typed_CastE [elim!]: "typed df (Cast e u) t"
  and typed_AddE [elim!]: "typed df (Add a b) t"
  and typed_StrReplaceE [elim!]: "typed df (StrReplace e p v) t"
  and typed_AliasE [elim!]: "typed df (Alias e n) t"

lemma infer_sound: "infer df e = Inr t \<Longrightarrow> typed df e t"
  by (induction e arbitrary: t)
    (auto simp: bind_res_eq_Inr_iff get_column_Inr_iff intro: typed.intros split: if_splits)

lemma infer_complete: "typed df e t \<Longrightarrow> infer df e = Inr t"
  by (induction rule: typed.induct) (simp_all add: get_column_def)

lemma infer_iff_typed: "infer df e = Inr t \<longleftrightarrow> typed df e t"
  by (blast intro: infer_sound infer_complete)

lemma typed_functional: "typed df e t \<Longrightarrow> typed df e u \<Longrightarrow> t = u"
  by (simp add: infer_iff_typed [symmetric])


section \<open>Typed expressions evaluate\<close>

lemma eval_ok_simps [simp]:
  "eval_ok df t (Inl err) \<longleftrightarrow> err = InvalidOperationError"
  "eval_ok df t (Inr (sc, s)) \<longleftrightarrow>
     dtype_of s = t \<and> series_len s = (if sc then 1 else df_height df)"
  by (simp_all add: eval_ok_def shaped_def)

text \<open>An operation on the column of a value keeps the value in shape.\<close>

lemma eval_ok_lift:
  assumes "eval_ok df u r"
    and "\<And>s. dtype_of s = u \<Longrightarrow>
      (case f s of Inl err \<Rightarrow> err = InvalidOperationError
       | Inr s' \<Rightarrow> dtype_of s' = t \<and> series_len s' = series_len s)"
  shows "eval_ok df t (bind_res r (\<lambda>(sc, s). bind_res (f s) (\<lambda>s'. Inr (sc, s'))))"
proof (cases r)
  case (Inl err)
  with assms(1) show ?thesis by simp
next
  case (Inr v)
  obtain sc s where v: "v = (sc, s)" by (cases v)
  with Inr assms(1) have "dtype_of s = u" and len: "series_len s = (if sc then 1 else df_height df)"
    by simp_all
  from assms(2) [OF this(1)] Inr v len show ?thesis
    by (cases "f s") simp_all
qed

lemma cast_series_shape:
  "case cast_series t s of Inl err \<Rightarrow> err = InvalidOperationError
   | Inr s' \<Rightarrow> dtype_of s' = t \<and> series_len s' = series_len s"
  by (cases "cast_series t s") (auto dest: cast_series_Inl series_len_cast)

lemma str_replace_shape:
  "dtype_of s = Utf8 \<Longrightarrow>
     (case str_replace p v s of Inl err \<Rightarrow> err = InvalidOperationError
      | Inr s' \<Rightarrow> dtype_of s' = Utf8 \<and> series_len s' = series_len s)"
  by (cases s) simp_all

lemma eval_ok_add:
  assumes "eval_ok df Utf8 ra" and "eval_ok df Utf8 rb"
  shows "eval_ok df Utf8 (bind_res ra (\<lambda>x. bind_res rb (\<lambda>y. add_values x y)))"
proof (cases ra; cases rb)
  fix x y assume r: "ra = Inr x" "rb = Inr y"
  obtain sa a sb b where xy: "x = (sa, a)" "y = (sb, b)" by (cases x; cases y)
  with r assms have "dtype_of a = Utf8" "dtype_of b = Utf8"
    "series_len a = (if sa then 1 else df_height df)"
    "series_len b = (if sb then 1 else df_height df)" by simp_all
  from add_values_sound [OF this] r xy show ?thesis by auto
qed (use assms in simp_all)

lemma eval_typed:
  assumes "df_wf df" and "typed df e t"
  shows "eval_ok df t (eval df e)"
  using assms(2)
proof (induction rule: typed.induct)
  case (typed_Col n s)
  then have "get_column df n = Inr s" by (simp add: get_column_Inr_iff)
  with df_wf_column_len [OF assms(1) this] show ?case by simp
next
  case (typed_Cast e u t)
  from eval_ok_lift [OF typed_Cast.IH cast_series_shape] show ?case by simp
next
  case (typed_Add a b)
  then show ?case by (simp add: eval_ok_add)
next
  case (typed_StrReplace e p v)
  from eval_ok_lift [OF typed_StrReplace.IH str_replace_shape] show ?case by simp
qed simp_all

lemma eval_infer:
  assumes "df_wf df" and "infer df e = Inr t"
  shows "eval_ok df t (eval df e)"
  using assms by (simp add: infer_iff_typed eval_typed)

section \<open>Errors\<close>

lemma add_values_Inl: "add_values a b = Inl err \<Longrightarrow> polars_error err"
  by (cases "broadcast (case out_len a b of Inr n \<Rightarrow> n | Inl e \<Rightarrow> 0) a";
      cases "broadcast (case out_len a b of Inr n \<Rightarrow> n | Inl e \<Rightarrow> 0) b")
    (auto simp: add_values_def out_len_def bind_res_eq_Inl_iff split: if_splits)

lemma str_replace_Inl: "str_replace p v s = Inl err \<Longrightarrow> polars_error err"
  by (cases s) auto

lemma infer_Inl: "infer df e = Inl err \<Longrightarrow> polars_error err"
  by (induction e arbitrary: err)
    (auto simp: bind_res_eq_Inl_iff get_column_Inl_iff split: if_splits)


lemma eval_Inl: "eval df e = Inl err \<Longrightarrow> polars_error err"
  by (induction e arbitrary: err)
    (auto simp: bind_res_eq_Inl_iff get_column_Inl_iff
      dest: cast_series_Inl add_values_Inl str_replace_Inl)

lemma select_Inl: "select df e = Inl err \<Longrightarrow> polars_error err"
  by (auto simp: select_def bind_res_eq_Inl_iff dest: infer_Inl eval_Inl)

lemma cast_text_int64: "cast_series Int64 (StrS (map (map_option int64_text) xs)) = Inr (IntS xs)"
  by (simp add: traverse_map_inverse)

section \<open>Properties\<close>



text \<open>
  C33 (invariant).  On a well-formed frame \<open>select\<close> of an expression that
  resolves against the schema either fails in a strict cast, with
  \<open>InvalidOperationError\<close>, or returns a well-formed frame of one column, named
  as the expression, of the resolved type, and of the frame's height (of
  height one for an expression of literals only).
\<close>

theorem select_sound:
  assumes "df_wf df" and "infer df e = Inr t"
  shows "select df e = Inl InvalidOperationError \<or>
    (\<exists>s. select df e = Inr [(out_name e, s)] \<and> df_wf [(out_name e, s)] \<and> dtype_of s = t \<and>
       (series_len s = df_height df \<or> series_len s = 1))"
  using eval_infer [OF assms] assms(2)
  by (cases "eval df e") (auto simp: select_def split: if_splits)

theorem select_sound_witness:
  "df_wf [(''a'', IntS [Some 7, None])] \<and>
   infer [(''a'', IntS [Some 7, None])] (Add (Cast (Col ''a'') Utf8) (Lit (lit ''x''))) = Inr Utf8 \<and>
   select [(''a'', IntS [Some 7, None])] (Add (Cast (Col ''a'') Utf8) (Lit (lit ''x''))) =
     Inr [(''a'', StrS [Some (lit ''7x''), None])]"
proof -
  have wf: "df_wf [(''a'', IntS [Some 7, None])]" by simp
  have ty: "infer [(''a'', IntS [Some 7, None])] (Add (Cast (Col ''a'') Utf8) (Lit (lit ''x''))) = Inr Utf8"
    by (simp add: get_column_def)
  have "select [(''a'', IntS [Some 7, None])] (Add (Cast (Col ''a'') Utf8) (Lit (lit ''x''))) \<noteq>
      Inl InvalidOperationError"
    by (simp add: select_def get_column_def add_col_lit)
  with select_sound [OF wf ty] wf ty show ?thesis
    by (auto simp: select_def get_column_def add_col_lit zt_eval)
qed

text \<open>
  C19 (bounds).  The strict cast to \<open>Int64\<close> accepts the decimal text of an
  integer exactly when the integer fits 64 bits in two's complement, and then
  the word it stores reads back as that integer: nothing wraps around.  So
  casting a column of 64-bit integers to text and the text back to \<open>Int64\<close>
  succeeds and gives the column back, nulls included.
\<close>

theorem cast_int64_bounds:
  "parse_int64 (str_of_int i) =
     (if - (2 ^ 63) \<le> i \<and> i < 2 ^ 63 then Inr (word_of_int i) else Inl InvalidOperationError) \<and>
   (- (2 ^ 63) \<le> i \<and> i < 2 ^ 63 \<longrightarrow> sint (word_of_int i :: 64 word) = i) \<and>
   bind_res (cast_series Utf8 (IntS xs)) (cast_series Int64) = Inr (IntS xs)"
  using sint_word_of_int64 [of i]
  by (simp add: parse_int64_def parse_int_str_of_int in_int64_def traverse_map_inverse)

theorem cast_int64_bounds_witness:
  "parse_int64 (lit ''9223372036854775807'') = Inr 0x7FFFFFFFFFFFFFFF \<and>
   parse_int64 (lit ''9223372036854775808'') = Inl InvalidOperationError \<and>
   parse_int64 (lit ''-9223372036854775808'') = Inr 0x8000000000000000"
proof -
  have s: "str_of_int 9223372036854775807 = lit ''9223372036854775807''"
    "str_of_int 9223372036854775808 = lit ''9223372036854775808''"
    "str_of_int (- 9223372036854775808) = lit ''-9223372036854775808''"
    by (simp_all add: zt_eval)
  from cast_int64_bounds [of 9223372036854775807] cast_int64_bounds [of 9223372036854775808]
    cast_int64_bounds [of "- 9223372036854775808"]
  show ?thesis unfolding s by simp
qed

end
