(* ===== verification/Id_Str_Batch.thy ===== *)
theory Id_Str_Batch
  imports Polars
begin

text \<open>
  The batch method of \<open>make_id_str\<close> (\<open>_src/upload_utils.py\<close>, the method on a
  \<open>pl.DataFrame\<close>): the expression it builds (\<open>prefix_expr\<close>, \<open>id_expr\<close>) and
  its evaluation on the frame (\<open>make_id_str_df\<close>), over the model of polars of
  theory \<open>Polars\<close>.

  \<open>row_id\<close> is the specification of one row of the result: the text of the
  prefix, of the tile index as a 64-bit integer, an underscore, and the object
  identifier with its first hyphen replaced; null when one of them is null.
  \<open>required_columns\<close> are the columns the expression reads.  The lemmas show
  that the method computes \<open>row_id\<close> on every row, in the order of the rows,
  when the columns exist and the tile indices convert, and which error it
  returns otherwise.
\<close>

section \<open>Definitions\<close>

definition prefix_expr :: "bool \<Rightarrow> expr" where
  "prefix_expr include_release_name =
     (if include_release_name
      then Add (Cast (Col ''release_name'') Utf8) (Lit (lit ''_''))
      else Lit (lit ''''))"

definition id_expr :: "bool \<Rightarrow> expr" where
  "id_expr include_release_name =
     Add (Add (Add (prefix_expr include_release_name)
                   (Cast (Cast (Col ''tile_index'') Int64) Utf8))
              (Lit (lit ''_'')))
         (StrReplace (Cast (Col ''object_id'') Utf8) (lit ''-'') (lit ''NEG''))"

definition make_id_str_df :: "dataframe \<Rightarrow> bool \<Rightarrow> series result" where
  "make_id_str_df df include_release_name =
     bind_res (select df (Alias (id_expr include_release_name) ''unique_id''))
       (\<lambda>out. get_column out ''unique_id'')"

text \<open>The specification: a row of the result, and the columns read.\<close>

definition row_id :: "pystr option \<Rightarrow> 64 word option \<Rightarrow> pystr option \<Rightarrow> pystr option" where
  "row_id p t ob =
     (case (p, t, ob) of
        (Some a, Some w, Some s) \<Rightarrow>
          Some (a @ int64_text w @ lit ''_'' @ replace_first (lit ''-'') (lit ''NEG'') s)
      | _ \<Rightarrow> None)"

definition release_cell :: "pystr option \<Rightarrow> pystr option" where
  "release_cell r = map_option (\<lambda>a. a @ lit ''_'') r"

definition required_columns :: "bool \<Rightarrow> string list" where
  "required_columns include_release_name =
     (if include_release_name then [''release_name''] else []) @ [''tile_index'', ''object_id'']"

definition missing_column :: "dataframe \<Rightarrow> bool \<Rightarrow> string option" where
  "missing_column df include_release_name =
     find (\<lambda>n. n \<notin> fst ` set df) (required_columns include_release_name)"

declare row_id_def [zt_eval] release_cell_def [zt_eval] required_columns_def [zt_eval]
  missing_column_def [zt_eval]

section \<open>Rows\<close>

lemma row_id_add_cell:
  "add_cell (add_cell (add_cell p (map_option int64_text t)) (Some [95]))
     (map_option (replace_first [45] [78, 69, 71]) ob) = row_id p t ob"
  by (cases p; cases t; cases ob) (simp_all add: row_id_def)

lemma release_cell_add_cell: "add_cell r (Some [95]) = release_cell r"
  by (cases r) (simp_all add: release_cell_def)

lemma row_id_eq_Some_iff:
  "row_id p t ob = Some x \<longleftrightarrow>
     (\<exists>a w s. p = Some a \<and> t = Some w \<and> ob = Some s \<and>
        x = a @ int64_text w @ [95] @ replace_first [45] [78, 69, 71] s)"
  by (cases p; cases t; cases ob) (auto simp: row_id_def)

lemma row_id_eq_None_iff: "row_id p t ob = None \<longleftrightarrow> p = None \<or> t = None \<or> ob = None"
  by (cases p; cases t; cases ob) (simp_all add: row_id_def)

section \<open>Evaluation of the expression\<close>

lemma eval_text_col:
  "get_column df n = Inr s \<Longrightarrow> eval df (Cast (Col n) Utf8) = Inr (False, StrS (as_text s))"
  by (simp add: cast_Utf8)

lemma eval_prefix_True:
  "get_column df ''release_name'' = Inr r \<Longrightarrow>
     eval df (prefix_expr True) = Inr (False, StrS (map release_cell (as_text r)))"
  by (simp add: prefix_expr_def cast_Utf8 add_col_lit release_cell_add_cell)

lemma eval_prefix_False: "eval df (prefix_expr False) = Inr (True, StrS [Some []])"
  by (simp add: prefix_expr_def)

lemma eval_tile:
  "get_column df ''tile_index'' = Inr t \<Longrightarrow> as_int64 t = Inr ws \<Longrightarrow>
     eval df (Cast (Cast (Col ''tile_index'') Int64) Utf8) =
       Inr (False, StrS (map (map_option int64_text) ws))"
  by (simp add: cast_Int64)

lemma eval_tile_fail:
  "get_column df ''tile_index'' = Inr t \<Longrightarrow> as_int64 t = Inl e \<Longrightarrow>
     eval df (Cast (Cast (Col ''tile_index'') Int64) Utf8) = Inl InvalidOperationError"
  by (simp add: cast_Int64 as_int64_Inl)

lemma eval_object:
  "get_column df ''object_id'' = Inr ob \<Longrightarrow>
     eval df (StrReplace (Cast (Col ''object_id'') Utf8) p v) =
       Inr (False, StrS (map (map_option (replace_first p v)) (as_text ob)))"
  by (simp add: cast_Utf8)

lemma eval_id_expr_True:
  assumes "df_wf df" and r: "get_column df ''release_name'' = Inr r"
    and t: "get_column df ''tile_index'' = Inr t" and ob: "get_column df ''object_id'' = Inr ob"
    and ws: "as_int64 t = Inr ws"
  shows "eval df (id_expr True) =
    Inr (False, StrS (map (\<lambda>(a, w, s). row_id (release_cell a) w s)
      (zip (as_text r) (zip ws (as_text ob)))))"
proof -
  have len: "series_len r = df_height df" "length ws = df_height df"
    "series_len ob = df_height df"
    using assms by (simp_all add: df_wf_column_len length_as_int64)
  have "eval df (id_expr True) =
      Inr (False, StrS (map2 (\<lambda>x y. add_cell x y)
        (map (\<lambda>x. add_cell x (Some [95]))
          (map2 add_cell (map release_cell (as_text r)) (map (map_option int64_text) ws)))
        (map (map_option (replace_first [45] [78, 69, 71])) (as_text ob))))"
    unfolding id_expr_def eval.simps(4) eval_prefix_True [OF r] eval_tile [OF t ws]
      eval_object [OF ob]
    by (simp add: add_col_col add_col_lit len)
  also have "\<dots> = Inr (False, StrS (map (\<lambda>(a, w, s). row_id (release_cell a) w s)
      (zip (as_text r) (zip ws (as_text ob)))))"
    using len
    by (auto simp: list_eq_iff_nth_eq row_id_add_cell)
  finally show ?thesis .
qed

lemma eval_id_expr_False:
  assumes "df_wf df"
    and t: "get_column df ''tile_index'' = Inr t" and ob: "get_column df ''object_id'' = Inr ob"
    and ws: "as_int64 t = Inr ws"
  shows "eval df (id_expr False) =
    Inr (False, StrS (map (\<lambda>(w, s). row_id (Some []) w s) (zip ws (as_text ob))))"
proof -
  have len: "length ws = df_height df" "series_len ob = df_height df"
    using assms by (simp_all add: df_wf_column_len length_as_int64)
  have "eval df (id_expr False) =
      Inr (False, StrS (map2 (\<lambda>x y. add_cell x y)
        (map (\<lambda>x. add_cell x (Some [95]))
          (map (add_cell (Some [])) (map (map_option int64_text) ws)))
        (map (map_option (replace_first [45] [78, 69, 71])) (as_text ob))))"
    unfolding id_expr_def eval.simps(4) eval_prefix_False eval_tile [OF t ws]
      eval_object [OF ob]
    by (simp add: add_col_col add_col_lit add_lit_col len)
  also have "\<dots> = Inr (False, StrS (map (\<lambda>(w, s). row_id (Some []) w s) (zip ws (as_text ob))))"
    using len
    by (auto simp: list_eq_iff_nth_eq row_id_add_cell)
  finally show ?thesis .
qed

lemma eval_id_expr_fail:
  assumes t: "get_column df ''tile_index'' = Inr t" and ws: "as_int64 t = Inl e"
    and r: "inc \<Longrightarrow> \<exists>r. get_column df ''release_name'' = Inr r"
  shows "eval df (id_expr inc) = Inl InvalidOperationError"
proof (cases inc)
  case True
  with r obtain rs where "get_column df ''release_name'' = Inr rs" by blast
  with True show ?thesis
    unfolding id_expr_def eval.simps(4) eval_tile_fail [OF t ws]
    by (simp add: eval_prefix_True)
next
  case False
  then show ?thesis
    unfolding id_expr_def eval.simps(4) eval_tile_fail [OF t ws]
    by (simp add: eval_prefix_False)
qed

section \<open>Resolution against the schema\<close>

lemma infer_cast_col:
  "infer df (Cast (Col n) t) =
     (if n \<in> fst ` set df then Inr t else Inl (ColumnNotFoundError n))"
  using map_of_eq_None_iff [of df n]
  by (auto simp: get_column_def split: option.splits)

lemma infer_cast_cast_col:
  "infer df (Cast (Cast (Col n) u) t) =
     (if n \<in> fst ` set df then Inr t else Inl (ColumnNotFoundError n))"
  using map_of_eq_None_iff [of df n]
  by (auto simp: get_column_def split: option.splits)

lemma infer_id_expr:
  "infer df (id_expr inc) =
     (case missing_column df inc of None \<Rightarrow> Inr Utf8 | Some n \<Rightarrow> Inl (ColumnNotFoundError n))"
  by (simp add: id_expr_def prefix_expr_def infer_cast_col infer_cast_cast_col
      missing_column_def required_columns_def del: infer.simps(3))

lemma missing_column_None_iff:
  "missing_column df inc = None \<longleftrightarrow> set (required_columns inc) \<subseteq> fst ` set df"
  by (auto simp: missing_column_def find_None_iff)

lemma missing_column_Some:
  "missing_column df inc = Some n \<Longrightarrow> n \<in> set (required_columns inc) \<and> n \<notin> fst ` set df"
  by (auto simp: missing_column_def find_Some_iff)

lemma present_column: "n \<in> fst ` set df \<Longrightarrow> \<exists>s. get_column df n = Inr s"
  by (cases "get_column df n") (auto simp: get_column_Inl_iff)

lemma make_id_str_df_eval:
  "missing_column df inc = None \<Longrightarrow>
     make_id_str_df df inc = bind_res (eval df (id_expr inc)) (\<lambda>(sc, s). Inr s)"
  by (cases "eval df (id_expr inc)")
    (auto simp: make_id_str_df_def select_def infer_id_expr get_column_def)

lemma make_id_str_df_missing:
  "missing_column df inc = Some n \<Longrightarrow> make_id_str_df df inc = Inl (ColumnNotFoundError n)"
  by (simp add: make_id_str_df_def select_def infer_id_expr)

lemma required_present:
  "missing_column df inc = None \<Longrightarrow>
     (\<exists>t. get_column df ''tile_index'' = Inr t) \<and> (\<exists>ob. get_column df ''object_id'' = Inr ob) \<and>
     (inc \<longrightarrow> (\<exists>r. get_column df ''release_name'' = Inr r))"
  by (auto simp: missing_column_None_iff required_columns_def intro: present_column)

lemma column_present: "get_column df n = Inr s \<Longrightarrow> n \<in> fst ` set df"
  by (force simp: get_column_Inr_iff dest: map_of_SomeD)

lemma present_required:
  "get_column df ''tile_index'' = Inr t \<Longrightarrow> get_column df ''object_id'' = Inr ob \<Longrightarrow>
     (inc \<Longrightarrow> get_column df ''release_name'' = Inr r) \<Longrightarrow> missing_column df inc = None"
  by (auto simp: missing_column_None_iff required_columns_def dest: column_present)

lemmas batch_eval = make_id_str_df_def select_def id_expr_def prefix_expr_def get_column_def
  add_col_lit add_lit_col add_col_col

lemma make_id_str_df_Inl: "make_id_str_df df inc = Inl err \<Longrightarrow> polars_error err"
  by (auto simp: make_id_str_df_def bind_res_eq_Inl_iff get_column_Inl_iff dest: select_Inl)

lemma make_id_str_df_cases:
  assumes "df_wf df"
  shows "(case make_id_str_df df inc of
      Inr s \<Rightarrow> dtype_of s = Utf8 \<and> series_len s = df_height df \<and>
        missing_column df inc = None \<and>
        (\<exists>t ws. get_column df ''tile_index'' = Inr t \<and> as_int64 t = Inr ws)
    | Inl e \<Rightarrow> (e = InvalidOperationError \<and> missing_column df inc = None \<and>
          (\<exists>t. get_column df ''tile_index'' = Inr t \<and> isl (as_int64 t))) \<or>
        (\<exists>n. e = ColumnNotFoundError n \<and> missing_column df inc = Some n))"
proof (cases "missing_column df inc")
  case (Some n)
  then show ?thesis by (simp add: make_id_str_df_missing)
next
  case None
  from required_present [OF None] obtain t ob
    where t: "get_column df ''tile_index'' = Inr t" and ob: "get_column df ''object_id'' = Inr ob"
      and r: "inc \<Longrightarrow> \<exists>r. get_column df ''release_name'' = Inr r" by blast
  show ?thesis
  proof (cases "as_int64 t")
    case (Inl e)
    from eval_id_expr_fail [OF t Inl r] None t Inl show ?thesis
      by (simp add: make_id_str_df_eval)
  next
    case (Inr ws)
    have len: "length ws = df_height df" "series_len ob = df_height df"
      using assms t ob Inr by (simp_all add: df_wf_column_len length_as_int64)
    show ?thesis
    proof (cases inc)
      case True
      with r obtain rs where rs: "get_column df ''release_name'' = Inr rs" by blast
      with assms have "series_len rs = df_height df" by (simp add: df_wf_column_len)
      with eval_id_expr_True [OF assms rs t ob Inr] None t Inr True len show ?thesis
        by (simp add: make_id_str_df_eval)
    next
      case False
      with eval_id_expr_False [OF assms t ob Inr] None t Inr len show ?thesis
        by (simp add: make_id_str_df_eval)
    qed
  qed
qed

lemma make_id_str_df_Inr:
  "df_wf df \<Longrightarrow> make_id_str_df df inc = Inr s \<Longrightarrow>
     dtype_of s = Utf8 \<and> series_len s = df_height df"
  using make_id_str_df_cases [of df inc] by simp

lemma make_id_str_df_True:
  assumes "df_wf df" and "get_column df ''release_name'' = Inr r"
    and "get_column df ''tile_index'' = Inr t" and "get_column df ''object_id'' = Inr ob"
    and "as_int64 t = Inr ws"
  shows "make_id_str_df df True =
    Inr (StrS (map (\<lambda>(a, w, s). row_id (release_cell a) w s)
      (zip (as_text r) (zip ws (as_text ob)))))"
  using eval_id_expr_True [OF assms] present_required [OF assms(3,4,2)]
  by (simp add: make_id_str_df_eval)

lemma make_id_str_df_False:
  assumes "df_wf df"
    and "get_column df ''tile_index'' = Inr t" and "get_column df ''object_id'' = Inr ob"
    and "as_int64 t = Inr ws"
  shows "make_id_str_df df False =
    Inr (StrS (map (\<lambda>(w, s). row_id (Some []) w s) (zip ws (as_text ob))))"
  using eval_id_expr_False [OF assms] present_required [OF assms(2,3), of False]
  by (simp add: make_id_str_df_eval)

section \<open>Properties\<close>

text \<open>
  C2 (functional).  On a well-formed frame with the columns \<open>release_name\<close>,
  \<open>tile_index\<close> and \<open>object_id\<close>, whose tile indices convert to 64-bit
  integers, the batch method with the release name included returns one text
  per row, in the order of the rows: the release name, an underscore, the
  decimal text of the tile index, an underscore, and the object identifier with
  its first hyphen replaced by \<open>NEG\<close>; the row is null when one of its three
  cells is.
\<close>

theorem make_id_str_df_rows:
  assumes "df_wf df" and "get_column df ''release_name'' = Inr r"
    and "get_column df ''tile_index'' = Inr t" and "get_column df ''object_id'' = Inr ob"
    and "as_int64 t = Inr ws"
  shows "make_id_str_df df True =
    Inr (StrS (map (\<lambda>(a, w, s). row_id (release_cell a) w s)
      (zip (as_text r) (zip ws (as_text ob)))))"
  using assms by (rule make_id_str_df_True)

theorem make_id_str_df_rows_witness:
  "make_id_str_df
     [(''release_name'', StrS [Some (lit ''Q1_R1''), Some (lit ''Q1_R1'')]),
      (''tile_index'', IntS [Some 1, Some 2]),
      (''object_id'', StrS [Some (lit ''a-1''), Some (lit ''b-2'')])] True =
   Inr (StrS [Some (lit ''Q1_R1_1_aNEG1''), Some (lit ''Q1_R1_2_bNEG2'')])"
  using make_id_str_df_rows [of
      "[(''release_name'', StrS [Some (lit ''Q1_R1''), Some (lit ''Q1_R1'')]),
        (''tile_index'', IntS [Some 1, Some 2]),
        (''object_id'', StrS [Some (lit ''a-1''), Some (lit ''b-2'')])]"
      "StrS [Some (lit ''Q1_R1''), Some (lit ''Q1_R1'')]" "IntS [Some 1, Some 2]"
      "StrS [Some (lit ''a-1''), Some (lit ''b-2'')]" "[Some 1, Some 2]"]
  by (simp add: zt_eval)

text \<open>
  C20 (functional).  Without the release name the batch method reads only
  \<open>tile_index\<close> and \<open>object_id\<close>, and a row is the decimal text of the tile
  index, an underscore, and the object identifier with its first hyphen
  replaced; a tile index given as text is parsed first.
\<close>

theorem make_id_str_df_no_release:
  assumes "df_wf df"
    and "get_column df ''tile_index'' = Inr t" and "get_column df ''object_id'' = Inr ob"
    and "as_int64 t = Inr ws"
  shows "make_id_str_df df False =
    Inr (StrS (map (\<lambda>(w, s). row_id (Some []) w s) (zip ws (as_text ob))))"
  using assms by (rule make_id_str_df_False)

theorem make_id_str_df_no_release_witness:
  "make_id_str_df
     [(''tile_index'', StrS [Some (lit ''1''), Some (lit ''2'')]),
      (''object_id'', StrS [Some (lit ''a-1''), Some (lit ''b-2'')])] False =
   Inr (StrS [Some (lit ''1_aNEG1''), Some (lit ''2_bNEG2'')])"
  using make_id_str_df_no_release [of
      "[(''tile_index'', StrS [Some (lit ''1''), Some (lit ''2'')]),
        (''object_id'', StrS [Some (lit ''a-1''), Some (lit ''b-2'')])]"
      "StrS [Some (lit ''1''), Some (lit ''2'')]"
      "StrS [Some (lit ''a-1''), Some (lit ''b-2'')]" "[Some 1, Some 2]"]
  by (simp add: zt_eval)

text \<open>
  C4 (error).  When the columns exist and one tile index is text that is not
  an integer of 64 bits, the batch method fails with \<open>InvalidOperationError\<close>
  and returns no row at all, whatever the other rows hold.
\<close>

theorem make_id_str_df_cast_error:
  assumes "get_column df ''tile_index'' = Inr (StrS xs)" and "Some s \<in> set xs"
    and "parse_int64 s = Inl e"
    and "get_column df ''object_id'' = Inr ob"
    and "inc \<Longrightarrow> get_column df ''release_name'' = Inr r"
  shows "make_id_str_df df inc = Inl InvalidOperationError"
proof -
  from assms(2,3) have "isl (as_int64 (StrS xs))"
    unfolding as_int64_fails_iff by (auto intro!: bexI [of _ "Some s"])
  then obtain e' where "as_int64 (StrS xs) = Inl e'"
    by (cases "as_int64 (StrS xs)") simp_all
  from eval_id_expr_fail [OF assms(1) this] assms(5)
  have "eval df (id_expr inc) = Inl InvalidOperationError" by blast
  with present_required [OF assms(1,4,5)] show ?thesis
    by (simp add: make_id_str_df_eval)
qed

theorem make_id_str_df_cast_error_witness:
  "make_id_str_df
     [(''release_name'', StrS [Some (lit ''R''), Some (lit ''R'')]),
      (''tile_index'', StrS [Some (lit ''1''), Some (lit ''x2'')]),
      (''object_id'', StrS [Some (lit ''a''), Some (lit ''b'')])] True =
   Inl InvalidOperationError"
  using make_id_str_df_cast_error [of
      "[(''release_name'', StrS [Some (lit ''R''), Some (lit ''R'')]),
        (''tile_index'', StrS [Some (lit ''1''), Some (lit ''x2'')]),
        (''object_id'', StrS [Some (lit ''a''), Some (lit ''b'')])]"
      "[Some (lit ''1''), Some (lit ''x2'')]" "lit ''x2''" InvalidOperationError
      "StrS [Some (lit ''a''), Some (lit ''b'')]" True
      "StrS [Some (lit ''R''), Some (lit ''R'')]"]
  by (simp add: zt_eval)

text \<open>
  C21 (error).  When a column the expression reads is not in the frame, the
  batch method fails with \<open>ColumnNotFoundError\<close> naming a column that is
  missing; \<open>release_name\<close> is read only when the release name is included.
\<close>

theorem make_id_str_df_missing_column:
  assumes "\<not> set (required_columns inc) \<subseteq> fst ` set df"
  shows "\<exists>n \<in> set (required_columns inc) - fst ` set df.
    make_id_str_df df inc = Inl (ColumnNotFoundError n)"
proof -
  from assms obtain n where n: "missing_column df inc = Some n"
    unfolding missing_column_None_iff [symmetric] by blast
  from missing_column_Some [OF n] make_id_str_df_missing [OF n] show ?thesis by blast
qed

theorem make_id_str_df_missing_column_witness:
  "make_id_str_df [(''tile_index'', IntS [Some 1]), (''object_id'', StrS [Some (lit ''a'')])] True =
     Inl (ColumnNotFoundError ''release_name'')"
  using make_id_str_df_missing_column [of True
      "[(''tile_index'', IntS [Some 1]), (''object_id'', StrS [Some (lit ''a'')])]"]
  by (auto simp: zt_eval)

text \<open>
  C10 (invariant).  On a well-formed frame the batch method has three
  outcomes: a column of text with one entry per row of the frame, exactly when
  the columns it reads exist and every tile index converts;
  \<open>InvalidOperationError\<close>; or \<open>ColumnNotFoundError\<close>.  It never fails on the
  shape or type of its columns.
\<close>

theorem make_id_str_df_outcome:
  assumes "df_wf df"
  shows "(case make_id_str_df df inc of
      Inr s \<Rightarrow> dtype_of s = Utf8 \<and> series_len s = df_height df \<and>
        missing_column df inc = None \<and>
        (\<exists>t ws. get_column df ''tile_index'' = Inr t \<and> as_int64 t = Inr ws)
    | Inl e \<Rightarrow> (e = InvalidOperationError \<and> missing_column df inc = None \<and>
          (\<exists>t. get_column df ''tile_index'' = Inr t \<and> isl (as_int64 t))) \<or>
        (\<exists>n. e = ColumnNotFoundError n \<and> missing_column df inc = Some n))"
  using assms by (rule make_id_str_df_cases)

theorem make_id_str_df_outcome_witness:
  "df_wf [(''tile_index'', StrS [Some (lit ''+7''), None]),
          (''object_id'', IntS [Some (- 5), Some 3])] \<and>
   make_id_str_df [(''tile_index'', StrS [Some (lit ''+7''), None]),
          (''object_id'', IntS [Some (- 5), Some 3])] False =
     Inr (StrS [Some (lit ''7_NEG5''), None]) \<and>
   as_int64 (StrS [Some (lit ''+7''), None]) = Inr [Some 7, None]"
proof -
  have wf: "df_wf [(''tile_index'', StrS [Some (lit ''+7''), None]),
      (''object_id'', IntS [Some (- 5), Some 3])]"
    by (simp add: zt_eval)
  have val: "make_id_str_df [(''tile_index'', StrS [Some (lit ''+7''), None]),
      (''object_id'', IntS [Some (- 5), Some 3])] False = Inr (StrS [Some (lit ''7_NEG5''), None])"
    by (simp add: batch_eval zt_eval)
  from make_id_str_df_outcome [OF wf, of False] wf val show ?thesis
    by (auto simp: zt_eval)
qed

text \<open>
  C22 (functional).  A row of the result is null exactly when the release name,
  the tile index or the object identifier of that row is null: a null in one
  cell does not fail the call and does not affect the other rows.
\<close>

theorem make_id_str_df_null_rows:
  assumes "df_wf df" and "get_column df ''release_name'' = Inr r"
    and "get_column df ''tile_index'' = Inr t" and "get_column df ''object_id'' = Inr ob"
    and "as_int64 t = Inr ws"
  shows "\<exists>ys. make_id_str_df df True = Inr (StrS ys) \<and> length ys = df_height df \<and>
    (\<forall>i < df_height df. ys ! i = None \<longleftrightarrow>
       as_text r ! i = None \<or> ws ! i = None \<or> as_text ob ! i = None)"
proof -
  have len: "series_len r = df_height df" "length ws = df_height df"
    "series_len ob = df_height df"
    using assms by (simp_all add: df_wf_column_len length_as_int64)
  from eval_id_expr_True [OF assms] present_required [OF assms(3,4,2)] len show ?thesis
    by (simp add: make_id_str_df_eval row_id_eq_None_iff release_cell_def)
qed

theorem make_id_str_df_null_rows_witness:
  "\<exists>ys. make_id_str_df
     [(''release_name'', StrS [None, Some (lit ''R'')]),
      (''tile_index'', IntS [Some 1, Some 2]),
      (''object_id'', StrS [Some (lit ''a''), Some (lit ''b'')])] True = Inr (StrS ys) \<and>
     length ys = 2 \<and> ys ! 0 = None \<and> ys ! 1 \<noteq> None"
proof -
  have wf: "df_wf [(''release_name'', StrS [None, Some (lit ''R'')]),
      (''tile_index'', IntS [Some 1, Some 2]),
      (''object_id'', StrS [Some (lit ''a''), Some (lit ''b'')])]"
    by (simp add: zt_eval)
  from make_id_str_df_null_rows [OF wf, of "StrS [None, Some (lit ''R'')]"
      "IntS [Some 1, Some 2]" "StrS [Some (lit ''a''), Some (lit ''b'')]" "[Some 1, Some 2]"]
  show ?thesis
    by (auto simp: zt_eval All_less_Suc)
qed

end
