(* ===== verification/Dispatch.thy ===== *)
theory Dispatch
  imports Id_Str Id_Str_Batch
begin

text \<open>
  The call \<open>make_id_str(*args, **kwargs)\<close> as a caller sees it: the two
  functions decorated with \<open>@dispatch\<close> in \<open>_src/upload_utils.py\<close> are two
  methods of one function, and plum chooses between them by the types of the
  positional arguments.

  \<open>pyval\<close> are the values a caller passes.  \<open>scalar_sig\<close> and \<open>batch_sig\<close> are the
  two signatures: a tile index (\<open>int | str\<close>; a \<open>bool\<close> is an \<open>int\<close> in Python), an
  object id (\<open>str\<close>) and optionally a release name (\<open>str | None\<close>); or one
  data frame.  \<open>resolve\<close> picks the method and binds its parameters, and
  fails with \<open>NotFoundLookupError\<close> when no signature matches.  Keyword arguments play no
  part in the choice: the scalar method, whose parameters are positional-only,
  rejects every keyword with \<open>TypeError\<close>, and the batch method accepts
  \<open>include_release_name\<close> only.  Keyword values are booleans, as annotated.

  The lemmas show which method answers which call (\<open>make_id_str_call_result\<close>
  is the complete list of the calls that return), when exactly the call fails
  with \<open>NotFoundLookupError\<close> and with \<open>TypeError\<close>, and that every other error
  is one of the batch method.  The inversions of the signatures are
  \<open>fun_cases\<close> rules.
\<close>

section \<open>Definitions\<close>

datatype pyval = VInt int | VBool bool | VStr pystr | VNone | VFrame dataframe

datatype id_result = IdText pystr | IdColumn series

datatype target = Scalar tile_index pystr "pystr option" | Batch dataframe

fun tile_of :: "pyval \<Rightarrow> tile_index option" where
  "tile_of (VInt n) = Some (TInt n)"
| "tile_of (VBool b) = Some (TBool b)"
| "tile_of (VStr s) = Some (TStr s)"
| "tile_of v = None"

fun object_of :: "pyval \<Rightarrow> pystr option" where
  "object_of (VStr s) = Some s"
| "object_of v = None"

fun release_of :: "pyval \<Rightarrow> pystr option option" where
  "release_of (VStr s) = Some (Some s)"
| "release_of VNone = Some None"
| "release_of v = None"

fun scalar_args :: "pyval list \<Rightarrow> (tile_index \<times> pystr \<times> pystr option) option" where
  "scalar_args [t, ob] =
     (case (tile_of t, object_of ob) of (Some ti, Some s) \<Rightarrow> Some (ti, s, None) | _ \<Rightarrow> None)"
| "scalar_args [t, ob, r] =
     (case (tile_of t, object_of ob, release_of r) of
        (Some ti, Some s, Some rn) \<Rightarrow> Some (ti, s, rn)
      | _ \<Rightarrow> None)"
| "scalar_args args = None"

definition scalar_sig :: "pyval list \<Rightarrow> bool" where
  "scalar_sig args \<longleftrightarrow> scalar_args args \<noteq> None"

fun batch_args :: "pyval list \<Rightarrow> dataframe option" where
  "batch_args [VFrame df] = Some df"
| "batch_args args = None"

definition batch_sig :: "pyval list \<Rightarrow> bool" where
  "batch_sig args \<longleftrightarrow> batch_args args \<noteq> None"

definition resolve :: "pyval list \<Rightarrow> target result" where
  "resolve args =
     (case scalar_args args of
        Some (ti, s, rn) \<Rightarrow> Inr (Scalar ti s rn)
      | None \<Rightarrow>
          (case batch_args args of
             Some df \<Rightarrow> Inr (Batch df)
           | None \<Rightarrow> Inl NotFoundLookupError))"

fun batch_kwargs :: "(string \<times> bool) list \<Rightarrow> bool result" where
  "batch_kwargs [] = Inr True"
| "batch_kwargs [(k, b)] = (if k = ''include_release_name'' then Inr b else Inl TypeError)"
| "batch_kwargs kwargs = Inl TypeError"

fun call_target :: "target \<Rightarrow> (string \<times> bool) list \<Rightarrow> id_result result" where
  "call_target (Scalar ti s rn) kwargs =
     (if kwargs \<noteq> [] then Inl TypeError else Inr (IdText (make_id_str ti s rn)))"
| "call_target (Batch df) kwargs =
     bind_res (batch_kwargs kwargs) (\<lambda>inc.
       bind_res (make_id_str_df df inc) (\<lambda>s. Inr (IdColumn s)))"

definition make_id_str_call :: "pyval list \<Rightarrow> (string \<times> bool) list \<Rightarrow> id_result result" where
  "make_id_str_call args kwargs = bind_res (resolve args) (\<lambda>m. call_target m kwargs)"

declare scalar_sig_def [zt_eval] batch_sig_def [zt_eval] resolve_def [zt_eval]
  make_id_str_call_def [zt_eval]

section \<open>The signatures\<close>

text \<open>Inversion of the signatures: what the arguments are when a signature matches.\<close>

fun_cases batch_args_SomeE: "batch_args args = Some df"
  and scalar_args_SomeE: "scalar_args args = Some x"
  and batch_kwargs_InrE: "batch_kwargs kwargs = Inr inc"
  and batch_kwargs_InlE: "batch_kwargs kwargs = Inl e"

lemma batch_args_Some_iff: "batch_args args = Some df \<longleftrightarrow> args = [VFrame df]"
  by (auto elim: batch_args_SomeE)

lemma scalar_args_length: "scalar_args args = Some x \<Longrightarrow> length args = 2 \<or> length args = 3"
  by (erule scalar_args_SomeE) simp_all

lemma scalar_args_no_frame: "scalar_args args = Some x \<Longrightarrow> batch_args args = None"
  by (erule scalar_args_SomeE) simp_all

lemma signatures_disjoint: "\<not> (scalar_sig args \<and> batch_sig args)"
  by (auto simp: scalar_sig_def batch_sig_def dest: scalar_args_no_frame)

lemma scalar_args_two:
  "scalar_args [t, ob] = Some x \<longleftrightarrow>
     (\<exists>ti s. tile_of t = Some ti \<and> ob = VStr s \<and> x = (ti, s, None))"
  by (cases ob) (auto split: option.splits)

lemma scalar_args_three:
  "scalar_args [t, ob, r] = Some x \<longleftrightarrow>
     (\<exists>ti s rn. tile_of t = Some ti \<and> ob = VStr s \<and> release_of r = Some rn \<and> x = (ti, s, rn))"
  by (cases ob) (auto split: option.splits)

lemma resolve_scalar: "scalar_args args = Some (ti, s, rn) \<Longrightarrow> resolve args = Inr (Scalar ti s rn)"
  by (simp add: resolve_def)

lemma resolve_batch: "resolve [VFrame df] = Inr (Batch df)"
  by (simp add: resolve_def)

lemma resolve_not_found:
  "resolve args = Inl e \<longleftrightarrow> \<not> scalar_sig args \<and> \<not> batch_sig args \<and> e = NotFoundLookupError"
  by (auto simp: resolve_def scalar_sig_def batch_sig_def split: option.splits)

section \<open>The call\<close>

lemma call_scalar_args:
  "scalar_args args = Some (ti, s, rn) \<Longrightarrow>
     make_id_str_call args kwargs =
       (if kwargs = [] then Inr (IdText (make_id_str ti s rn)) else Inl TypeError)"
  by (simp add: make_id_str_call_def resolve_scalar)

lemma call_frame:
  "make_id_str_call [VFrame df] kwargs =
     bind_res (batch_kwargs kwargs) (\<lambda>inc.
       bind_res (make_id_str_df df inc) (\<lambda>s. Inr (IdColumn s)))"
  by (simp add: make_id_str_call_def resolve_batch)

lemma call_not_found:
  "\<not> scalar_sig args \<Longrightarrow> \<not> batch_sig args \<Longrightarrow>
     make_id_str_call args kwargs = Inl NotFoundLookupError"
  by (auto simp: make_id_str_call_def resolve_def scalar_sig_def batch_sig_def
      split: option.splits)

lemma batch_kwargs_Inl: "batch_kwargs kwargs = Inl e \<Longrightarrow> e = TypeError"
  by (erule batch_kwargs_InlE) (simp_all split: if_splits)

lemma batch_kwargs_Inr_iff:
  "batch_kwargs kwargs = Inr inc \<longleftrightarrow>
     kwargs = [] \<and> inc \<or> kwargs = [(''include_release_name'', inc)]"
  by (auto elim!: batch_kwargs_InrE split: if_splits)

lemma call_target_Inl:
  "call_target m kwargs = Inl e \<Longrightarrow> e = TypeError \<or> polars_error e"
  by (cases m)
    (auto simp: bind_res_eq_Inl_iff split: if_splits dest: batch_kwargs_Inl make_id_str_df_Inl)


lemma resolve_Inr:
  "resolve args = Inr m \<Longrightarrow>
     (case m of
        Scalar ti s rn \<Rightarrow> scalar_args args = Some (ti, s, rn)
      | Batch df \<Rightarrow> args = [VFrame df])"
  by (auto simp: resolve_def batch_args_Some_iff split: option.splits)

section \<open>Properties\<close>

text \<open>
  A call with a tile index (an integer, a boolean or text), an object id and optionally a release name or \<open>None\<close>, and without keywords,
  is answered by the scalar method on these arguments; two arguments mean no
  release name.
\<close>

theorem make_id_str_call_scalar:
  assumes "tile_of t = Some ti"
  shows "make_id_str_call [t, VStr ob] [] = Inr (IdText (make_id_str ti ob None)) \<and>
    make_id_str_call [t, VStr ob, VNone] [] = Inr (IdText (make_id_str ti ob None)) \<and>
    make_id_str_call [t, VStr ob, VStr r] [] = Inr (IdText (make_id_str ti ob (Some r)))"
  using assms by (simp add: call_scalar_args)

theorem make_id_str_call_scalar_witness:
  "make_id_str_call [VInt 12345, VStr (lit ''abc-123''), VStr (lit ''Q1_R1'')] [] =
     Inr (IdText (lit ''Q1_R1_12345_abcNEG123''))"
  using make_id_str_call_scalar [of "VInt 12345" "TInt 12345" "lit ''abc-123''" "lit ''Q1_R1''"]
  by (simp add: make_id_str_eq zt_eval)

text \<open>
  C17 (functional).  The call returns exactly in two ways: the positional
  arguments match the scalar signature, no keyword is passed, and the result
  is the identifier of the scalar method on the bound arguments; or the one
  positional argument is a data frame, the keywords are empty or
  \<open>include_release_name\<close> alone (true when absent), and the result is the column
  the batch method returns.
\<close>

theorem make_id_str_call_result:
  "make_id_str_call args kwargs = Inr r \<longleftrightarrow>
     (\<exists>ti s rn. scalar_args args = Some (ti, s, rn) \<and> kwargs = [] \<and>
        r = IdText (make_id_str ti s rn)) \<or>
     (\<exists>df inc c. args = [VFrame df] \<and>
        (kwargs = [] \<and> inc \<or> kwargs = [(''include_release_name'', inc)]) \<and>
        make_id_str_df df inc = Inr c \<and> r = IdColumn c)"
proof
  assume "make_id_str_call args kwargs = Inr r"
  then obtain m where m: "resolve args = Inr m" and c: "call_target m kwargs = Inr r"
    by (auto simp: make_id_str_call_def bind_res_eq_Inr_iff)
  from resolve_Inr [OF m] c
  show "(\<exists>ti s rn. scalar_args args = Some (ti, s, rn) \<and> kwargs = [] \<and>
        r = IdText (make_id_str ti s rn)) \<or>
     (\<exists>df inc c. args = [VFrame df] \<and>
        (kwargs = [] \<and> inc \<or> kwargs = [(''include_release_name'', inc)]) \<and>
        make_id_str_df df inc = Inr c \<and> r = IdColumn c)"
    by (cases m) (auto simp: bind_res_eq_Inr_iff batch_kwargs_Inr_iff split: if_splits)
next
  assume "(\<exists>ti s rn. scalar_args args = Some (ti, s, rn) \<and> kwargs = [] \<and>
        r = IdText (make_id_str ti s rn)) \<or>
     (\<exists>df inc c. args = [VFrame df] \<and>
        (kwargs = [] \<and> inc \<or> kwargs = [(''include_release_name'', inc)]) \<and>
        make_id_str_df df inc = Inr c \<and> r = IdColumn c)"
  then show "make_id_str_call args kwargs = Inr r"
    by (auto simp: call_scalar_args call_frame)
qed

theorem make_id_str_call_result_witness:
  "make_id_str_call [VFrame [(''tile_index'', IntS [Some 3]), (''object_id'', StrS [Some (lit ''a-b'')])]]
     [(''include_release_name'', False)] = Inr (IdColumn (StrS [Some (lit ''3_aNEGb'')])) \<and>
   make_id_str_call [VStr (lit ''3''), VStr (lit ''a-b''), VNone] [] = Inr (IdText (lit ''3_aNEGb''))"
proof -
  have "make_id_str_df [(''tile_index'', IntS [Some 3]), (''object_id'', StrS [Some (lit ''a-b'')])]
      False = Inr (StrS [Some (lit ''3_aNEGb'')])"
    by (simp add: batch_eval zt_eval)
  moreover have "make_id_str (TStr (lit ''3'')) (lit ''a-b'') None = lit ''3_aNEGb''"
    by (simp add: make_id_str_eq zt_eval)
  ultimately show ?thesis
    using make_id_str_call_result [of
        "[VFrame [(''tile_index'', IntS [Some 3]), (''object_id'', StrS [Some (lit ''a-b'')])]]"
        "[(''include_release_name'', False)]" "IdColumn (StrS [Some (lit ''3_aNEGb'')])"]
      make_id_str_call_result [of "[VStr (lit ''3''), VStr (lit ''a-b''), VNone]" "[]"
        "IdText (lit ''3_aNEGb'')"]
    by auto
qed

text \<open>
  C15 (error).  The call fails with \<open>NotFoundLookupError\<close> exactly when the
  positional arguments match neither signature, whatever the keywords: no
  method raises this error itself.
\<close>

theorem make_id_str_call_not_found:
  "make_id_str_call args kwargs = Inl NotFoundLookupError \<longleftrightarrow>
     \<not> scalar_sig args \<and> \<not> batch_sig args"
proof
  assume "make_id_str_call args kwargs = Inl NotFoundLookupError"
  then show "\<not> scalar_sig args \<and> \<not> batch_sig args"
    by (auto simp: make_id_str_call_def bind_res_eq_Inl_iff resolve_not_found
        dest: call_target_Inl)
qed (simp add: call_not_found)

text \<open>
  C35 (error).  Keywords do not take part in the choice of the method, and
  \<open>TypeError\<close> is the error of the keywords alone: the call raises it exactly
  when the positional arguments match the scalar signature and a keyword is
  passed, or they are a data frame and the keywords are not empty and not
  \<open>include_release_name\<close> alone.
\<close>

theorem make_id_str_call_keywords:
  "make_id_str_call args kwargs = Inl TypeError \<longleftrightarrow>
     (scalar_sig args \<and> kwargs \<noteq> []) \<or>
     (batch_sig args \<and> kwargs \<noteq> [] \<and> (\<forall>b. kwargs \<noteq> [(''include_release_name'', b)]))"
proof (cases "resolve args")
  case (Inl e)
  with resolve_not_found [of args e] show ?thesis
    by (simp add: make_id_str_call_def)
next
  case (Inr m)
  show ?thesis
  proof (cases m)
    case (Scalar ti s rn)
    with Inr have "scalar_args args = Some (ti, s, rn)" by (auto dest: resolve_Inr)
    then show ?thesis
      using signatures_disjoint [of args] by (simp add: call_scalar_args scalar_sig_def)
  next
    case (Batch df)
    with Inr have args: "args = [VFrame df]" by (auto dest: resolve_Inr)
    have "bind_res (make_id_str_df df inc) (\<lambda>s. Inr (IdColumn s)) \<noteq> Inl TypeError" for inc
      by (auto simp: bind_res_eq_Inl_iff dest: make_id_str_df_Inl)
    then show ?thesis
      using signatures_disjoint [of args]
      by (cases "batch_kwargs kwargs")
        (auto simp: args call_frame batch_sig_def batch_kwargs_Inr_iff dest: batch_kwargs_Inl)
  qed
qed

theorem make_id_str_call_keywords_witness:
  "make_id_str_call [VInt 1, VStr (lit ''a'')] [(''include_release_name'', False)] = Inl TypeError \<and>
   make_id_str_call [VFrame []] [(''release_name'', True)] = Inl TypeError \<and>
   make_id_str_call [VFrame []] [(''include_release_name'', False)] \<noteq> Inl TypeError"
  using make_id_str_call_keywords [of "[VInt 1, VStr (lit ''a'')]" "[(''include_release_name'', False)]"]
    make_id_str_call_keywords [of "[VFrame []]" "[(''release_name'', True)]"]
    make_id_str_call_keywords [of "[VFrame []]" "[(''include_release_name'', False)]"]
  by (auto simp: scalar_sig_def batch_sig_def)

text \<open>
  C39 (functional).  A boolean is accepted as a tile index, since Python counts
  it among the integers, but it is printed as \<open>True\<close> or \<open>False\<close>: the identifier
  of a boolean tile index is not the identifier of any integer, although
  \<open>True == 1\<close> in Python.
\<close>

theorem make_id_str_call_bool:
  "make_id_str_call [VBool b, VStr obj] [] =
     Inr (IdText ((if b then lit ''True'' else lit ''False'') @ lit ''_'' @
       np_char_replace obj (lit ''-'') (lit ''NEG''))) \<and>
   make_id_str_call [VBool b, VStr obj] [] \<noteq> make_id_str_call [VInt n, VStr obj'] []"
proof
  show "make_id_str_call [VBool b, VStr obj] [] =
     Inr (IdText ((if b then lit ''True'' else lit ''False'') @ lit ''_'' @
       np_char_replace obj (lit ''-'') (lit ''NEG'')))"
    by (simp add: call_scalar_args make_id_str_def)
  show "make_id_str_call [VBool b, VStr obj] [] \<noteq> make_id_str_call [VInt n, VStr obj'] []"
    by (simp add: call_scalar_args make_id_str_bool_neq_int)
qed



end
