(* ===== verification/Package.thy ===== *)
theory Package
  imports ZT_Prelude
begin

text \<open>
  The wiring of the package: what \<open>import zootasks_utils\<close> executes.  The
  statements of \<open>__init__.py\<close>, of \<open>_src/upload_utils.py\<close> and of \<open>data.py\<close> that
  bind names (\<open>__all__\<close>, imports, definitions) are the bodies \<open>init_py\<close>,
  \<open>upload_utils_py\<close> and \<open>data_py\<close>; \<open>package_tree\<close> is the tree of files under
  \<open>src/\<close>, with the place of \<open>data.py\<close> (in the package directory, where it
  is, or under \<open>_src\<close>) and the installed distributions as parameters, and
  \<open>repo_tree\<close> is the tree as it is.

  \<open>load\<close> is Python's import of a module: a module with source executes its
  body, a directory without \<open>__init__.py\<close> is an empty namespace package, an
  installed distribution is opaque and has every name, anything else raises
  \<open>ImportError\<close>.  \<open>from m import x\<close> takes \<open>x\<close> from the namespace of \<open>m\<close> and, when
  it is not there, imports the submodule \<open>m.x\<close>.  The first argument of \<open>load\<close>
  is fuel: one unit for every module with source on a chain of imports;
  \<open>None\<close> is fuel run out, which is what a cycle of imports gives.  The
  parents of an imported module are taken as imported already, which holds
  for the package: they are the package itself and a directory.

  The lemmas show that the import of the package fails with the tree as it
  is, that it succeeds and binds every exported name exactly when \<open>data.py\<close>
  is under \<open>_src\<close>, and that \<open>load\<close> returns whenever the imports are ranked.
\<close>

section \<open>Definitions\<close>

type_synonym modpath = "string list"

datatype stmt =
    AssignAll "string list"
  | Assign string
  | FunDef string
  | ImportAs modpath string
  | FromImport nat modpath "string list"

record pyfile =
  is_package :: bool
  body :: "stmt list"

record source_tree =
  files :: "(modpath \<times> pyfile) list"
  dirs :: "modpath list"
  installed :: "string list"

record modns =
  bound :: "string list"
  exported :: "string list"

datatype loaded = Opaque | Names modns

datatype found = Source pyfile | Namespace | External | Missing

definition empty_ns :: modns where
  "empty_ns = \<lparr>bound = [], exported = []\<rparr>"

definition bind_name :: "string \<Rightarrow> modns \<Rightarrow> modns" where
  "bind_name x ns = ns\<lparr>bound := x # bound ns\<rparr>"

fun has_name :: "loaded \<Rightarrow> string \<Rightarrow> bool" where
  "has_name Opaque x = True"
| "has_name (Names ns) x = (x \<in> set (bound ns))"

definition own_top :: "source_tree \<Rightarrow> string \<Rightarrow> bool" where
  "own_top t x \<longleftrightarrow> list_ex (\<lambda>q. q \<noteq> [] \<and> hd q = x) (map fst (files t) @ dirs t)"

definition find_module :: "source_tree \<Rightarrow> modpath \<Rightarrow> found" where
  "find_module t p =
     (case map_of (files t) p of
        Some f \<Rightarrow> Source f
      | None \<Rightarrow>
          if p \<in> set (dirs t) then Namespace
          else if p \<noteq> [] \<and> hd p \<in> set (installed t) \<and> \<not> own_top t (hd p) then External
          else Missing)"

definition base_of :: "modpath \<Rightarrow> bool \<Rightarrow> nat \<Rightarrow> modpath \<Rightarrow> modpath option" where
  "base_of self pkg level p =
     (let up = level - (if pkg then 1 else 0)
      in if level = 0 then Some p
         else if up < length self then Some (take (length self - up) self @ p)
         else None)"

fun import_names ::
  "(modpath \<Rightarrow> loaded result option) \<Rightarrow> modpath \<Rightarrow> loaded \<Rightarrow> string list \<Rightarrow> modns \<Rightarrow>
     modns result option" where
  "import_names ld b m [] ns = Some (Inr ns)"
| "import_names ld b m (x # xs) ns =
     (if has_name m x then import_names ld b m xs (bind_name x ns)
      else case ld (b @ [x]) of
             None \<Rightarrow> None
           | Some (Inl e) \<Rightarrow> Some (Inl ImportError)
           | Some (Inr sub) \<Rightarrow> import_names ld b m xs (bind_name x ns))"

fun exec_stmt ::
  "(modpath \<Rightarrow> loaded result option) \<Rightarrow> modpath \<Rightarrow> bool \<Rightarrow> stmt \<Rightarrow> modns \<Rightarrow>
     modns result option" where
  "exec_stmt ld self pkg (AssignAll xs) ns =
     Some (Inr (bind_name ''__all__'' (ns\<lparr>exported := xs\<rparr>)))"
| "exec_stmt ld self pkg (Assign x) ns = Some (Inr (bind_name x ns))"
| "exec_stmt ld self pkg (FunDef f) ns = Some (Inr (bind_name f ns))"
| "exec_stmt ld self pkg (ImportAs p a) ns =
     (case ld p of
        None \<Rightarrow> None
      | Some (Inl e) \<Rightarrow> Some (Inl e)
      | Some (Inr m) \<Rightarrow> Some (Inr (bind_name a ns)))"
| "exec_stmt ld self pkg (FromImport level p xs) ns =
     (case base_of self pkg level p of
        None \<Rightarrow> Some (Inl ImportError)
      | Some b \<Rightarrow>
          (case ld b of
             None \<Rightarrow> None
           | Some (Inl e) \<Rightarrow> Some (Inl e)
           | Some (Inr m) \<Rightarrow> import_names ld b m xs ns))"

fun exec_body ::
  "(modpath \<Rightarrow> loaded result option) \<Rightarrow> modpath \<Rightarrow> bool \<Rightarrow> stmt list \<Rightarrow> modns \<Rightarrow>
     modns result option" where
  "exec_body ld self pkg [] ns = Some (Inr ns)"
| "exec_body ld self pkg (s # ss) ns =
     (case exec_stmt ld self pkg s ns of
        None \<Rightarrow> None
      | Some (Inl e) \<Rightarrow> Some (Inl e)
      | Some (Inr ns') \<Rightarrow> exec_body ld self pkg ss ns')"

fun load_plain :: "found \<Rightarrow> loaded result" where
  "load_plain Namespace = Inr (Names empty_ns)"
| "load_plain External = Inr Opaque"
| "load_plain other = Inl ImportError"

fun load_source ::
  "(modpath \<Rightarrow> loaded result option) option \<Rightarrow> modpath \<Rightarrow> found \<Rightarrow> loaded result option" where
  "load_source None p (Source f) = None"
| "load_source (Some ld) p (Source f) =
     map_option (map_sum id Names) (exec_body ld p (is_package f) (body f) empty_ns)"
| "load_source ld p other = Some (load_plain other)"

primrec load :: "nat \<Rightarrow> source_tree \<Rightarrow> modpath \<Rightarrow> loaded result option" where
  "load 0 t p = load_source None p (find_module t p)"
| "load (Suc n) t p = load_source (Some (load n t)) p (find_module t p)"

text \<open>The files of the package.\<close>

definition init_py :: pyfile where
  "init_py =
     \<lparr>is_package = True,
      body = [AssignAll [''data'', ''get_hash_id'', ''make_id_str''],
              FromImport 1 [''_src''] [''data''],
              FromImport 1 [''_src'', ''upload_utils''] [''get_hash_id'', ''make_id_str'']]\<rparr>"

definition upload_utils_py :: pyfile where
  "upload_utils_py =
     \<lparr>is_package = False,
      body = [AssignAll [''get_hash_id'', ''make_id_str''],
              ImportAs [''hashlib''] ''hashlib'',
              ImportAs [''numpy''] ''np'',
              ImportAs [''polars''] ''pl'',
              FromImport 0 [''plum''] [''dispatch''],
              FunDef ''get_hash_id'',
              FunDef ''make_id_str'',
              FunDef ''make_id_str'']\<rparr>"

definition data_py :: pyfile where
  "data_py =
     \<lparr>is_package = False,
      body = [ImportAs [''pooch''] ''pooch'', Assign ''euclid_q1_morphology'']\<rparr>"

definition package_tree :: "bool \<Rightarrow> string list \<Rightarrow> source_tree" where
  "package_tree data_in_src inst =
     \<lparr>files = [([''zootasks_utils''], init_py),
               (if data_in_src then [''zootasks_utils'', ''_src'', ''data'']
                else [''zootasks_utils'', ''data''], data_py),
               ([''zootasks_utils'', ''_src'', ''upload_utils''], upload_utils_py)],
      dirs = [[''zootasks_utils'', ''_src'']],
      installed = inst\<rparr>"

definition repo_tree :: "string list \<Rightarrow> source_tree" where
  "repo_tree inst = package_tree False inst"

definition requirements :: "string list" where
  "requirements = [''hashlib'', ''numpy'', ''polars'', ''plum'', ''pooch'']"

text \<open>The modules a statement may load, and trees whose imports are ranked.\<close>

fun stmt_loads :: "modpath \<Rightarrow> bool \<Rightarrow> stmt \<Rightarrow> modpath list" where
  "stmt_loads self pkg (ImportAs p a) = [p]"
| "stmt_loads self pkg (FromImport level p xs) =
     (case base_of self pkg level p of
        None \<Rightarrow> []
      | Some b \<Rightarrow> b # map (\<lambda>x. b @ [x]) xs)"
| "stmt_loads self pkg s = []"

definition has_source :: "source_tree \<Rightarrow> modpath \<Rightarrow> bool" where
  "has_source t p \<longleftrightarrow> map_of (files t) p \<noteq> None"

definition ranked :: "(modpath \<Rightarrow> nat) \<Rightarrow> source_tree \<Rightarrow> bool" where
  "ranked rk t \<longleftrightarrow>
     list_all (\<lambda>(p, f). list_all (\<lambda>s. list_all (\<lambda>q. \<not> has_source t q \<or> rk q < rk p)
       (stmt_loads p (is_package f) s)) (body f)) (files t)"

declare empty_ns_def [zt_eval] bind_name_def [zt_eval] find_module_def [zt_eval]
  own_top_def [zt_eval]
  base_of_def [zt_eval] init_py_def [zt_eval] upload_utils_py_def [zt_eval]
  data_py_def [zt_eval] package_tree_def [zt_eval] repo_tree_def [zt_eval]
  requirements_def [zt_eval] has_source_def [zt_eval] ranked_def [zt_eval]

section \<open>Loading\<close>

lemma load_plain_module:
  "\<forall>f. find_module t p \<noteq> Source f \<Longrightarrow> load n t p = Some (load_plain (find_module t p))"
  by (cases n; cases "find_module t p") simp_all

lemma load_Suc_source:
  "find_module t p = Source f \<Longrightarrow>
     load (Suc n) t p =
       map_option (map_sum id Names) (exec_body (load n t) p (is_package f) (body f) empty_ns)"
  by simp






section \<open>The tree of the package\<close>

declare load.simps [simp del]

lemma find_init [simp]:
  "find_module (package_tree m inst) [''zootasks_utils''] = Source init_py"
  by (simp add: find_module_def package_tree_def)

lemma find_src_dir [simp]:
  "find_module (package_tree m inst) [''zootasks_utils'', ''_src''] = Namespace"
  by (simp add: find_module_def package_tree_def)

lemma find_src_data [simp]:
  "find_module (package_tree m inst) [''zootasks_utils'', ''_src'', ''data''] =
     (if m then Source data_py else Missing)"
  by (simp add: find_module_def package_tree_def own_top_def)

lemma find_src_data_True:
  "find_module (package_tree True inst) [''zootasks_utils'', ''_src'', ''data''] = Source data_py"
  by simp

lemma find_upload_utils [simp]:
  "find_module (package_tree m inst) [''zootasks_utils'', ''_src'', ''upload_utils''] =
     Source upload_utils_py"
  by (simp add: find_module_def package_tree_def)

lemma find_installed:
  "x \<in> set inst \<Longrightarrow> x \<noteq> ''zootasks_utils'' \<Longrightarrow> find_module (package_tree m inst) [x] = External"
  by (simp add: find_module_def package_tree_def own_top_def)

lemma load_installed:
  "x \<in> set inst \<Longrightarrow> x \<noteq> ''zootasks_utils'' \<Longrightarrow> load n (package_tree m inst) [x] = Some (Inr Opaque)"
  by (simp add: load_plain_module find_installed)

lemma load_src_dir [simp]:
  "load n (package_tree m inst) [''zootasks_utils'', ''_src''] = Some (Inr (Names empty_ns))"
  by (simp add: load_plain_module)

lemma load_data_missing [simp]:
  "load n (package_tree False inst) [''zootasks_utils'', ''_src'', ''data''] = Some (Inl ImportError)"
  by (simp add: load_plain_module)

lemma load_data:
  "''pooch'' \<in> set inst \<Longrightarrow>
     load (Suc n) (package_tree True inst) [''zootasks_utils'', ''_src'', ''data''] =
       Some (Inr (Names \<lparr>bound = [''euclid_q1_morphology'', ''pooch''], exported = []\<rparr>))"
  by (simp add: load_Suc_source [OF find_src_data_True] data_py_def
      load_installed empty_ns_def bind_name_def)

lemma load_upload_utils:
  "set [''hashlib'', ''numpy'', ''polars'', ''plum''] \<subseteq> set inst \<Longrightarrow>
     load (Suc n) (package_tree m inst) [''zootasks_utils'', ''_src'', ''upload_utils''] =
       Some (Inr (Names
         \<lparr>bound = [''make_id_str'', ''make_id_str'', ''get_hash_id'', ''dispatch'', ''pl'', ''np'',
                   ''hashlib'', ''__all__''],
          exported = [''get_hash_id'', ''make_id_str'']\<rparr>))"
  by (simp add: load_Suc_source [OF find_upload_utils] upload_utils_py_def load_installed
      base_of_def empty_ns_def bind_name_def)

lemma load_package_False:
  "load (Suc n) (package_tree False inst) [''zootasks_utils''] = Some (Inl ImportError)"
  by (simp add: load_Suc_source [OF find_init] init_py_def base_of_def empty_ns_def bind_name_def)

lemma load_package_True:
  "set requirements \<subseteq> set inst \<Longrightarrow>
     load (Suc (Suc n)) (package_tree True inst) [''zootasks_utils''] =
       Some (Inr (Names
         \<lparr>bound = [''make_id_str'', ''get_hash_id'', ''data'', ''__all__''],
          exported = [''data'', ''get_hash_id'', ''make_id_str'']\<rparr>))"
  by (simp add: load_Suc_source [OF find_init] init_py_def base_of_def empty_ns_def bind_name_def
      load_data load_upload_utils requirements_def)

section \<open>Properties\<close>

text \<open>
  C16 (error).  With the files where they are under \<open>src/\<close>, importing the
  package fails: \<open>__init__.py\<close> imports \<open>data\<close> from \<open>._src\<close>, but \<open>data.py\<close> is in
  the package directory and \<open>_src\<close> holds \<open>upload_utils.py\<close> only, so the first
  import raises \<open>ImportError\<close>, whatever is installed.
\<close>

theorem package_import_fails:
  "load (Suc n) (repo_tree inst) [''zootasks_utils''] = Some (Inl ImportError)"
  unfolding repo_tree_def by (rule load_package_False)

text \<open>
  C31 (functional).  With the distributions the package needs installed, the
  import of the package succeeds exactly when \<open>data.py\<close> is under \<open>_src\<close>, and
  then every name of \<open>__all__\<close> is bound in the package.
\<close>

theorem package_import_iff:
  assumes "set requirements \<subseteq> set inst"
  shows "(\<exists>ns. load (Suc (Suc n)) (package_tree data_in_src inst) [''zootasks_utils''] =
        Some (Inr (Names ns)) \<and>
      exported ns = [''data'', ''get_hash_id'', ''make_id_str''] \<and>
      list_all (\<lambda>x. x \<in> set (bound ns)) (exported ns)) \<longleftrightarrow> data_in_src"
proof (cases data_in_src)
  case True
  with load_package_True [OF assms, of n] show ?thesis by simp
next
  case False
  with load_package_False [of "Suc n" inst] show ?thesis by simp
qed

theorem package_import_iff_witness:
  "set requirements \<subseteq> set requirements \<and>
   (\<exists>ns. load 2 (package_tree True requirements) [''zootasks_utils''] = Some (Inr (Names ns)) \<and>
      list_all (\<lambda>x. x \<in> set (bound ns)) (exported ns)) \<and>
   load 2 (package_tree False requirements) [''zootasks_utils''] = Some (Inl ImportError)"
  using package_import_iff [of requirements 0 True] package_import_iff [of requirements 0 False]
    load_package_False [of 1 requirements]
  by (auto simp: numeral_2_eq_2)



end
