(* ===== verification/Spec2Isabelle.thy ===== *)
theory Spec2Isabelle
  imports ZT_Prelude Py_Text Id_Str Utf8 Sha256 Sha256_Vectors Hash_Id Polars Id_Str_Batch
    Dispatch Data_Registry Package
begin

text \<open>
  Verification development for the \<open>zootasks_utils\<close> package
  (\<open>src/zootasks_utils\<close>): the identifiers and hash ids it builds for the
  subjects of a citizen-science task.

  \<^bold>\<open>The program.\<close>  The package has one module of code,
  \<open>_src/upload_utils.py\<close>, with two functions.  \<open>get_hash_id\<close> concatenates a
  subject id and an extra key, encodes the text as UTF-8, hashes it with
  SHA-256 and prints the digest in hexadecimal.  \<open>make_id_str\<close> has two
  methods, chosen by the type of the first argument: the scalar method builds
  one identifier \<open>[release_]tile_object\<close> from a tile index, an object id and an
  optional release name, replacing the hyphens of the object id with numpy's
  \<open>char.replace\<close>; the batch method builds a polars expression that computes
  the same text for every row of a data frame and returns it as a column.
  \<open>data.py\<close> declares where a catalogue file is downloaded from and
  \<open>__init__.py\<close> exports the names.  The two functions do not call each other;
  callers hash the identifiers that \<open>make_id_str\<close> builds.

  \<^bold>\<open>Theories.\<close>
  \<^item> \<open>ZT_Prelude\<close>: text as a list of code points (\<open>pystr\<close>), bytes as 8-bit
    words, the exceptions of the program as the datatype \<open>py_error\<close>, results
    as \<open>py_error + 'a\<close> with \<open>bind_res\<close> and \<open>traverse\<close>, and the lemmas on
    lists and results the components share (\<open>first_at\<close> is the first
    position at which a predicate holds, as an exception reports it).  The
    collection \<open>zt_eval\<close> holds the defining equations that evaluate a
    definition on a concrete input.
  \<^item> \<open>Py_Text\<close>: the operations on text that the calls of the package reach:
    the decimal text of an integer (\<open>str_of_int\<close>, Python's \<open>str\<close> and the
    format of an f-string), its parser (\<open>parse_int\<close>), replacement of every
    match (\<open>replace_all\<close>) and of the first match (\<open>replace_first\<close>), and
    the removal of trailing NUL characters (\<open>rstrip_nul\<close>).
  \<^item> \<open>Id_Str\<close>: the scalar method of \<open>make_id_str\<close>.  \<open>tile_index\<close> is the
    union \<open>int | str\<close> of the signature (with the booleans, which Python
    counts among the integers), \<open>np_char_replace\<close> is numpy's
    \<open>char.replace\<close> on a scalar (the arguments pass through fixed-width
    arrays, which drop trailing NULs), \<open>release_prefix\<close> and \<open>make_id_str\<close> are
    the body of the method.
  \<^item> \<open>Utf8\<close>: \<open>str.encode()\<close>, strict UTF-8 (\<open>str_encode\<close>), with the error
    Python raises on a surrogate code point, and a decoder used as the
    reference of the round trip.
  \<^item> \<open>Sha256\<close>: SHA-256 as \<open>hashlib.sha256\<close> computes it, on 32-bit words:
    padding, blocks, message schedule, compression.  \<open>Sha256_Vectors\<close> checks
    the model against the two test vectors of the standard and against the
    digests \<open>hashlib\<close> gives for a subject id, for the empty message, for a
    message of 55 bytes (the longest of one block) and for bytes above
    \<open>0x7F\<close>.
  \<^item> \<open>Hash_Id\<close>: \<open>get_hash_id\<close> and \<open>hexdigest\<close>, and the call with its
    positional and keyword arguments (\<open>get_hash_id_call\<close>), bound as the
    signature \<open>(subject_id, /, *, extra_key)\<close> prescribes.
  \<^item> \<open>Polars\<close>: the part of polars the batch method calls: columns of 64-bit
    integers or text with nulls, frames, the expressions \<open>col\<close>, \<open>lit\<close>,
    \<open>cast\<close>, \<open>+\<close>, \<open>str.replace\<close>, \<open>alias\<close>, and \<open>select\<close>, which resolves an
    expression against the schema (\<open>infer\<close>) and then evaluates it (\<open>eval\<close>).
    The inductive judgement \<open>typed\<close> is the specification of the resolution,
    and \<open>eval_ok\<close> of the evaluation.
  \<^item> \<open>Id_Str_Batch\<close>: the batch method of \<open>make_id_str\<close>: \<open>prefix_expr\<close>,
    \<open>id_expr\<close> and \<open>make_id_str_df\<close> are the three statements of its body;
    \<open>row_id\<close> is the specification of one row.
  \<^item> \<open>Dispatch\<close>: the call \<open>make_id_str(*args, **kwargs)\<close>: the choice plum
    makes between the two methods by the types of the positional arguments
    (\<open>resolve\<close>), the keywords each method accepts, and the call itself
    (\<open>make_id_str_call\<close>).
  \<^item> \<open>Data_Registry\<close>: the descriptor of \<open>data.py\<close> as a record, and the form of
    its checksum and locator.
  \<^item> \<open>Package\<close>: the wiring of the package: the statements of \<open>__init__.py\<close>,
    \<open>_src/upload_utils.py\<close> and \<open>data.py\<close> that bind names, the tree of files
    under \<open>src/\<close> (\<open>repo_tree\<close>), and Python's import of a module over such a
    tree (\<open>load\<close>, with \<open>exec_body\<close>, \<open>exec_stmt\<close> and \<open>import_names\<close>).
  \<^item> This theory: the properties that span components: the batch method
    against the scalar method, and the hash id of an identifier.

  \<^bold>\<open>What the lemmas show.\<close>
  \<^item> Scalar identifiers: the shape of the result, that hyphens never survive
    in the object part, the length, injectivity on object ids free of \<open>N\<close>,
    \<open>_\<close> and NUL, the collisions outside that set, and that the result has
    the form the docstring shows exactly when the object id has no hyphen and
    no trailing NUL.
  \<^item> Hash ids: the result is 64 lowercase hexadecimal digits, the function
    fails exactly on surrogates, a call raises \<open>TypeError\<close> exactly when it is
    not one positional argument and the keyword \<open>extra_key\<close>, the hash
    depends on the concatenation only, equal hash ids mean equal text or a
    collision of SHA-256, and the values on the test vectors of the standard,
    on the example of the specification and at the boundaries of the input:
    empty text, the longest text of one block, and text outside ASCII.
  \<^item> UTF-8: decoding the encoding gives the text back; the length is between
    one and four bytes per code point.
  \<^item> SHA-256: the padded message is a whole number of blocks, one block
    exactly for a message of at most 55 bytes, the schedule
    satisfies the recurrence of the standard, the digest has 32 bytes, and
    padding and parsing are injective, so that different messages collide in
    the compression only.
  \<^item> Polars: \<open>infer\<close> decides the typing judgement; by induction on the
    judgement, a typed expression evaluates to a column of its type and of
    the height of the frame, or fails in a cast; the strict cast accepts
    exactly the integers of 64 bits, and casting integers to text and back is
    the identity.
  \<^item> Batch identifiers: every row is \<open>row_id\<close> of the cells of that row; a
    null cell gives a null row; a tile index that does not convert fails the
    whole call with \<open>InvalidOperationError\<close>; a missing column fails it with
    \<open>ColumnNotFoundError\<close>; there is no other outcome.
  \<^item> Dispatch: which method answers which call, that \<open>NotFoundLookupError\<close>
    is raised exactly when no signature matches, that keywords never change
    the choice and \<open>TypeError\<close> is raised exactly for the keywords a method
    does not take, that a boolean tile index never gets the identifier of an
    integer, and that the result has the type the annotations promise.
  \<^item> Package: importing the package raises \<open>ImportError\<close> with the files
    where they are, because \<open>data.py\<close> is not under \<open>_src\<close>; it succeeds and
    binds every name of \<open>__all__\<close> exactly when it is; and the import of a
    module returns whenever the imports of the tree are ranked.
  \<^item> Across components: on rows without nulls whose object id has at most one
    hyphen and no trailing NUL the batch method returns what the scalar method
    returns on each row, with and without the release name; on an object id
    with two hyphens or more it does not, because \<open>str.replace\<close> of polars
    replaces the first match only.  On a catalogue whose object ids are
    64-bit integers the two always agree, and two rows get the same
    identifier exactly when they agree in release name, tile index and
    object id.  An identifier built from text without surrogates always has
    a hash id, and hash ids of identifiers are unique up to collisions of
    SHA-256; for such a catalogue as a whole, hashing the column of the batch
    method gives one hash id per row, and equal hash ids mean equal rows or a
    collision.

  \<^bold>\<open>Bounds and assumptions.\<close>  Text is a list of natural numbers; the
  lemmas that need code points below \<open>0x110000\<close> assume \<open>valid_str\<close>.  Integers
  of Python are unbounded (\<open>int\<close>); the integers of a polars column are
  \<open>64 word\<close>, and a cast of text outside of 64 bits fails as polars does.  The
  functions of the two utilities are total and terminate: \<open>replace_all\<close> by a
  measure on the text left, everything else by structural recursion; the
  code of the package itself has no loop.  The one model with fuel is the
  import of a module (\<open>Package.load\<close>): a unit of fuel for every module with
  source on a chain of imports.  Fuel 2 is enough for the package (the
  package imports modules that import installed distributions only), and
  \<open>load_terminates\<close> shows that fuel above the rank of a module is enough in
  every tree whose imports are ranked.  The
  strict cast of text to \<open>Int64\<close> accepts an optional sign followed by decimal
  digits.  The pattern of \<open>str.replace\<close> is taken literally, which is what the
  regular expression \<open>-\<close> denotes.

  \<^bold>\<open>Not modelled.\<close>  Arguments of other types than the annotations name
  (arrays passed to the scalar method, keyword values that are not booleans),
  the limit of CPython on the number of digits of \<open>str(int)\<close>, columns of other
  types than \<open>Int64\<close> and text, the retrieval, caching and verification of
  files by pooch and the resolution of the cache directory on the platform
  (input and output), the contents of the installed distributions (an
  import from one of them always succeeds), and cyclic imports, for which
  Python hands out a partially initialised module and the model runs out of
  fuel.  No part of the package has concurrency or a protocol, so there is no
  liveness property to state.
\<close>

section \<open>The batch method against the scalar method\<close>

lemma batch_rows:
  assumes "df_wf df" and "get_column df ''release_name'' = Inr r"
    and "get_column df ''tile_index'' = Inr t" and "get_column df ''object_id'' = Inr ob"
    and "as_text r = map Some rs" and "as_int64 t = Inr (map Some ws)"
    and "as_text ob = map Some obs"
  shows "make_id_str_df df True =
      Inr (StrS (map (\<lambda>(a, w, s). row_id (release_cell (Some a)) (Some w) (Some s))
        (zip rs (zip ws obs))))"
    and "length rs = df_height df" and "length ws = df_height df"
    and "length obs = df_height df"
proof -
  from make_id_str_df_True [OF assms(1-4,6)] assms(5,7)
  show "make_id_str_df df True =
      Inr (StrS (map (\<lambda>(a, w, s). row_id (release_cell (Some a)) (Some w) (Some s))
        (zip rs (zip ws obs))))"
    by (simp add: map_zip3_map)
  from df_wf_column_len [OF assms(1)] assms(2-4) length_as_text [of r] length_as_text [of ob]
    length_as_int64 [OF assms(6)]
  show "length rs = df_height df" "length ws = df_height df" "length obs = df_height df"
    by (simp_all add: assms(5,7))
qed

lemma batch_rows_no_release:
  assumes "df_wf df" and "get_column df ''tile_index'' = Inr t"
    and "get_column df ''object_id'' = Inr ob"
    and "as_int64 t = Inr (map Some ws)" and "as_text ob = map Some obs"
  shows "make_id_str_df df False =
    Inr (StrS (map (\<lambda>(w, s). row_id (Some []) (Some w) (Some s)) (zip ws obs)))"
  using make_id_str_df_False [OF assms(1-4)] assms(5)
  by (simp add: zip_map_map case_prod_unfold)

text \<open>The row of the batch method is the scalar method on the cells of the row.\<close>

lemmas row_scalar = row_id_def release_cell_def make_id_str_eq int64_text_def rstrip_nul_id
  neg_text_def

lemma id_safe_int64_text [simp]: "id_safe (int64_text x)"
  by (simp add: int64_text_def)

lemma row_id_scalar_int:
  "row_id (release_cell (Some a)) (Some w) (Some (int64_text x)) =
     Some (make_id_str (TInt (sint w)) (int64_text x) (Some a))"
  using count_hyphen_str_of_int [of "sint x"] last_str_of_int [of "sint x"]
  by (simp add: row_scalar replace_first_eq_all)

text \<open>A catalogue whose object ids are 64-bit integers: the rows are scalar identifiers.\<close>

lemma batch_int_rows:
  assumes "df_wf df" and "get_column df ''release_name'' = Inr r"
    and "get_column df ''tile_index'' = Inr t"
    and "get_column df ''object_id'' = Inr (IntS (map Some xs))"
    and "as_text r = map Some rs" and "as_int64 t = Inr (map Some ws)"
  shows "make_id_str_df df True = Inr (StrS (map Some
      (map (\<lambda>(a, w, x). make_id_str (TInt (sint w)) (int64_text x) (Some a)) (zip rs (zip ws xs)))))"
    and "length rs = df_height df" and "length ws = df_height df" and "length xs = df_height df"
proof -
  have ob: "as_text (IntS (map Some xs)) = map Some (map int64_text xs)" by simp
  note rows = batch_rows [OF assms(1-4) assms(5,6) ob]
  show "make_id_str_df df True = Inr (StrS (map Some
      (map (\<lambda>(a, w, x). make_id_str (TInt (sint w)) (int64_text x) (Some a)) (zip rs (zip ws xs)))))"
    unfolding rows(1) by (simp add: zip_map2 zip_map_map case_prod_unfold row_id_scalar_int comp_def)
  from rows(2-4) show "length rs = df_height df" "length ws = df_height df"
    "length xs = df_height df" by simp_all
qed

lemma int_id_eq_iff:
  "make_id_str (TInt (sint w)) (int64_text x) (Some a) =
     make_id_str (TInt (sint w')) (int64_text x') (Some a') \<longleftrightarrow> a = a' \<and> w = w' \<and> x = x'"
  by (auto simp: make_id_str_eq_iff dest: signed_word_eqI)

text \<open>
  C5 (refinement).  On a frame without nulls whose object ids, as text, have
  at most one hyphen and no trailing NUL, the batch method returns, row by
  row and in the order of the rows, what the scalar method returns on the
  cells of the row, with the tile index as an integer: without release name
  when \<open>include_release_name\<close> is false, and with the release name of the row
  when it is true.  The columns may hold text or integers: \<open>as_text\<close> and
  \<open>as_int64\<close> are the casts of the expression.
\<close>

theorem batch_refines_scalar:
  assumes "df_wf df" and "get_column df ''tile_index'' = Inr t"
    and "get_column df ''object_id'' = Inr ob"
    and "as_int64 t = Inr (map Some ws)" and "as_text ob = map Some obs"
    and "\<forall>s \<in> set obs. count_list s 45 \<le> 1 \<and> (s = [] \<or> last s \<noteq> 0)"
  shows "make_id_str_df df False =
      Inr (StrS (map (\<lambda>(w, s). Some (make_id_str (TInt (sint w)) s None)) (zip ws obs))) \<and>
    (\<forall>r rs. get_column df ''release_name'' = Inr r \<and> as_text r = map Some rs \<longrightarrow>
       make_id_str_df df True =
         Inr (StrS (map (\<lambda>(a, w, s). Some (make_id_str (TInt (sint w)) s (Some a)))
           (zip rs (zip ws obs)))))"
proof (intro conjI allI impI)
  show "make_id_str_df df False =
      Inr (StrS (map (\<lambda>(w, s). Some (make_id_str (TInt (sint w)) s None)) (zip ws obs)))"
    unfolding batch_rows_no_release [OF assms(1-5)]
    using assms(6) by (auto simp: row_scalar replace_first_eq_all dest!: set_zip_rightD)
next
  fix r rs
  assume "get_column df ''release_name'' = Inr r \<and> as_text r = map Some rs"
  then have r: "get_column df ''release_name'' = Inr r" "as_text r = map Some rs" by simp_all
  show "make_id_str_df df True =
      Inr (StrS (map (\<lambda>(a, w, s). Some (make_id_str (TInt (sint w)) s (Some a)))
        (zip rs (zip ws obs))))"
    unfolding batch_rows(1) [OF assms(1) r(1) assms(2,3) r(2) assms(4,5)]
    using assms(6) by (auto simp: row_scalar replace_first_eq_all dest!: set_zip_rightD)
qed

theorem batch_refines_scalar_witness:
  "make_id_str_df
     [(''release_name'', StrS [Some (lit ''Q1_R1''), Some (lit ''Q1_R1'')]),
      (''tile_index'', IntS [Some 1, Some 2]),
      (''object_id'', StrS [Some (lit ''a-1''), Some (lit ''b-2'')])] True =
   Inr (StrS [Some (make_id_str (TInt 1) (lit ''a-1'') (Some (lit ''Q1_R1''))),
              Some (make_id_str (TInt 2) (lit ''b-2'') (Some (lit ''Q1_R1'')))]) \<and>
   make_id_str_df
     [(''release_name'', StrS [Some (lit ''Q1_R1''), Some (lit ''Q1_R1'')]),
      (''tile_index'', IntS [Some 1, Some 2]),
      (''object_id'', StrS [Some (lit ''a-1''), Some (lit ''b-2'')])] False =
   Inr (StrS [Some (make_id_str (TInt 1) (lit ''a-1'') None),
              Some (make_id_str (TInt 2) (lit ''b-2'') None)])"
proof -
  let ?r = "StrS [Some (lit ''Q1_R1''), Some (lit ''Q1_R1'')]"
  let ?t = "IntS [Some 1, Some 2]" and ?ob = "StrS [Some (lit ''a-1''), Some (lit ''b-2'')]"
  let ?df = "[(''release_name'', ?r), (''tile_index'', ?t), (''object_id'', ?ob)]"
  have wf: "df_wf ?df" by (simp add: df_wf_def df_height_def)
  have cols: "get_column ?df ''tile_index'' = Inr ?t" "get_column ?df ''object_id'' = Inr ?ob"
    "get_column ?df ''release_name'' = Inr ?r"
    by (simp_all add: get_column_def)
  have cells: "as_int64 ?t = Inr (map Some [1, 2])" "as_text ?ob = map Some [lit ''a-1'', lit ''b-2'']"
    "as_text ?r = map Some [lit ''Q1_R1'', lit ''Q1_R1'']"
    "\<forall>s \<in> set [lit ''a-1'', lit ''b-2'']. count_list s 45 \<le> 1 \<and> (s = [] \<or> last s \<noteq> 0)"
    by simp_all
  note both = batch_refines_scalar [OF wf cols(1,2) cells(1,2,4)]
  from both [THEN conjunct1] both [THEN conjunct2, rule_format, OF conjI, OF cols(3) cells(3)]
  show ?thesis by simp
qed

text \<open>
  C9 (equivalence).  On a row whose object id has two hyphens or more the
  batch method does not return what the scalar method returns: polars replaces
  the first hyphen only, numpy all of them.
\<close>

theorem batch_differs_from_scalar:
  assumes "df_wf df" and "get_column df ''release_name'' = Inr r"
    and "get_column df ''tile_index'' = Inr t" and "get_column df ''object_id'' = Inr ob"
    and "as_text r = map Some rs" and "as_int64 t = Inr (map Some ws)"
    and "as_text ob = map Some obs"
    and "i < length obs" and "2 \<le> count_list (obs ! i) 45"
  shows "\<exists>ys. make_id_str_df df True = Inr (StrS ys) \<and> length ys = length obs \<and>
    ys ! i \<noteq> Some (make_id_str (TInt (sint (ws ! i))) (obs ! i) (Some (rs ! i)))"
proof -
  from assms(9) replace_first_mem [of 45 "[78, 69, 71]" "obs ! i"]
  have "45 \<in> set (replace_first [45] [78, 69, 71] (obs ! i))" by simp
  moreover have "45 \<notin> set (neg_text (rstrip_nul (obs ! i)))" by simp
  ultimately have "replace_first [45] [78, 69, 71] (obs ! i) \<noteq> neg_text (rstrip_nul (obs ! i))"
    by metis
  then have "row_id (release_cell (Some (rs ! i))) (Some (ws ! i)) (Some (obs ! i)) \<noteq>
      Some (make_id_str (TInt (sint (ws ! i))) (obs ! i) (Some (rs ! i)))"
    by (simp add: row_id_def release_cell_def make_id_str_eq int64_text_def)
  with batch_rows(2-4) [OF assms(1-7)] assms(8) show ?thesis
    unfolding batch_rows(1) [OF assms(1-7)] by simp
qed

theorem batch_differs_from_scalar_witness:
  "make_id_str_df
     [(''release_name'', StrS [Some (lit ''R'')]), (''tile_index'', IntS [Some 1]),
      (''object_id'', StrS [Some (lit ''a-b-c'')])] True =
     Inr (StrS [Some (lit ''R_1_aNEGb-c'')]) \<and>
   make_id_str (TInt 1) (lit ''a-b-c'') (Some (lit ''R'')) = lit ''R_1_aNEGbNEGc''"
proof -
  have val: "make_id_str_df
     [(''release_name'', StrS [Some (lit ''R'')]), (''tile_index'', IntS [Some 1]),
      (''object_id'', StrS [Some (lit ''a-b-c'')])] True = Inr (StrS [Some (lit ''R_1_aNEGb-c'')])"
    by (simp add: batch_eval zt_eval)
  from batch_differs_from_scalar [of
      "[(''release_name'', StrS [Some (lit ''R'')]), (''tile_index'', IntS [Some 1]),
        (''object_id'', StrS [Some (lit ''a-b-c'')])]" "StrS [Some (lit ''R'')]" "IntS [Some 1]"
      "StrS [Some (lit ''a-b-c'')]" "[lit ''R'']" "[1]" "[lit ''a-b-c'']" 0]
    val
  show ?thesis
    by (simp add: df_wf_def df_height_def get_column_def make_id_str_eq zt_eval)
qed

text \<open>
  C11 (safety).  On a catalogue whose object ids are 64-bit integers, the
  identifiers of the batch method are unique: on a frame without nulls, every
  row gets the identifier the scalar method builds from its cells, and two
  rows get the same identifier exactly when they agree in release name, tile
  index and object id.
\<close>

theorem batch_ids_unique:
  assumes "df_wf df" and "get_column df ''release_name'' = Inr r"
    and "get_column df ''tile_index'' = Inr t"
    and "get_column df ''object_id'' = Inr (IntS (map Some xs))"
    and "as_text r = map Some rs" and "as_int64 t = Inr (map Some ws)"
  shows "\<exists>ys. make_id_str_df df True = Inr (StrS (map Some ys)) \<and> length ys = df_height df \<and>
    (\<forall>i < length ys. ys ! i = make_id_str (TInt (sint (ws ! i))) (int64_text (xs ! i)) (Some (rs ! i))) \<and>
    (\<forall>i < length ys. \<forall>j < length ys.
       ys ! i = ys ! j \<longleftrightarrow> rs ! i = rs ! j \<and> ws ! i = ws ! j \<and> xs ! i = xs ! j)"
proof -
  let ?f = "\<lambda>(a, w, x). make_id_str (TInt (sint w)) (int64_text x) (Some a)"
  let ?ys = "map ?f (zip rs (zip ws xs))"
  note rows = batch_int_rows [OF assms]
  have nth: "?ys ! i = make_id_str (TInt (sint (ws ! i))) (int64_text (xs ! i)) (Some (rs ! i))"
    if "i < df_height df" for i
    using that rows(2-4) by simp
  have "?ys ! i = ?ys ! j \<longleftrightarrow> rs ! i = rs ! j \<and> ws ! i = ws ! j \<and> xs ! i = xs ! j"
    if "i < df_height df" "j < df_height df" for i j
    unfolding nth [OF that(1)] nth [OF that(2)] by (rule int_id_eq_iff)
  with rows nth show ?thesis by (intro exI [of _ ?ys]) simp
qed

theorem batch_ids_unique_witness:
  "make_id_str_df
     [(''release_name'', StrS [Some (lit ''Q1''), Some (lit ''Q1'')]),
      (''tile_index'', IntS [Some 7, Some 7]),
      (''object_id'', IntS [Some (- 5), Some 5])] True =
   Inr (StrS [Some (lit ''Q1_7_NEG5''), Some (lit ''Q1_7_5'')])"
proof -
  let ?df = "[(''release_name'', StrS [Some (lit ''Q1''), Some (lit ''Q1'')]),
      (''tile_index'', IntS [Some 7, Some 7]), (''object_id'', IntS [Some (- 5), Some 5])]"
  have val: "make_id_str_df ?df True =
      Inr (StrS [Some (lit ''Q1_7_NEG5''), Some (lit ''Q1_7_5'')])"
    by (simp add: batch_eval zt_eval)
  have "df_wf ?df" by (simp add: df_wf_def df_height_def)
  from batch_ids_unique [OF this, of "StrS [Some (lit ''Q1''), Some (lit ''Q1'')]"
      "IntS [Some 7, Some 7]" "[- 5, 5]" "[lit ''Q1'', lit ''Q1'']" "[7, 7]"] val
  show ?thesis by (simp add: get_column_def)
qed


text \<open>
  The boundary of the batch method: a frame without rows gives the empty
  column, with and without the release name and also when the tile indices
  are text; a frame without columns is refused.
\<close>

lemma batch_empty_frame:
  "make_id_str_df [(''release_name'', StrS []), (''tile_index'', IntS []),
      (''object_id'', StrS [])] b = Inr (StrS []) \<and>
   make_id_str_df [(''tile_index'', StrS []), (''object_id'', IntS [])] False = Inr (StrS []) \<and>
   (\<exists>c. make_id_str_df [] b = Inl (ColumnNotFoundError c))"
  by (cases b) (simp_all add: batch_eval zt_eval)

section \<open>The hash id of an identifier\<close>









end
